(* ===== verification/Prelude.thy ===== *)
theory Prelude
  imports Complex_Main
begin

text \<open>
  Shared vocabulary of the development: the JavaScript semantics the TypeScript sources
  rely on, written once.
  \<^item> JavaScript numbers are modelled as \<^typ>\<open>real\<close> (exact arithmetic; IEEE-754
    rounding of intermediate results is not modelled); \<open>Math.round\<close> and
    \<open>Math.ceil\<close> as \<open>js_round\<close> and \<^const>\<open>ceiling\<close>;
  \<^item> an optional field \<open>x?: T\<close> is a \<open>T option\<close>, and the truthiness tests
    \<open>if (x)\<close> and \<open>x || d\<close> the code applies to it are \<open>truthy\<close> and
    \<open>str_or\<close>;
  \<^item> strings are UTF-8 byte lists (\<^typ>\<open>string\<close>); \<open>toLowerCase\<close>, \<open>trim\<close>,
    \<open>split(',')\<close> and \<open>replace(/\D/g, '')\<close> are \<open>to_lower\<close>, \<open>js_trim\<close>,
    \<open>split_on\<close> and \<open>only_digits\<close>;
  \<^item> an rxjs \<open>Observable\<close> that emits at most one value (all those of the program
    do) is an \<open>'a obs\<close>: it emits a value, fails with an error, or completes silently;
    \<open>of\<close>, \<open>pipe(map)\<close>, \<open>catchError\<close> and \<open>forkJoin\<close> are \<open>obs_of\<close>,
    \<open>obs_map\<close>, \<open>catch_error\<close> and \<open>fork_join\<close>.
\<close>

named_theorems js_simps \<open>evaluation rules of the JavaScript helpers\<close>

section \<open>Numbers\<close>

definition js_round :: "real \<Rightarrow> int" where
  "js_round x = \<lfloor>x + 1 / 2\<rfloor>"

text \<open>\<open>Math.round(x * 10^k) / 10^k\<close>: rounding to \<open>k\<close> decimals.\<close>

definition round_dec :: "nat \<Rightarrow> real \<Rightarrow> real" where
  "round_dec k x = of_int (js_round (x * 10 ^ k)) / 10 ^ k"

section \<open>Optional fields and truthiness\<close>

definition truthy :: "string option \<Rightarrow> bool" where
  "truthy s = (case s of None \<Rightarrow> False | Some v \<Rightarrow> v \<noteq> [])"

definition str_or :: "string option \<Rightarrow> string \<Rightarrow> string" where
  "str_or s d = (case s of Some v \<Rightarrow> if v \<noteq> [] then v else d | None \<Rightarrow> d)"

text \<open>\<open>n && n > 0\<close> on an optional number (\<open>NaN\<close> is not modelled).\<close>

definition pos_num :: "real option \<Rightarrow> bool" where
  "pos_num n = (case n of None \<Rightarrow> False | Some v \<Rightarrow> 0 < v)"

section \<open>Strings\<close>

abbreviation byte :: "char \<Rightarrow> nat" where
  "byte c \<equiv> of_char c"

definition is_digit :: "char \<Rightarrow> bool" where
  "is_digit c = (48 \<le> byte c \<and> byte c \<le> 57)"

definition only_digits :: "string \<Rightarrow> string" where
  "only_digits s = filter is_digit s"

text \<open>
  \<open>toLowerCase\<close> on UTF-8 bytes: ASCII capitals, and the Latin-1 capitals
  \<open>U+00C0..U+00DE\<close> but \<open>U+00D7\<close> (bytes \<open>C3 80..C3 9E\<close>), which cover every accented
  capital of Portuguese. Other scripts are left as they are.
\<close>

definition lower_ascii :: "char \<Rightarrow> char" where
  "lower_ascii c = (if 65 \<le> byte c \<and> byte c \<le> 90 then char_of (byte c + 32) else c)"

definition lower_latin1 :: "char \<Rightarrow> char" where
  "lower_latin1 c =
     (if 128 \<le> byte c \<and> byte c \<le> 158 \<and> byte c \<noteq> 151
      then char_of (byte c + 32) else c)"

fun to_lower :: "string \<Rightarrow> string" where
  "to_lower [] = []"
| "to_lower [c] = [lower_ascii c]"
| "to_lower (c # d # cs) =
     (if byte c = 195 then c # lower_latin1 d # to_lower cs
      else lower_ascii c # to_lower (d # cs))"

text \<open>\<open>trim\<close>: the ASCII white space and line terminators (no-break and other Unicode spaces are not modelled).\<close>

definition js_space :: "char \<Rightarrow> bool" where
  "js_space c = (byte c = 32 \<or> (9 \<le> byte c \<and> byte c \<le> 13))"

definition js_trim :: "string \<Rightarrow> string" where
  "js_trim s = rev (dropWhile js_space (rev (dropWhile js_space s)))"

text \<open>\<open>s.split(c)\<close>: never empty; one more part than there are separators.\<close>

fun split_on :: "char \<Rightarrow> string \<Rightarrow> string list" where
  "split_on c [] = [[]]"
| "split_on c (x # xs) =
     (if x = c then [] # split_on c xs
      else (let r = split_on c xs in (x # hd r) # tl r))"

section \<open>Observables\<close>

datatype obs_error = HttpError | RuntimeError

datatype 'a obs = Emits 'a | Fails obs_error | Silent

definition obs_of :: "'a \<Rightarrow> 'a obs" where
  "obs_of x = Emits x"

fun obs_map :: "('a \<Rightarrow> 'b) \<Rightarrow> 'a obs \<Rightarrow> 'b obs" where
  "obs_map f (Emits x) = Emits (f x)"
| "obs_map f (Fails e) = Fails e"
| "obs_map f Silent = Silent"

fun catch_error :: "'a obs \<Rightarrow> (obs_error \<Rightarrow> 'a obs) \<Rightarrow> 'a obs" where
  "catch_error (Fails e) h = h e"
| "catch_error o' h = o'"

text \<open>
  \<open>forkJoin(sources)\<close>: waits for every source; emits the array of their last values in
  the sources' order; fails if a source fails; completes without a value if a source
  does, and at once on an empty array. Of several sources that do not emit, the model
  lets the first in array order decide (rxjs: the first in time; every caller here
  discards the error).
\<close>

fun fork_join_step :: "'a obs \<Rightarrow> 'a list obs \<Rightarrow> 'a list obs" where
  "fork_join_step (Emits x) (Emits xs) = Emits (x # xs)"
| "fork_join_step (Emits x) r = r"
| "fork_join_step (Fails e) r = Fails e"
| "fork_join_step Silent r = Silent"

definition fork_join :: "'a obs list \<Rightarrow> 'a list obs" where
  "fork_join os = (if os = [] then Silent else foldr fork_join_step os (Emits []))"

section \<open>Lemmas\<close>

declare truthy_def [js_simps] str_or_def [js_simps] pos_num_def [js_simps]
  obs_of_def [js_simps] only_digits_def [js_simps]

lemma js_round_bounds: "x - 1 / 2 < of_int (js_round x) \<and> of_int (js_round x) \<le> x + 1 / 2"
  unfolding js_round_def by linarith

lemma js_round_of_int [simp]: "js_round (of_int n) = n"
  unfolding js_round_def by linarith

lemma round_dec_error: "\<bar>round_dec k x - x\<bar> \<le> 1 / (2 * 10 ^ k)"
proof -
  define a where "a = (of_int (js_round (x * 10 ^ k)) :: real)"
  define p where "p = (10 ^ k :: real)"
  have p: "0 < p" by (simp add: p_def)
  have "\<bar>a - x * p\<bar> \<le> 1 / 2"
    using js_round_bounds [of "x * 10 ^ k"] unfolding abs_le_iff a_def p_def by linarith
  moreover have "(a / p - x) * p = a - x * p"
    using p by (simp add: field_simps)
  then have "\<bar>a / p - x\<bar> * p = \<bar>a - x * p\<bar>"
    using p by (metis abs_mult abs_of_pos)
  ultimately have "\<bar>a / p - x\<bar> * p \<le> 1 / 2" by simp
  then have "\<bar>a / p - x\<bar> \<le> 1 / (2 * p)"
    using p by (simp add: field_simps)
  then show ?thesis by (simp add: round_dec_def a_def p_def)
qed

lemma str_or_Some [simp]: "v \<noteq> [] \<Longrightarrow> str_or (Some v) d = v"
  by (simp add: str_or_def)

lemma str_or_None [simp]: "str_or None d = d"
  by (simp add: str_or_def)

lemma split_on_not_Nil [simp]: "split_on c s \<noteq> []"
  by (induction s) (auto simp: Let_def)

lemma split_on_no_sep: "c \<notin> set s \<Longrightarrow> split_on c s = [s]"
  by (induction s) (auto simp: Let_def)

lemma split_on_append_sep:
  "c \<notin> set a \<Longrightarrow> split_on c (a @ c # b) = a # split_on c b"
  by (induction a) (auto simp: Let_def)

lemma only_digits_idem [simp]: "only_digits (only_digits s) = only_digits s"
  by (simp add: only_digits_def)

lemma obs_map_Emits_iff: "obs_map f o' = Emits y \<longleftrightarrow> (\<exists>x. o' = Emits x \<and> y = f x)"
  by (cases o') auto

lemma fork_join_map_Emits:
  "xs \<noteq> [] \<Longrightarrow> fork_join (map Emits xs) = Emits xs"
proof -
  have "foldr fork_join_step (map Emits xs) (Emits []) = Emits xs"
    by (induction xs) simp_all
  then show "xs \<noteq> [] \<Longrightarrow> ?thesis" by (simp add: fork_join_def)
qed

lemma fork_join_Nil [simp]: "fork_join [] = Silent"
  by (simp add: fork_join_def)

lemma map_obs_Emits:
  "(\<And>x. x \<in> set xs \<Longrightarrow> \<exists>y. f x = Emits y) \<Longrightarrow> \<exists>ys. map f xs = map Emits ys"
proof (induction xs)
  case Nil
  then show ?case by simp
next
  case (Cons x xs)
  then obtain y ys where "f x = Emits y" "map f xs = map Emits ys" by (metis list.set_intros)
  then have "map f (x # xs) = map Emits (y # ys)" by simp
  then show ?case ..
qed

lemma map_Emits_nth:
  "map f xs = map Emits ys \<Longrightarrow> i < length xs \<Longrightarrow> f (xs ! i) = Emits (ys ! i) \<and> length ys = length xs"
  by (metis length_map nth_map)


text \<open>\<open>source.pipe(map(f), catchError(() => of(d)))\<close> on a source that settles emits either
  \<open>f\<close> of the source's value or the default.\<close>

lemma catch_error_map_settles:
  "x \<noteq> Silent \<Longrightarrow>
   catch_error (obs_map f x) (\<lambda>_. obs_of d) = (case x of Emits v \<Rightarrow> Emits (f v) | _ \<Rightarrow> Emits d)"
  by (cases x) (simp_all add: obs_of_def)


lemma foldl_plus_sum_list: "foldl (\<lambda>s v. s + f v) a xs = a + sum_list (map f xs)"
  by (induction xs arbitrary: a) (simp_all add: algebra_simps)

text \<open>The values \<open>forkJoin\<close> emits are values of its sources, and \<open>catchError\<close>
  emits either the source's value or the handler's.\<close>

lemma fork_join_Emits_set:
  assumes "fork_join os = Emits xs" "x \<in> set xs"
  shows "Emits x \<in> set os"
proof -
  have "foldr fork_join_step os (Emits []) = Emits ys \<Longrightarrow> x \<in> set ys \<Longrightarrow> Emits x \<in> set os" for ys
  proof (induction os arbitrary: ys)
    case (Cons a os)
    then show ?case
      by (cases a; cases "foldr fork_join_step os (Emits [])") auto
  qed simp
  with assms show ?thesis by (simp add: fork_join_def split: if_splits)
qed

lemma catch_error_Emits:
  "catch_error x h = Emits y \<Longrightarrow> x = Emits y \<or> (\<exists>e. x = Fails e \<and> h e = Emits y)"
  by (cases x) simp_all

lemma foldl_insert_filter:
  "foldl (\<lambda>t k. if P k then insert k t else t) t0 ks = t0 \<union> set (filter P ks)"
  by (induction ks arbitrary: t0) auto

text \<open>Rounding a doubled value: \<open>Math.round(2x)\<close> is within one of \<open>2 * Math.round(x)\<close>,
  and \<open>Math.ceil(2x)\<close> is \<open>2 * Math.ceil(x)\<close> or one less.\<close>

lemma js_round_double: "js_round (2 * x) - 2 * js_round x \<in> {-1, 0, 1}"
proof -
  define n where "n = js_round x"
  define m where "m = js_round (2 * x)"
  have "of_int n \<le> x + 1 / 2" "x + 1 / 2 < of_int n + 1"
    "of_int m \<le> 2 * x + 1 / 2" "2 * x + 1 / 2 < of_int m + 1"
    unfolding n_def m_def js_round_def by linarith+
  then have "of_int (2 * n - 2) < (of_int m :: real)" "(of_int m :: real) < of_int (2 * n + 2)"
    by simp_all
  then have "2 * n - 2 < m" "m < 2 * n + 2" by (simp_all only: of_int_less_iff)
  then show ?thesis unfolding n_def [symmetric] m_def [symmetric] by auto
qed

lemma ceiling_double: "\<lceil>2 * x\<rceil> - 2 * \<lceil>x :: real\<rceil> \<in> {-1, 0}"
proof -
  define n where "n = \<lceil>x\<rceil>"
  define m where "m = \<lceil>2 * x\<rceil>"
  have "of_int n - 1 < x" "x \<le> of_int n" "of_int m - 1 < 2 * x" "2 * x \<le> of_int m"
    unfolding n_def m_def by linarith+
  then have "of_int (2 * n - 2) < (of_int m :: real)" "(of_int m :: real) < of_int (2 * n + 1)"
    by simp_all
  then have "2 * n - 2 < m" "m < 2 * n + 1" by (simp_all only: of_int_less_iff)
  then show ?thesis unfolding n_def [symmetric] m_def [symmetric] by auto
qed

lemma round_dec_double:
  "round_dec k (2 * x) - 2 * round_dec k x \<in> {- 1 / 10 ^ k, 0, 1 / 10 ^ k}"
proof -
  define j where "j = js_round (2 * (x * 10 ^ k)) - 2 * js_round (x * 10 ^ k)"
  have j: "j \<in> {-1, 0, 1}" unfolding j_def by (rule js_round_double)
  have "round_dec k (2 * x) - 2 * round_dec k x = of_int j / 10 ^ k"
    by (simp add: round_dec_def j_def diff_divide_distrib mult.assoc)
  with j show ?thesis by auto
qed

end
