(* ===== verification/Trip_Model.thy ===== *)
theory Trip_Model
  imports Prelude
begin

text \<open>
  The data the calculator exchanges, as declared in
  \<open>src/src/app/services/carbon-calculator.service.ts\<close>: one record per interface,
  field for field, with the names of the source. A \<open>number\<close> is a \<^typ>\<open>real\<close>, an
  optional field an \<open>option\<close>. Fields of the same name in two interfaces are told
  apart by qualification (\<open>trecho.destinoCidade\<close>, \<open>viagem.destinoCidade\<close>).
\<close>

text \<open>\<open>TrechoViagem\<close>: one leg of the journey.\<close>

record trecho =
  meioTransporte :: string
  distanciaKm :: "real option"
  origemCidade :: "string option"
  origemEstado :: "string option"
  destinoCidade :: "string option"
  destinoEstado :: "string option"
  cepOrigem :: "string option"
  tipoCombustivel :: "string option"
  numeroPassageiros :: "real option"
  classeVoo :: "string option"
  consumoMedio :: "real option"

text \<open>\<open>ViagemData\<close>: the traveller, the event's destination and the ordered legs.\<close>

record viagem =
  nome :: string
  email :: string
  cpf :: string
  telefone :: string
  destinoCidade :: string
  destinoEstado :: string
  destinoPais :: string
  trechos :: "trecho list"
  dataViagem :: string
  dataRetorno :: "string option"
  idaEVolta :: bool
  observacoes :: "string option"

text \<open>The element type of \<open>CalculoResultado.trechos\<close>: a leg with its distance and emission.\<close>

record trecho_resultado =
  trecho :: trecho
  distancia :: real
  emissao :: real

text \<open>\<open>CalculoResultado\<close>: the aggregated result of one calculation.\<close>

record calculo_resultado =
  emissaoCO2 :: real
  creditosCarbono :: real
  equivalenteArvores :: real
  equivalenteKmCarro :: real
  distanciaTotal :: real
  trechos :: "trecho_resultado list"

text \<open>\<open>EventoConfig\<close>: the event configured by the administrator.\<close>

record evento_config =
  cidade :: string
  estado :: string
  pais :: string
  cep :: "string option"
  nomeEvento :: "string option"
  dataInicio :: "string option"
  dataFim :: "string option"

text \<open>A leg with every optional field absent, the base of the concrete legs used below.\<close>

definition trecho_vazio :: "string \<Rightarrow> trecho" where
  "trecho_vazio m = \<lparr>meioTransporte = m, distanciaKm = None, origemCidade = None,
     origemEstado = None, trecho.destinoCidade = None, trecho.destinoEstado = None,
     cepOrigem = None, tipoCombustivel = None, numeroPassageiros = None,
     classeVoo = None, consumoMedio = None\<rparr>"

lemma trecho_vazio_sel [simp]:
  "meioTransporte (trecho_vazio m) = m" "distanciaKm (trecho_vazio m) = None"
  "origemCidade (trecho_vazio m) = None" "origemEstado (trecho_vazio m) = None"
  "trecho.destinoCidade (trecho_vazio m) = None" "trecho.destinoEstado (trecho_vazio m) = None"
  "cepOrigem (trecho_vazio m) = None" "tipoCombustivel (trecho_vazio m) = None"
  "numeroPassageiros (trecho_vazio m) = None" "classeVoo (trecho_vazio m) = None"
  by (simp_all add: trecho_vazio_def)

end
