(* ===== verification/Persistence.thy ===== *)
theory Persistence
  imports Trip_Model "HOL-Library.Multiset"
begin

text \<open>
  The browser's \<open>localStorage\<close> as the application uses it, and the persistence
  methods of \<open>CarbonCalculatorService\<close> (\<open>salvarViagem\<close>, \<open>obterViagens\<close>,
  \<open>excluirViagem\<close>, \<open>salvarEvento\<close>, \<open>obterEvento\<close>, \<open>removerEvento\<close>). The store
  is a record with one field per key the code uses: \<open>None\<close> is a key that is absent
  (\<open>getItem\<close> gives \<open>null\<close>). \<open>JSON.stringify\<close> followed by \<open>JSON.parse\<close> is the
  identity on the model's values (an absent optional field is \<open>None\<close>, as
  \<open>undefined\<close> properties are dropped), so the stored values are kept decoded.
  The login flag \<open>admin_logged_in\<close> lives in the same store; it is written by
  \<open>AuthService\<close> (theory \<open>Auth\<close>). \<open>Array.prototype.splice\<close> with a count of one
  is \<open>js_splice1\<close>, with JavaScript's treatment of negative and out-of-range starts.
\<close>

section \<open>Definitions\<close>

text \<open>A stored trip: \<open>{...viagem, resultado, dataCalculo}\<close>.\<close>

record viagem_salva = viagem +
  resultado :: calculo_resultado
  dataCalculo :: string

record local_storage =
  ls_viagens_carbono :: "viagem_salva list option"
  ls_evento_config :: "evento_config option"
  ls_admin_logged_in :: "string option"

definition storage_vazio :: local_storage where
  "storage_vazio = \<lparr>ls_viagens_carbono = None, ls_evento_config = None, ls_admin_logged_in = None\<rparr>"

text \<open>\<open>xs.splice(start, 1)\<close>: a negative start counts from the end (clamped at 0), a
  start beyond the end is clamped to the length, and one element is removed from there
  if there is one.\<close>

definition js_splice1 :: "int \<Rightarrow> 'a list \<Rightarrow> 'a list" where
  "js_splice1 start xs =
    (let n = int (length xs);
         st = (if start < 0 then max (n + start) 0 else min start n)
     in take (nat st) xs @ drop (nat st + 1) xs)"

definition salvar_dados :: "viagem \<Rightarrow> calculo_resultado \<Rightarrow> string \<Rightarrow> viagem_salva" where
  "salvar_dados v r agora = viagem.extend v (viagem_salva.fields r agora)"

definition obterViagens :: "local_storage \<Rightarrow> viagem_salva list" where
  "obterViagens s = (case ls_viagens_carbono s of Some vs \<Rightarrow> vs | None \<Rightarrow> [])"

text \<open>\<open>salvarViagem\<close>: \<open>agora\<close> is \<open>new Date().toISOString()\<close>.\<close>

definition salvarViagem :: "viagem \<Rightarrow> calculo_resultado \<Rightarrow> string \<Rightarrow> local_storage \<Rightarrow> local_storage" where
  "salvarViagem v r agora s =
    (let viagens = obterViagens s @ [salvar_dados v r agora] in
     s\<lparr>ls_viagens_carbono := Some viagens\<rparr>)"

definition excluirViagem :: "int \<Rightarrow> local_storage \<Rightarrow> local_storage" where
  "excluirViagem index s = s\<lparr>ls_viagens_carbono := Some (js_splice1 index (obterViagens s))\<rparr>"

definition salvarEvento :: "evento_config \<Rightarrow> local_storage \<Rightarrow> local_storage" where
  "salvarEvento e s = s\<lparr>ls_evento_config := Some e\<rparr>"

definition obterEvento :: "local_storage \<Rightarrow> evento_config option" where
  "obterEvento s = ls_evento_config s"

definition removerEvento :: "local_storage \<Rightarrow> local_storage" where
  "removerEvento s = s\<lparr>ls_evento_config := None\<rparr>"

section \<open>Lemmas\<close>

lemma js_splice1_in_range:
  "i < length xs \<Longrightarrow> js_splice1 (int i) xs = take i xs @ drop (Suc i) xs"
  by (simp add: js_splice1_def)

lemma js_splice1_beyond:
  "length xs \<le> i \<Longrightarrow> js_splice1 (int i) xs = xs"
  by (simp add: js_splice1_def)

lemma js_splice1_negative:
  "0 < k \<Longrightarrow> k \<le> length xs \<Longrightarrow>
   js_splice1 (- int k) xs = take (length xs - k) xs @ drop (length xs - k + 1) xs"
  by (simp add: js_splice1_def nat_diff_distrib)

lemma obterViagens_salvarViagem [simp]:
  "obterViagens (salvarViagem v r agora s) = obterViagens s @ [salvar_dados v r agora]"
  by (simp add: obterViagens_def salvarViagem_def)

lemma obterViagens_excluirViagem [simp]:
  "obterViagens (excluirViagem i s) = js_splice1 i (obterViagens s)"
  by (simp add: obterViagens_def excluirViagem_def)

lemma salvar_dados_sel [simp]:
  "viagem.trechos (salvar_dados v r agora) = viagem.trechos v"
  "viagem.nome (salvar_dados v r agora) = viagem.nome v"
  "viagem.idaEVolta (salvar_dados v r agora) = viagem.idaEVolta v"
  "resultado (salvar_dados v r agora) = r"
  "dataCalculo (salvar_dados v r agora) = agora"
  by (simp_all add: salvar_dados_def viagem.defs viagem_salva.defs)

lemma salvar_dados_truncate [simp]:
  "viagem.truncate (salvar_dados v r agora) = v"
  by (simp add: salvar_dados_def viagem.defs)

lemma excluirViagem_keys [simp]:
  "ls_evento_config (excluirViagem i s) = ls_evento_config s"
  "ls_admin_logged_in (excluirViagem i s) = ls_admin_logged_in s"
  by (simp_all add: excluirViagem_def)

lemma salvarViagem_keys [simp]:
  "ls_evento_config (salvarViagem v r agora s) = ls_evento_config s"
  "ls_admin_logged_in (salvarViagem v r agora s) = ls_admin_logged_in s"
  by (simp_all add: salvarViagem_def Let_def)

text \<open>A trip without legs and a zero result, and a store holding given trips, for the witnesses.\<close>

abbreviation viagem_minima :: viagem where
  "viagem_minima \<equiv> \<lparr>nome = ''Ana'', email = ''ana@example.org'', cpf = ''00000000000'',
     telefone = ''27999999999'', viagem.destinoCidade = ''Serra'', viagem.destinoEstado = ''ES'',
     destinoPais = ''Brasil'', viagem.trechos = [], dataViagem = [], dataRetorno = None,
     idaEVolta = False, observacoes = None\<rparr>"

abbreviation resultado_zero :: calculo_resultado where
  "resultado_zero \<equiv> \<lparr>emissaoCO2 = 0, creditosCarbono = 0, equivalenteArvores = 0,
     equivalenteKmCarro = 0, distanciaTotal = 0, calculo_resultado.trechos = []\<rparr>"

abbreviation storage_exemplo :: "viagem_salva list \<Rightarrow> local_storage" where
  "storage_exemplo vs \<equiv> storage_vazio\<lparr>ls_viagens_carbono := Some vs\<rparr>"

text \<open>C29: deleting the trip at a valid index removes exactly that trip: the others stay, in their order, and the multiset of stored trips loses that one element; the event and the login flag are untouched.\<close>

theorem excluirViagem_removes_index:
  assumes "i < length (obterViagens s)"
  shows "obterViagens (excluirViagem (int i) s) = take i (obterViagens s) @ drop (Suc i) (obterViagens s) \<and>
    mset (obterViagens s) = add_mset (obterViagens s ! i) (mset (obterViagens (excluirViagem (int i) s))) \<and>
    ls_evento_config (excluirViagem (int i) s) = ls_evento_config s \<and>
    ls_admin_logged_in (excluirViagem (int i) s) = ls_admin_logged_in s"
proof -
  have "mset (obterViagens s) = add_mset (obterViagens s ! i) (mset (take i (obterViagens s) @ drop (Suc i) (obterViagens s)))"
    using assms by (metis append_take_drop_id Cons_nth_drop_Suc mset_append mset.simps(2) add_mset_add_single union_assoc union_commute union_mset_add_mset_left add.commute)
  with assms show ?thesis by (simp add: js_splice1_in_range)
qed

theorem excluirViagem_removes_index_witness:
  "obterViagens (excluirViagem (int 0) (storage_exemplo [salvar_dados viagem_minima resultado_zero ''t1'', salvar_dados viagem_minima resultado_zero ''t2''])) =
     [salvar_dados viagem_minima resultado_zero ''t2'']"
  using excluirViagem_removes_index [of 0 "storage_exemplo [salvar_dados viagem_minima resultado_zero ''t1'', salvar_dados viagem_minima resultado_zero ''t2'']"]
  by (simp add: obterViagens_def)

text \<open>C30: \<open>excluirViagem\<close> has \<open>splice\<close>'s semantics for the other indices: an index at or beyond the end deletes nothing, and a negative index \<open>-k\<close> deletes the \<open>k\<close>-th trip from the end.\<close>

theorem excluirViagem_other_indices:
  "(length (obterViagens s) \<le> i \<longrightarrow> obterViagens (excluirViagem (int i) s) = obterViagens s) \<and>
   (0 < k \<and> k \<le> length (obterViagens s) \<longrightarrow>
      obterViagens (excluirViagem (- int k) s) =
        take (length (obterViagens s) - k) (obterViagens s) @ drop (length (obterViagens s) - k + 1) (obterViagens s))"
  by (simp add: js_splice1_beyond js_splice1_negative)

theorem excluirViagem_other_indices_witness:
  "obterViagens (excluirViagem (- 1) (storage_exemplo [salvar_dados viagem_minima resultado_zero ''t1'', salvar_dados viagem_minima resultado_zero ''t2''])) =
     [salvar_dados viagem_minima resultado_zero ''t1''] \<and>
   obterViagens (excluirViagem 2 (storage_exemplo [salvar_dados viagem_minima resultado_zero ''t1'', salvar_dados viagem_minima resultado_zero ''t2''])) =
     [salvar_dados viagem_minima resultado_zero ''t1'', salvar_dados viagem_minima resultado_zero ''t2'']"
  using excluirViagem_other_indices [of "storage_exemplo [salvar_dados viagem_minima resultado_zero ''t1'', salvar_dados viagem_minima resultado_zero ''t2'']" 2 1]
  by (simp add: obterViagens_def)

text \<open>C31: saving a trip and reading the list back (insert/lookup): the list grows by one, the earlier trips are unchanged, and the new last entry is the trip itself with its result and timestamp; the event and the login flag are untouched.\<close>

theorem salvarViagem_obterViagens:
  "length (obterViagens (salvarViagem v r agora s)) = Suc (length (obterViagens s)) \<and>
   take (length (obterViagens s)) (obterViagens (salvarViagem v r agora s)) = obterViagens s \<and>
   viagem.truncate (last (obterViagens (salvarViagem v r agora s))) = v \<and>
   resultado (last (obterViagens (salvarViagem v r agora s))) = r \<and>
   dataCalculo (last (obterViagens (salvarViagem v r agora s))) = agora \<and>
   ls_evento_config (salvarViagem v r agora s) = ls_evento_config s \<and>
   ls_admin_logged_in (salvarViagem v r agora s) = ls_admin_logged_in s"
  by simp

end
