(* ===== verification/Auth.thy ===== *)
theory Auth
  imports Persistence
begin

text \<open>
  \<open>AuthService\<close> (\<open>services/auth.service.ts\<close>), \<open>LoginComponent\<close>
  (\<open>components/login/login.component.ts\<close>: \<open>ngOnInit\<close> and \<open>onSubmit\<close>) and the
  header component \<open>AppComponent\<close> (\<open>app.component.ts\<close>). The service's state is
  the store's key \<open>admin_logged_in\<close> and the current value of its
  \<open>BehaviorSubject\<close>, which the header displays and whose \<open>logout\<close> it calls.
  Navigation (\<open>router.navigate\<close>, \<open>routerLink\<close>) is recorded as the route
  (\<open>app.routes.ts\<close>) asked for. The route guard \<open>guards/auth.guard.ts\<close> that
  \<open>app.routes.ts\<close> imports is not in the repository and is not modelled.
\<close>

section \<open>Definitions\<close>

record auth_state =
  storage :: local_storage
  isAuthenticatedSubject :: bool

definition DEFAULT_USERNAME :: string where "DEFAULT_USERNAME = ''admin''"
definition DEFAULT_PASSWORD :: string where "DEFAULT_PASSWORD = ''admin123''"

definition checkAuthStatus :: "local_storage \<Rightarrow> bool" where
  "checkAuthStatus s = (ls_admin_logged_in s = Some ''true'')"

text \<open>The service is constructed over the current store; the subject starts from it.\<close>

definition auth_init :: "local_storage \<Rightarrow> auth_state" where
  "auth_init s = \<lparr>storage = s, isAuthenticatedSubject = checkAuthStatus s\<rparr>"

definition login :: "string \<Rightarrow> string \<Rightarrow> auth_state \<Rightarrow> bool \<times> auth_state" where
  "login username password a =
    (if username = DEFAULT_USERNAME \<and> password = DEFAULT_PASSWORD then
       (True, a\<lparr>storage := (storage a)\<lparr>ls_admin_logged_in := Some ''true''\<rparr>,
                isAuthenticatedSubject := True\<rparr>)
     else (False, a))"

definition logout :: "auth_state \<Rightarrow> auth_state" where
  "logout a = a\<lparr>storage := (storage a)\<lparr>ls_admin_logged_in := None\<rparr>,
                isAuthenticatedSubject := False\<rparr>"

definition isAuthenticated :: "auth_state \<Rightarrow> bool" where
  "isAuthenticated a = checkAuthStatus (storage a)"

text \<open>\<open>LoginComponent\<close>: its form fields, message and loading flag, and the route it
  navigated to. \<open>Validators.required\<close> on a text field rejects the empty string.\<close>

datatype rota = RotaFormulario | RotaLogin | RotaAdmin

record login_component =
  username :: string
  password :: string
  errorMessage :: string
  loading :: bool
  navegou :: "rota option"

definition login_valido :: "login_component \<Rightarrow> bool" where
  "login_valido c = (username c \<noteq> [] \<and> password c \<noteq> [])"

definition onSubmit :: "login_component \<times> auth_state \<Rightarrow> login_component \<times> auth_state" where
  "onSubmit ca =
    (let (c, a) = ca in
     if login_valido c then
       (let c1 = c\<lparr>loading := True, errorMessage := []\<rparr>;
            (ok, a') = login (username c) (password c) a in
        if ok then (c1\<lparr>navegou := Some RotaAdmin\<rparr>, a')
        else (c1\<lparr>errorMessage := ''Usu'' @ [CHR 0xC3, CHR 0xA1] @ ''rio ou senha incorretos!'',
                 loading := False\<rparr>, a'))
     else (c\<lparr>errorMessage := ''Preencha todos os campos!''\<rparr>, a))"

text \<open>\<open>LoginComponent.ngOnInit\<close>: a fresh component with empty fields, which
  navigates to the admin page when the service reports a login.\<close>

definition login_ngOnInit :: "auth_state \<Rightarrow> login_component" where
  "login_ngOnInit a = \<lparr>username = [], password = [], errorMessage = [], loading = False,
     navegou = (if isAuthenticated a then Some RotaAdmin else None)\<rparr>"

text \<open>\<open>AppComponent\<close>: its field \<open>isAuthenticated\<close> follows the service's
  \<open>BehaviorSubject\<close>, which replays its current value on subscription
  (\<open>ngOnInit\<close>) and pushes every later one, so in each state of the service the
  component holds the subject's value. Its header shows these navigation items.\<close>

record app_component =
  app_isAuthenticated :: bool

definition app_ngOnInit :: "auth_state \<Rightarrow> app_component" where
  "app_ngOnInit a = \<lparr>app_isAuthenticated = isAuthenticatedSubject a\<rparr>"

datatype item_nav = Link rota | Sair

definition nav_itens :: "app_component \<Rightarrow> item_nav list" where
  "nav_itens c = [Link RotaFormulario] @
     (if \<not> app_isAuthenticated c then [Link RotaLogin] else []) @
     (if app_isAuthenticated c then [Link RotaAdmin] else []) @
     (if app_isAuthenticated c then [Sair] else [])"

definition app_logout :: "auth_state \<Rightarrow> auth_state" where
  "app_logout a = logout a"

text \<open>The operations that change the service's state, from the login page, the header
  and the admin page, as a step relation; every other operation of the application
  leaves the key \<open>admin_logged_in\<close> alone (theory \<open>Admin\<close>).\<close>

inductive auth_step :: "auth_state \<Rightarrow> auth_state \<Rightarrow> bool" where
  auth_login: "auth_step a (snd (login u p a))"
| auth_logout: "auth_step a (logout a)"
| auth_app_logout: "auth_step a (app_logout a)"

inductive auth_reach :: "local_storage \<Rightarrow> auth_state \<Rightarrow> bool" for s0 where
  auth_reach_init: "auth_reach s0 (auth_init s0)"
| auth_reach_step: "auth_reach s0 a \<Longrightarrow> auth_step a a' \<Longrightarrow> auth_reach s0 a'"

inductive_cases auth_stepE: "auth_step a a'"

section \<open>Lemmas\<close>

lemma login_eq:
  "login u p a = (u = ''admin'' \<and> p = ''admin123'',
     if u = ''admin'' \<and> p = ''admin123'' then a\<lparr>storage := (storage a)\<lparr>ls_admin_logged_in := Some ''true''\<rparr>,
       isAuthenticatedSubject := True\<rparr> else a)"
  by (simp add: login_def DEFAULT_USERNAME_def DEFAULT_PASSWORD_def)

lemma auth_step_consistent:
  "auth_step a a' \<Longrightarrow> isAuthenticatedSubject a = isAuthenticated a \<Longrightarrow>
   isAuthenticatedSubject a' = isAuthenticated a'"
  by (erule auth_stepE) (auto simp: login_eq logout_def app_logout_def isAuthenticated_def checkAuthStatus_def)

text \<open>C26: the only credentials \<open>login\<close> accepts are the hard-coded pair \<open>admin\<close> / \<open>admin123\<close> of the source; on success the store's flag and the subject become true, on failure nothing changes.\<close>

theorem login_iff_default_credentials:
  "fst (login u p a) = (u = ''admin'' \<and> p = ''admin123'') \<and>
   (fst (login u p a) \<longrightarrow> isAuthenticated (snd (login u p a)) \<and> isAuthenticatedSubject (snd (login u p a))) \<and>
   (\<not> fst (login u p a) \<longrightarrow> snd (login u p a) = a)"
  by (simp add: login_eq isAuthenticated_def checkAuthStatus_def)

theorem login_iff_default_credentials_witness:
  "fst (login ''admin'' ''admin123'' (auth_init storage_vazio)) \<and>
   isAuthenticated (snd (login ''admin'' ''admin123'' (auth_init storage_vazio))) \<and>
   isAuthenticatedSubject (snd (login ''admin'' ''admin123'' (auth_init storage_vazio)))"
  using login_iff_default_credentials [of "''admin''" "''admin123''" "auth_init storage_vazio"] by simp

text \<open>C27: in every state the service reaches by logins and logouts (from the login page, the header or the admin page) from the store it was constructed over, the value its \<open>BehaviorSubject\<close> shows agrees with the flag in the store that \<open>isAuthenticated\<close> reads; so the header offers the admin link and the logout item, and the login page redirects to the admin page, exactly when the store says the user is logged in.\<close>

theorem auth_subject_consistent:
  assumes "auth_reach s0 a"
  shows "isAuthenticatedSubject a = isAuthenticated a \<and>
    (Link RotaAdmin \<in> set (nav_itens (app_ngOnInit a)) \<longleftrightarrow> isAuthenticated a) \<and>
    (Sair \<in> set (nav_itens (app_ngOnInit a)) \<longleftrightarrow> isAuthenticated a) \<and>
    (Link RotaLogin \<in> set (nav_itens (app_ngOnInit a)) \<longleftrightarrow> \<not> isAuthenticated a) \<and>
    (navegou (login_ngOnInit a) = Some RotaAdmin \<longleftrightarrow> isAuthenticatedSubject a)"
proof -
  from assms have subj: "isAuthenticatedSubject a = isAuthenticated a"
  proof (induction rule: auth_reach.induct)
    case auth_reach_init
    then show ?case by (simp add: auth_init_def isAuthenticated_def)
  next
    case (auth_reach_step a a')
    from auth_reach_step.hyps(2) auth_reach_step.IH show ?case by (rule auth_step_consistent)
  qed
  then show ?thesis by (simp add: nav_itens_def app_ngOnInit_def login_ngOnInit_def)
qed

theorem auth_subject_consistent_witness:
  "isAuthenticatedSubject (logout (snd (login ''admin'' ''admin123'' (auth_init storage_vazio)))) =
   isAuthenticated (logout (snd (login ''admin'' ''admin123'' (auth_init storage_vazio))))"
proof -
  have "auth_reach storage_vazio (logout (snd (login ''admin'' ''admin123'' (auth_init storage_vazio))))"
    by (meson auth_reach.intros auth_step.intros)
  then show ?thesis using auth_subject_consistent by blast
qed

text \<open>C28: the login page's submit handler: with both fields filled it navigates to the admin page exactly when the credentials are the default ones, and otherwise shows the error message with the loading flag off; with a field empty it shows the fill-in message and calls no login.\<close>

theorem onSubmit_behaviour:
  "(login_valido c \<longrightarrow>
      ((username c = ''admin'' \<and> password c = ''admin123'') \<longrightarrow>
         navegou (fst (onSubmit (c, a))) = Some RotaAdmin \<and> isAuthenticated (snd (onSubmit (c, a)))) \<and>
      (\<not> (username c = ''admin'' \<and> password c = ''admin123'') \<longrightarrow>
         navegou (fst (onSubmit (c, a))) = navegou c \<and> \<not> loading (fst (onSubmit (c, a))) \<and>
         errorMessage (fst (onSubmit (c, a))) \<noteq> [] \<and> snd (onSubmit (c, a)) = a)) \<and>
   (\<not> login_valido c \<longrightarrow> onSubmit (c, a) = (c\<lparr>errorMessage := ''Preencha todos os campos!''\<rparr>, a))"
  by (auto simp: onSubmit_def login_eq isAuthenticated_def checkAuthStatus_def)

theorem onSubmit_behaviour_witness:
  "navegou (fst (onSubmit (\<lparr>username = ''admin'', password = ''admin123'', errorMessage = [],
      loading = False, navegou = None\<rparr>, auth_init storage_vazio))) = Some RotaAdmin"
  using onSubmit_behaviour [of "\<lparr>username = ''admin'', password = ''admin123'', errorMessage = [],
      loading = False, navegou = None\<rparr>" "auth_init storage_vazio"]
  by (simp add: login_valido_def)

end
