(* ===== verification/Geocoding.thy ===== *)
theory Geocoding
  imports Trip_Model
begin

text \<open>
  \<open>GeocodingService\<close> (\<open>src/src/app/services/geocoding.service.ts\<close>): the postal-code
  lookup against ViaCEP (\<open>buscarCEP\<close>), the postal-code distance cascade
  (\<open>calcularDistanciaCEP\<close> over the metropolitan table
  \<open>obterDistanciasRegiaoMetropolitana\<close>), and the city-to-city estimate
  (\<open>calcularDistancia\<close>, \<open>estimarDistanciaPorCoordenadas\<close>,
  \<open>estimarDistanciaSimples\<close>). The HTTP request is the parameter \<open>api\<close>
  (\<open>via_cep_api\<close>): the observable \<open>http.get\<close> returns for a cleaned postal code,
  the interface through which every lemma here is stated for any server behaviour.
  City names are UTF-8 byte strings; the accented letters are the abbreviations below.
  The nested TypeScript object literals are association lists; a key they do not hold
  reads as \<open>undefined\<close> (keys that name properties of \<open>Object.prototype\<close>, such as
  \<open>constructor\<close>, are not modelled).
\<close>

section \<open>Data\<close>

text \<open>\<open>EnderecoCEP\<close>: the JSON body ViaCEP answers; an absent \<open>erro\<close> is \<^const>\<open>False\<close>.\<close>

record endereco_cep =
  cep :: string
  logradouro :: string
  complemento :: string
  bairro :: string
  localidade :: string
  uf :: string
  erro :: bool

type_synonym via_cep_api = "string \<Rightarrow> endereco_cep obs"

abbreviation a_til :: string where "a_til \<equiv> [CHR 0xC3, CHR 0xA3]"
abbreviation a_agu :: string where "a_agu \<equiv> [CHR 0xC3, CHR 0xA1]"
abbreviation e_agu :: string where "e_agu \<equiv> [CHR 0xC3, CHR 0xA9]"
abbreviation i_agu :: string where "i_agu \<equiv> [CHR 0xC3, CHR 0xAD]"
abbreviation o_agu :: string where "o_agu \<equiv> [CHR 0xC3, CHR 0xB3]"
abbreviation o_til :: string where "o_til \<equiv> [CHR 0xC3, CHR 0xB5]"
abbreviation u_agu :: string where "u_agu \<equiv> [CHR 0xC3, CHR 0xBA]"
abbreviation c_ced :: string where "c_ced \<equiv> [CHR 0xC3, CHR 0xA7]"
abbreviation a_cir :: string where "a_cir \<equiv> [CHR 0xC3, CHR 0xA2]"
abbreviation o_cir :: string where "o_cir \<equiv> [CHR 0xC3, CHR 0xB4]"
abbreviation o_maiusc_cir :: string where "o_maiusc_cir \<equiv> [CHR 0xC3, CHR 0x94]"

abbreviation sao_paulo :: string where "sao_paulo \<equiv> ''S'' @ a_til @ ''o Paulo''"
abbreviation brasilia :: string where "brasilia \<equiv> ''Bras'' @ i_agu @ ''lia''"
abbreviation vitoria :: string where "vitoria \<equiv> ''Vit'' @ o_agu @ ''ria''"
abbreviation fundao :: string where "fundao \<equiv> ''Fund'' @ a_til @ ''o''"
abbreviation sao_bernardo :: string where "sao_bernardo \<equiv> ''S'' @ a_til @ ''o Bernardo do Campo''"
abbreviation santo_andre :: string where "santo_andre \<equiv> ''Santo Andr'' @ e_agu"
abbreviation carapicuiba :: string where "carapicuiba \<equiv> ''Carapicu'' @ i_agu @ ''ba''"
abbreviation niteroi :: string where "niteroi \<equiv> ''Niter'' @ o_agu @ ''i''"
abbreviation sao_goncalo :: string where "sao_goncalo \<equiv> ''S'' @ a_til @ ''o Gon'' @ c_ced @ ''alo''"
abbreviation nova_iguacu :: string where "nova_iguacu \<equiv> ''Nova Igua'' @ c_ced @ ''u''"
abbreviation marica :: string where "marica \<equiv> ''Maric'' @ a_agu"
abbreviation itaborai :: string where "itaborai \<equiv> ''Itabora'' @ i_agu"
abbreviation ribeirao_neves :: string where "ribeirao_neves \<equiv> ''Ribeir'' @ a_til @ ''o das Neves''"
abbreviation sabara :: string where "sabara \<equiv> ''Sabar'' @ a_agu"
abbreviation sao_jose_pinhais :: string where
  "sao_jose_pinhais \<equiv> ''S'' @ a_til @ ''o Jos'' @ e_agu @ '' dos Pinhais''"
abbreviation araucaria :: string where "araucaria \<equiv> ''Arauc'' @ a_agu @ ''ria''"
abbreviation sao_leopoldo :: string where "sao_leopoldo \<equiv> ''S'' @ a_til @ ''o Leopoldo''"
abbreviation gravatai :: string where "gravatai \<equiv> ''Gravata'' @ i_agu"
abbreviation camacari :: string where "camacari \<equiv> ''Cama'' @ c_ced @ ''ari''"
abbreviation simoes_filho :: string where "simoes_filho \<equiv> ''Sim'' @ o_til @ ''es Filho''"
abbreviation jaboatao :: string where "jaboatao \<equiv> ''Jaboat'' @ a_til @ ''o dos Guararapes''"
abbreviation maracanau :: string where "maracanau \<equiv> ''Maracana'' @ u_agu"
abbreviation eusebio :: string where "eusebio \<equiv> ''Eus'' @ e_agu @ ''bio''"
abbreviation ceilandia :: string where "ceilandia \<equiv> ''Ceil'' @ a_cir @ ''ndia''"

text \<open>The table of \<open>obterDistanciasRegiaoMetropolitana\<close>: state, origin city, destination city, km.\<close>

definition regioesMetropolitanas :: "(string \<times> (string \<times> (string \<times> real) list) list) list" where
  "regioesMetropolitanas = [
    (''ES'', [
      (vitoria, [(vitoria, 0), (''Vila Velha'', 15), (''Cariacica'', 20), (''Serra'', 25), (''Viana'', 30), (''Guarapari'', 45), (fundao, 50)]),
      (''Vila Velha'', [(vitoria, 15), (''Vila Velha'', 0), (''Cariacica'', 18), (''Serra'', 20)]),
      (''Cariacica'', [(vitoria, 20), (''Vila Velha'', 18), (''Cariacica'', 0), (''Serra'', 22)]),
      (''Serra'', [(vitoria, 25), (''Vila Velha'', 20), (''Cariacica'', 22), (''Serra'', 0)])]),
    (''SP'', [
      (sao_paulo, [(sao_paulo, 0), (''Guarulhos'', 20), (sao_bernardo, 25), (santo_andre, 22), (''Osasco'', 18), (''Campinas'', 100)]),
      (''Guarulhos'', [(sao_paulo, 20), (''Guarulhos'', 0), (sao_bernardo, 35), (santo_andre, 32)]),
      (sao_bernardo, [(sao_paulo, 25), (''Guarulhos'', 35), (sao_bernardo, 0), (santo_andre, 8)]),
      (santo_andre, [(sao_paulo, 22), (''Guarulhos'', 32), (sao_bernardo, 8), (santo_andre, 0)]),
      (''Osasco'', [(sao_paulo, 18), (''Osasco'', 0), (''Barueri'', 12), (carapicuiba, 15)])]),
    (''RJ'', [
      (''Rio de Janeiro'', [(''Rio de Janeiro'', 0), (niteroi, 15), (sao_goncalo, 25), (''Duque de Caxias'', 20), (nova_iguacu, 35)]),
      (niteroi, [(''Rio de Janeiro'', 15), (niteroi, 0), (sao_goncalo, 18), (marica, 30)]),
      (sao_goncalo, [(''Rio de Janeiro'', 25), (niteroi, 18), (sao_goncalo, 0), (itaborai, 20)])]),
    (''MG'', [
      (''Belo Horizonte'', [(''Belo Horizonte'', 0), (''Contagem'', 15), (''Betim'', 20), (ribeirao_neves, 25), (sabara, 18)]),
      (''Contagem'', [(''Belo Horizonte'', 15), (''Contagem'', 0), (''Betim'', 12), (ribeirao_neves, 20)]),
      (''Betim'', [(''Belo Horizonte'', 20), (''Contagem'', 12), (''Betim'', 0)])]),
    (''PR'', [
      (''Curitiba'', [(''Curitiba'', 0), (sao_jose_pinhais, 12), (''Pinhais'', 10), (''Colombo'', 15), (araucaria, 20)]),
      (sao_jose_pinhais, [(''Curitiba'', 12), (sao_jose_pinhais, 0), (''Pinhais'', 8)]),
      (''Pinhais'', [(''Curitiba'', 10), (sao_jose_pinhais, 8), (''Pinhais'', 0)])]),
    (''RS'', [
      (''Porto Alegre'', [(''Porto Alegre'', 0), (''Canoas'', 15), (''Novo Hamburgo'', 35), (sao_leopoldo, 30), (gravatai, 20)]),
      (''Canoas'', [(''Porto Alegre'', 15), (''Canoas'', 0), (''Novo Hamburgo'', 25)]),
      (''Novo Hamburgo'', [(''Porto Alegre'', 35), (''Canoas'', 25), (''Novo Hamburgo'', 0)])]),
    (''BA'', [
      (''Salvador'', [(''Salvador'', 0), (''Lauro de Freitas'', 20), (camacari, 35), (simoes_filho, 25)]),
      (''Lauro de Freitas'', [(''Salvador'', 20), (''Lauro de Freitas'', 0), (camacari, 25)]),
      (camacari, [(''Salvador'', 35), (''Lauro de Freitas'', 25), (camacari, 0)])]),
    (''PE'', [
      (''Recife'', [(''Recife'', 0), (''Olinda'', 8), (jaboatao, 15), (''Paulista'', 12), (''Camaragibe'', 10)]),
      (''Olinda'', [(''Recife'', 8), (''Olinda'', 0), (''Paulista'', 10)]),
      (jaboatao, [(''Recife'', 15), (jaboatao, 0), (''Camaragibe'', 12)])]),
    (''CE'', [
      (''Fortaleza'', [(''Fortaleza'', 0), (''Caucaia'', 18), (maracanau, 15), (eusebio, 20)]),
      (''Caucaia'', [(''Fortaleza'', 18), (''Caucaia'', 0), (maracanau, 12)]),
      (maracanau, [(''Fortaleza'', 15), (''Caucaia'', 12), (maracanau, 0)])]),
    (''DF'', [
      (brasilia, [(brasilia, 0), (''Taguatinga'', 25), (ceilandia, 30), (''Planaltina'', 45), (''Gama'', 35)])])]"

text \<open>The table of \<open>estimarDistanciaPorCoordenadas\<close>: city-pair distances between four hubs.\<close>

definition distancias :: "(string \<times> (string \<times> real) list) list" where
  "distancias = [
    (sao_paulo, [(''Rio de Janeiro'', 430), (brasilia, 1015), (''Salvador'', 1200), (''Belo Horizonte'', 586)]),
    (''Rio de Janeiro'', [(sao_paulo, 430), (brasilia, 1148), (''Salvador'', 1200), (''Belo Horizonte'', 434)]),
    (brasilia, [(sao_paulo, 1015), (''Rio de Janeiro'', 1148), (''Salvador'', 1080), (''Belo Horizonte'', 740)]),
    (''Salvador'', [(sao_paulo, 1200), (''Rio de Janeiro'', 1200), (brasilia, 1080), (''Belo Horizonte'', 950)])]"

text \<open>The state codes of \<open>obterCodigoEstado\<close> (IBGE numbering).\<close>

definition estados_codigos :: "(string \<times> string) list" where
  "estados_codigos = [
    (''AC'', ''12''), (''AL'', ''27''), (''AP'', ''16''), (''AM'', ''13''), (''BA'', ''29''),
    (''CE'', ''23''), (''DF'', ''53''), (''ES'', ''32''), (''GO'', ''52''), (''MA'', ''21''),
    (''MT'', ''51''), (''MS'', ''50''), (''MG'', ''31''), (''PA'', ''15''), (''PB'', ''25''),
    (''PR'', ''41''), (''PE'', ''26''), (''PI'', ''22''), (''RJ'', ''33''), (''RN'', ''24''),
    (''RS'', ''43''), (''RO'', ''11''), (''RR'', ''14''), (''SC'', ''42''), (''SP'', ''35''),
    (''SE'', ''28''), (''TO'', ''17'')]"

definition obterCodigoEstado :: "string \<Rightarrow> string option" where
  "obterCodigoEstado sigla = map_of estados_codigos sigla"

section \<open>Operations\<close>

text \<open>\<open>buscarCEP\<close>: a cleaned code that is not eight digits is answered locally with
  \<open>null\<close>; otherwise the ViaCEP answer, \<open>null\<close> when it carries \<open>erro\<close> or the request fails.\<close>

definition buscarCEP :: "via_cep_api \<Rightarrow> string \<Rightarrow> endereco_cep option obs" where
  "buscarCEP api c =
    (let cepLimpo = only_digits c in
     if length cepLimpo \<noteq> 8 then obs_of None
     else catch_error
            (obs_map (\<lambda>e. if erro e then None else Some e) (api cepLimpo))
            (\<lambda>_. obs_of None))"

definition obterDistanciasRegiaoMetropolitana :: "string \<Rightarrow> string \<Rightarrow> string \<Rightarrow> string \<Rightarrow> real" where
  "obterDistanciasRegiaoMetropolitana cidadeOrigem estadoOrigem cidadeDestino estadoDestino =
    (case map_of regioesMetropolitanas estadoOrigem of
       None \<Rightarrow> 0
     | Some regiao \<Rightarrow>
         (case map_of regiao cidadeOrigem of
            None \<Rightarrow> 0
          | Some cidadesOrigem \<Rightarrow>
              (case map_of cidadesOrigem cidadeDestino of Some d \<Rightarrow> d | None \<Rightarrow> 0)))"

text \<open>The body of the \<open>map\<close> in \<open>calcularDistanciaCEP\<close>, for the answer of \<open>buscarCEP\<close>.\<close>

definition distancia_por_endereco :: "string \<Rightarrow> string \<Rightarrow> endereco_cep option \<Rightarrow> real" where
  "distancia_por_endereco dCidade dEstado endereco =
    (case endereco of
       None \<Rightarrow> 0
     | Some e \<Rightarrow>
         (let cidadeOrigem = localidade e; estadoOrigem = uf e in
          if estadoOrigem \<noteq> dEstado then 0
          else if to_lower cidadeOrigem = to_lower dCidade then 10
          else
            (let d = obterDistanciasRegiaoMetropolitana cidadeOrigem estadoOrigem dCidade dEstado
             in if 0 < d then d else 80)))"

definition calcularDistanciaCEP :: "via_cep_api \<Rightarrow> string \<Rightarrow> string \<Rightarrow> string \<Rightarrow> real obs" where
  "calcularDistanciaCEP api c dCidade dEstado =
    catch_error
      (obs_map (distancia_por_endereco dCidade dEstado) (buscarCEP api c))
      (\<lambda>_. obs_of 0)"

definition estimarDistanciaSimples :: "string \<Rightarrow> string \<Rightarrow> real" where
  "estimarDistanciaSimples origem destino =
    (let origemParts = split_on (CHR '','') origem; destinoParts = split_on (CHR '','') destino in
     if length origemParts < 2 \<or> length destinoParts < 2 then 500
     else if js_trim (origemParts ! 1) \<noteq> js_trim (destinoParts ! 1) then 800
     else 300)"

definition estimarDistanciaPorCoordenadas :: "string \<Rightarrow> string \<Rightarrow> real" where
  "estimarDistanciaPorCoordenadas origem destino =
    (let oCidade = js_trim (hd (split_on (CHR '','') origem));
         dCidade = js_trim (hd (split_on (CHR '','') destino)) in
     case map_of distancias oCidade of
       Some linha \<Rightarrow>
         (case map_of linha dCidade of
            Some d \<Rightarrow> if d \<noteq> 0 then d else estimarDistanciaSimples origem destino
          | None \<Rightarrow> estimarDistanciaSimples origem destino)
     | None \<Rightarrow> estimarDistanciaSimples origem destino)"

text \<open>The template string \<open>`${cidade}, ${estado}, ${pais}`\<close>.\<close>

definition local_str :: "string \<Rightarrow> string \<Rightarrow> string \<Rightarrow> string" where
  "local_str c e p = c @ '', '' @ e @ '', '' @ p"

definition calcularDistancia ::
  "string \<Rightarrow> string \<Rightarrow> string \<Rightarrow> string \<Rightarrow> string \<Rightarrow> string \<Rightarrow> real obs" where
  "calcularDistancia oCidade oEstado oPais dCidade dEstado dPais =
    (let origem = local_str oCidade oEstado oPais;
         destino = local_str dCidade dEstado dPais in
     if oPais \<noteq> dPais then obs_of 5000
     else obs_of (estimarDistanciaPorCoordenadas origem destino))"

text \<open>\<open>obterCoordenadas\<close>: a private mock that answers Sao Paulo's coordinates for every
  place; no method calls it.\<close>

definition obterCoordenadas :: "string \<Rightarrow> (real \<times> real) obs" where
  "obterCoordenadas local = obs_of (-23.5505, -46.6333)"

text \<open>The contract of Angular's \<open>HttpClient.get\<close>: a request answers with a body or fails; it never completes without a value.\<close>

definition api_settles :: "via_cep_api \<Rightarrow> bool" where
  "api_settles api \<longleftrightarrow> (\<forall>c. api c \<noteq> Silent)"

text \<open>Example answers of ViaCEP, used by the witnesses below.\<close>

abbreviation endereco_exemplo :: "string \<Rightarrow> string \<Rightarrow> string \<Rightarrow> endereco_cep" where
  "endereco_exemplo c cid sigla \<equiv> \<lparr>cep = c, logradouro = [], complemento = [], bairro = [],
     localidade = cid, uf = sigla, erro = False\<rparr>"

section \<open>Lemmas\<close>

lemma buscarCEP_eq:
  "buscarCEP api c =
    (if length (only_digits c) \<noteq> 8 then Emits None
     else case api (only_digits c) of
            Emits e \<Rightarrow> Emits (if erro e then None else Some e)
          | Fails err \<Rightarrow> Emits None
          | Silent \<Rightarrow> Silent)"
  by (simp add: buscarCEP_def obs_of_def Let_def split: obs.split)

lemma buscarCEP_settles:
  "api_settles api \<Longrightarrow> \<exists>r. buscarCEP api c = Emits r"
  by (auto simp: buscarCEP_eq api_settles_def split: obs.split)

lemma calcularDistanciaCEP_eq:
  "buscarCEP api c = Emits r \<Longrightarrow>
   calcularDistanciaCEP api c dCidade dEstado = Emits (distancia_por_endereco dCidade dEstado r)"
  by (simp add: calcularDistanciaCEP_def)

lemma regioesMetropolitanas_range:
  "\<forall>(e, r) \<in> set regioesMetropolitanas. \<forall>(c, cs) \<in> set r. \<forall>(c', d) \<in> set cs. 0 \<le> d \<and> d \<le> 100"
  by (simp add: regioesMetropolitanas_def)

lemma obterDistanciasRegiaoMetropolitana_range:
  "0 \<le> obterDistanciasRegiaoMetropolitana co eo cd ed \<and> obterDistanciasRegiaoMetropolitana co eo cd ed \<le> 100"
  using regioesMetropolitanas_range
  by (fastforce simp: obterDistanciasRegiaoMetropolitana_def dest!: map_of_SomeD split: option.split)

lemma distancia_por_endereco_range:
  "0 \<le> distancia_por_endereco dCidade dEstado r \<and> distancia_por_endereco dCidade dEstado r \<le> 100"
  using obterDistanciasRegiaoMetropolitana_range
  by (auto simp: distancia_por_endereco_def Let_def split: option.split)

lemma calcularDistanciaCEP_settles:
  assumes "api_settles api"
  shows "\<exists>d. calcularDistanciaCEP api c dCidade dEstado = Emits d \<and> 0 \<le> d"
proof -
  from buscarCEP_settles [OF assms] obtain r where "buscarCEP api c = Emits r" ..
  then show ?thesis
    using distancia_por_endereco_range by (simp add: calcularDistanciaCEP_eq)
qed

lemma calcularDistanciaCEP_nonneg:
  "calcularDistanciaCEP api c dCidade dEstado = Emits d \<Longrightarrow> 0 \<le> d"
  using distancia_por_endereco_range
  by (auto simp: calcularDistanciaCEP_def obs_of_def obs_map_Emits_iff dest!: catch_error_Emits)

text \<open>C10: for a server that answers every request, the postal-code resolution always emits a distance, and it lies between 0 and 100 km (the longest metropolitan entry, Sao Paulo to Campinas): the cascade never fails and never estimates a long road trip.\<close>

theorem calcularDistanciaCEP_bounds:
  assumes "api_settles api"
  shows "\<exists>d. calcularDistanciaCEP api c dCidade dEstado = Emits d \<and> 0 \<le> d \<and> d \<le> 100"
proof -
  from buscarCEP_settles [OF assms] obtain r where "buscarCEP api c = Emits r" ..
  then show ?thesis
    using distancia_por_endereco_range by (simp add: calcularDistanciaCEP_eq)
qed

theorem calcularDistanciaCEP_bounds_witness:
  "api_settles (\<lambda>_. Emits (endereco_exemplo ''13010-000'' ''Campinas'' ''SP'')) \<and>
   (\<exists>d. calcularDistanciaCEP (\<lambda>_. Emits (endereco_exemplo ''13010-000'' ''Campinas'' ''SP''))
          ''13010-000'' sao_paulo ''SP'' = Emits d \<and> 0 \<le> d \<and> d \<le> 100)"
proof -
  have h: "api_settles (\<lambda>_. Emits (endereco_exemplo ''13010-000'' ''Campinas'' ''SP''))"
    by (simp add: api_settles_def)
  with calcularDistanciaCEP_bounds [OF h] show ?thesis by blast
qed

lemma calcularDistanciaCEP_endereco:
  assumes "length (only_digits c) = 8" "api (only_digits c) = Emits e" "\<not> erro e"
  shows "calcularDistanciaCEP api c dCidade dEstado = Emits (distancia_por_endereco dCidade dEstado (Some e))"
  using assms by (simp add: calcularDistanciaCEP_eq buscarCEP_eq)

text \<open>C11: the same-state branches of the cascade: for a postal code that resolves to a city of the event's state, the distance is 10 km when it is the event's city up to letter case, otherwise the metropolitan table's entry when there is one, and otherwise the 80 km same-state estimate.\<close>

theorem calcularDistanciaCEP_same_state:
  assumes "length (only_digits c) = 8" "api (only_digits c) = Emits e" "\<not> erro e" "uf e = dEstado"
  shows "(to_lower (localidade e) = to_lower dCidade \<longrightarrow> calcularDistanciaCEP api c dCidade dEstado = Emits 10) \<and>
    (to_lower (localidade e) \<noteq> to_lower dCidade \<and> 0 < obterDistanciasRegiaoMetropolitana (localidade e) (uf e) dCidade dEstado \<longrightarrow>
       calcularDistanciaCEP api c dCidade dEstado = Emits (obterDistanciasRegiaoMetropolitana (localidade e) (uf e) dCidade dEstado)) \<and>
    (to_lower (localidade e) \<noteq> to_lower dCidade \<and> obterDistanciasRegiaoMetropolitana (localidade e) (uf e) dCidade dEstado = 0 \<longrightarrow>
       calcularDistanciaCEP api c dCidade dEstado = Emits 80)"
  using assms by (simp add: calcularDistanciaCEP_endereco distancia_por_endereco_def Let_def)

theorem calcularDistanciaCEP_same_state_witness:
  "calcularDistanciaCEP (\<lambda>_. Emits (endereco_exemplo ''29900-000'' ''Linhares'' ''ES''))
     ''29900-000'' vitoria ''ES'' = Emits 80 \<and>
   calcularDistanciaCEP (\<lambda>_. Emits (endereco_exemplo ''29010-000'' vitoria ''ES''))
     ''29010000'' (''VIT'' @ [CHR 0xC3, CHR 0x93] @ ''RIA'') ''ES'' = Emits 10"
proof
  show "calcularDistanciaCEP (\<lambda>_. Emits (endereco_exemplo ''29900-000'' ''Linhares'' ''ES''))
     ''29900-000'' vitoria ''ES'' = Emits 80"
    using calcularDistanciaCEP_same_state [of "''29900-000''" "\<lambda>_. Emits (endereco_exemplo ''29900-000'' ''Linhares'' ''ES'')"
        "endereco_exemplo ''29900-000'' ''Linhares'' ''ES''" "''ES''" vitoria]
    by code_simp
  show "calcularDistanciaCEP (\<lambda>_. Emits (endereco_exemplo ''29010-000'' vitoria ''ES''))
     ''29010000'' (''VIT'' @ [CHR 0xC3, CHR 0x93] @ ''RIA'') ''ES'' = Emits 10"
    using calcularDistanciaCEP_same_state [of "''29010000''" "\<lambda>_. Emits (endereco_exemplo ''29010-000'' vitoria ''ES'')"
        "endereco_exemplo ''29010-000'' vitoria ''ES''" "''ES''" "''VIT'' @ [CHR 0xC3, CHR 0x93] @ ''RIA''"]
    by code_simp
qed

text \<open>C13: degradation: a postal code that is not eight digits once cleaned, a failed request, an answer flagged \<open>erro\<close>, or a city in another state than the event's all resolve to distance 0, never to an error.\<close>

theorem calcularDistanciaCEP_degrades:
  assumes "length (only_digits c) \<noteq> 8 \<or> (\<exists>err. api (only_digits c) = Fails err)
    \<or> (\<exists>e. api (only_digits c) = Emits e \<and> (erro e \<or> uf e \<noteq> dEstado))"
  shows "calcularDistanciaCEP api c dCidade dEstado = Emits 0"
  using assms
  by (auto simp: calcularDistanciaCEP_def buscarCEP_eq distancia_por_endereco_def Let_def obs_of_def)

theorem calcularDistanciaCEP_degrades_witness:
  "calcularDistanciaCEP (\<lambda>_. Fails HttpError) ''29010-000'' vitoria ''ES'' = Emits 0"
  by (rule calcularDistanciaCEP_degrades) simp

lemma js_trim_space_Cons: "js_space x \<Longrightarrow> js_trim (x # s) = js_trim s"
  by (simp add: js_trim_def)

lemma split_on_length_sep: "c \<in> set s \<Longrightarrow> 2 \<le> length (split_on c s)"
proof (induction s)
  case Nil
  then show ?case by simp
next
  case (Cons x xs)
  show ?case
  proof (cases "x = c")
    case True
    then show ?thesis by (simp add: Suc_le_eq)
  next
    case False
    with Cons have "2 \<le> length (split_on c xs)" by simp
    with False show ?thesis by (simp add: Let_def)
  qed
qed

lemma split_on_Cons_append_sep:
  "c \<notin> set a \<Longrightarrow> x \<noteq> c \<Longrightarrow> split_on c (x # a @ c # b) = (x # a) # split_on c b"
  using split_on_append_sep [of c "x # a" b] by simp

lemma local_str_split:
  assumes "CHR '','' \<notin> set c" "CHR '','' \<notin> set e"
  shows "split_on (CHR '','') (local_str c e p) =
    c # (CHR '' '' # e) # split_on (CHR '','') (CHR '' '' # p)"
  using assms by (simp add: local_str_def split_on_append_sep split_on_Cons_append_sep)

lemma local_str_has_sep: "2 \<le> length (split_on (CHR '','') (local_str c e p))"
  by (rule split_on_length_sep) (simp add: local_str_def)

lemma distancias_values:
  "\<forall>(o', linha) \<in> set distancias. \<forall>(d', v) \<in> set linha.
     v \<in> {430, 1015, 1200, 586, 1148, 434, 1080, 740, 950}"
  by (simp add: distancias_def)

lemma estimarDistanciaSimples_local_str:
  "estimarDistanciaSimples (local_str c e p) (local_str c' e' p') \<in> {800, 300}"
  using local_str_has_sep [of c e p] local_str_has_sep [of c' e' p']
  by (simp add: estimarDistanciaSimples_def Let_def)

lemma distancias_lookup:
  assumes "map_of distancias o' = Some linha" "map_of linha d' = Some v"
  shows "v \<in> {430, 1015, 1200, 586, 1148, 434, 1080, 740, 950}"
proof -
  from assms have "(o', linha) \<in> set distancias" "(d', v) \<in> set linha"
    by (auto dest: map_of_SomeD)
  with distancias_values show ?thesis by fast
qed

lemma estimarDistanciaPorCoordenadas_values:
  "estimarDistanciaPorCoordenadas (local_str c e p) (local_str c' e' p') \<in>
     {430, 1015, 1200, 586, 1148, 434, 1080, 740, 950, 800, 300}"
proof -
  have s: "estimarDistanciaSimples (local_str c e p) (local_str c' e' p') \<in> {800, 300}"
    by (rule estimarDistanciaSimples_local_str)
  then show ?thesis
    unfolding estimarDistanciaPorCoordenadas_def Let_def
    by (auto split: option.split dest: distancias_lookup simp del: insert_iff)
qed

lemma local_str_parts:
  assumes "CHR '','' \<notin> set c" "CHR '','' \<notin> set e"
  shows "js_trim (hd (split_on (CHR '','') (local_str c e p))) = js_trim c \<and>
         js_trim (split_on (CHR '','') (local_str c e p) ! 1) = js_trim e"
  using assms by (simp add: local_str_split js_trim_space_Cons js_space_def)

lemma estimarDistanciaSimples_parts:
  assumes "CHR '','' \<notin> set oC" "CHR '','' \<notin> set oE" "CHR '','' \<notin> set dC" "CHR '','' \<notin> set dE"
  shows "estimarDistanciaSimples (local_str oC oE oP) (local_str dC dE dP) =
    (if js_trim oE \<noteq> js_trim dE then 800 else 300)"
  using assms local_str_parts [of oC oE oP] local_str_parts [of dC dE dP]
    local_str_has_sep [of oC oE oP] local_str_has_sep [of dC dE dP]
  by (simp add: estimarDistanciaSimples_def Let_def)

text \<open>C14: the city-to-city estimate, for a city and a state without a comma: 5000 km between countries; otherwise the hub table's non-zero entry for the trimmed origin and destination cities, read from the origin's row; otherwise 800 km between states and 300 km within one. The estimators read the place back from the joined string \<open>"cidade, estado, pais"\<close>, so this is what \<open>calcularDistancia\<close> computes for every pair the form sends.\<close>

theorem calcularDistancia_caracterizacao:
  assumes "CHR '','' \<notin> set oC" "CHR '','' \<notin> set oE" "CHR '','' \<notin> set dC" "CHR '','' \<notin> set dE"
  shows "calcularDistancia oC oE oP dC dE dP =
    Emits (if oP \<noteq> dP then 5000
           else let simples = (if js_trim oE \<noteq> js_trim dE then 800 else 300) in
             case map_of distancias (js_trim oC) of
               Some linha \<Rightarrow> (case map_of linha (js_trim dC) of
                               Some d \<Rightarrow> if d \<noteq> 0 then d else simples
                             | None \<Rightarrow> simples)
             | None \<Rightarrow> simples)"
proof -
  have o: "\<And>p. js_trim (hd (split_on (CHR '','') (local_str oC oE p))) = js_trim oC"
    using local_str_parts [OF assms(1,2)] by blast
  have d: "\<And>p. js_trim (hd (split_on (CHR '','') (local_str dC dE p))) = js_trim dC"
    using local_str_parts [OF assms(3,4)] by blast
  show ?thesis
    by (simp add: calcularDistancia_def estimarDistanciaPorCoordenadas_def obs_of_def Let_def o d
        estimarDistanciaSimples_parts [OF assms] split: option.split)
qed

theorem calcularDistancia_caracterizacao_witness:
  "calcularDistancia sao_paulo ''SP'' ''Brasil'' ''Belo Horizonte'' ''MG'' ''Brasil'' = Emits 586 \<and>
   calcularDistancia ''Belo Horizonte'' ''MG'' ''Brasil'' sao_paulo ''SP'' ''Brasil'' = Emits 800"
proof
  show "calcularDistancia sao_paulo ''SP'' ''Brasil'' ''Belo Horizonte'' ''MG'' ''Brasil'' = Emits 586"
    using calcularDistancia_caracterizacao [of sao_paulo "''SP''" "''Belo Horizonte''" "''MG''" "''Brasil''" "''Brasil''"]
    by (simp add: js_trim_def js_space_def distancias_def)
  show "calcularDistancia ''Belo Horizonte'' ''MG'' ''Brasil'' sao_paulo ''SP'' ''Brasil'' = Emits 800"
    using calcularDistancia_caracterizacao [of "''Belo Horizonte''" "''MG''" sao_paulo "''SP''" "''Brasil''" "''Brasil''"]
    by (simp add: js_trim_def js_space_def distancias_def)
qed

text \<open>C15: the city-to-city estimate never yields 500 km: the specification's fallback for a degenerate pair (section 4.2, step 3e) is dead code, because the strings \<open>estimarDistanciaSimples\<close> splits always hold two commas.\<close>

theorem calcularDistancia_never_500:
  "calcularDistancia oCidade oEstado oPais dCidade dEstado dPais \<noteq> Emits 500"
  using estimarDistanciaPorCoordenadas_values [of oCidade oEstado oPais dCidade dEstado dPais]
  by (auto simp: calcularDistancia_def Let_def obs_of_def)



end
