(* ===== verification/Distance_Resolver.thy ===== *)
theory Distance_Resolver
  imports Geocoding
begin

text \<open>
  \<open>CarbonCalculatorService.calcularDistanciaTrecho\<close>: the mode-dependent cascade that
  resolves the distance of one leg. An explicit positive \<open>distanciaKm\<close> wins; road modes
  (car, motorcycle, bus) go through the postal code (\<open>calcularDistanciaCEP\<close>, always
  towards the trip's destination); plane and train go through the city estimate
  (\<open>calcularDistancia\<close>, with the leg's own destination when it has one and the origin
  country fixed to \<open>'Brasil'\<close>); every other mode is 0. The function is split as the
  code is: \<open>distancia_por_modo\<close> is everything after the explicit-distance test.
  The gateway is the parameter \<open>api\<close> throughout.
\<close>

section \<open>Definitions\<close>

definition modos_rodoviarios :: "string list" where
  "modos_rodoviarios = [''carro'', ''motocicleta'', ''onibus'']"

definition distancia_por_modo :: "via_cep_api \<Rightarrow> trecho \<Rightarrow> viagem \<Rightarrow> real obs" where
  "distancia_por_modo api t v =
    (let transporte = meioTransporte t in
     if transporte = ''carro'' \<or> transporte = ''motocicleta'' \<or> transporte = ''onibus'' then
       (case cepOrigem t of
          Some c \<Rightarrow> if c \<noteq> [] then calcularDistanciaCEP api (only_digits c)
                                    (viagem.destinoCidade v) (viagem.destinoEstado v)
                   else obs_of 0
        | None \<Rightarrow> obs_of 0)
     else if transporte = ''aviao'' \<or> transporte = ''trem'' then
       (let dC = str_or (trecho.destinoCidade t) (viagem.destinoCidade v);
            dE = str_or (trecho.destinoEstado t) (viagem.destinoEstado v) in
        case (origemCidade t, origemEstado t) of
          (Some oC, Some oE) \<Rightarrow>
            if oC = [] \<or> oE = [] then obs_of 0
            else calcularDistancia oC oE ''Brasil'' dC dE (destinoPais v)
        | _ \<Rightarrow> obs_of 0)
     else obs_of 0)"

text \<open>The \<open>index\<close> argument of the source is unused; it is kept for the signature.\<close>

definition calcularDistanciaTrecho :: "via_cep_api \<Rightarrow> trecho \<Rightarrow> viagem \<Rightarrow> nat \<Rightarrow> real obs" where
  "calcularDistanciaTrecho api t v index =
    (case distanciaKm t of
       Some d \<Rightarrow> if 0 < d then obs_of d else distancia_por_modo api t v
     | None \<Rightarrow> distancia_por_modo api t v)"

text \<open>A trip to Vitoria (ES), Brazil, with the given legs, for the witnesses below.\<close>

abbreviation viagem_exemplo :: "trecho list \<Rightarrow> bool \<Rightarrow> viagem" where
  "viagem_exemplo ts ida \<equiv> \<lparr>nome = ''Ana'', email = ''ana@example.org'', cpf = ''00000000000'',
     telefone = ''27999999999'', viagem.destinoCidade = vitoria, viagem.destinoEstado = ''ES'',
     destinoPais = ''Brasil'', viagem.trechos = ts, dataViagem = ''2025-05-10'', dataRetorno = None,
     idaEVolta = ida, observacoes = None\<rparr>"

section \<open>Lemmas\<close>

lemma calcularDistancia_pos:
  "calcularDistancia oC oE oP dC dE dP = Emits x \<Longrightarrow> 0 < x"
  using estimarDistanciaPorCoordenadas_values [of oC oE oP dC dE dP]
  by (auto simp: calcularDistancia_def Let_def obs_of_def split: if_splits)

lemma estimarDistanciaPorCoordenadas_pos:
  "0 < estimarDistanciaPorCoordenadas (local_str c e p) (local_str c' e' p')"
  using estimarDistanciaPorCoordenadas_values [of c e p c' e' p'] by auto

lemma calcularDistanciaTrecho_no_explicit:
  "\<not> pos_num (distanciaKm t) \<Longrightarrow> calcularDistanciaTrecho api t v i = distancia_por_modo api t v"
  by (auto simp: calcularDistanciaTrecho_def pos_num_def split: option.split)

lemma distancia_por_modo_settles:
  assumes "api_settles api"
  shows "\<exists>d. distancia_por_modo api t v = Emits d \<and> 0 \<le> d"
proof -
  have cep: "\<And>c. \<exists>d. calcularDistanciaCEP api c (viagem.destinoCidade v) (viagem.destinoEstado v) = Emits d \<and> 0 \<le> d"
    using calcularDistanciaCEP_settles [OF assms] by blast
  have city: "\<And>oC oE dC dE dP. \<exists>d. calcularDistancia oC oE ''Brasil'' dC dE dP = Emits d \<and> 0 \<le> d"
    by (simp add: calcularDistancia_def Let_def obs_of_def less_imp_le estimarDistanciaPorCoordenadas_pos)
  show ?thesis
    using cep city by (auto simp: distancia_por_modo_def Let_def obs_of_def split: option.split)
qed

lemma calcularDistanciaTrecho_Emits:
  assumes "api_settles api"
  shows "\<exists>d. calcularDistanciaTrecho api t v i = Emits d"
  using distancia_por_modo_settles [OF assms, of t v]
  by (auto simp: calcularDistanciaTrecho_def obs_of_def split: option.split)

text \<open>Whatever the gateway does, a distance the resolver emits is never negative.\<close>

lemma distancia_por_modo_nonneg:
  "distancia_por_modo api t v = Emits d \<Longrightarrow> 0 \<le> d"
  by (auto simp: distancia_por_modo_def Let_def obs_of_def split: option.splits if_splits
      dest: calcularDistanciaCEP_nonneg calcularDistancia_pos)

lemma calcularDistanciaTrecho_nonneg:
  "calcularDistanciaTrecho api t v i = Emits d \<Longrightarrow> 0 \<le> d"
  by (auto simp: calcularDistanciaTrecho_def obs_of_def split: option.splits if_splits
      dest: distancia_por_modo_nonneg)

text \<open>C2: explicit-distance precedence: a leg with a positive \<open>distanciaKm\<close> resolves to exactly that distance, whatever its mode, postal code or cities, and without consulting the gateway.\<close>

theorem calcularDistanciaTrecho_explicit:
  assumes "distanciaKm t = Some d" "0 < d"
  shows "calcularDistanciaTrecho api t v i = Emits d"
  using assms by (simp add: calcularDistanciaTrecho_def obs_of_def)

theorem calcularDistanciaTrecho_explicit_witness:
  "calcularDistanciaTrecho (\<lambda>_. Fails HttpError)
     ((trecho_vazio ''carro'')\<lparr>distanciaKm := Some 120, cepOrigem := Some ''abc''\<rparr>)
     (viagem_exemplo [] False) 0 = Emits 120"
  by (rule calcularDistanciaTrecho_explicit) simp_all

text \<open>C3: totality of the resolver: for a gateway that answers every request, every leg resolves to a distance, and the distance is never negative; an unresolvable leg is 0, never an error.\<close>

theorem calcularDistanciaTrecho_settles:
  assumes "api_settles api"
  shows "\<exists>d. calcularDistanciaTrecho api t v i = Emits d \<and> 0 \<le> d"
  using distancia_por_modo_settles [OF assms, of t v]
  by (auto simp: calcularDistanciaTrecho_def obs_of_def split: option.split)

theorem calcularDistanciaTrecho_settles_witness:
  "api_settles (\<lambda>_. Fails HttpError) \<and>
   (\<exists>d. calcularDistanciaTrecho (\<lambda>_. Fails HttpError)
          ((trecho_vazio ''carro'')\<lparr>cepOrigem := Some ''29900-000''\<rparr>) (viagem_exemplo [] False) 0
        = Emits d \<and> 0 \<le> d)"
proof -
  have h: "api_settles (\<lambda>_. Fails HttpError)" by (simp add: api_settles_def)
  with calcularDistanciaTrecho_settles [OF h] show ?thesis by blast
qed

text \<open>C18: for road modes the leg's own destination is ignored: the postal-code cascade always measures towards the trip's destination, although the specification lets a leg override it (section 3, section 4.2 step 2c) and the plane and train branch honours the override.\<close>

theorem calcularDistanciaTrecho_road_ignores_leg_destination:
  assumes "meioTransporte t \<in> set modos_rodoviarios"
  shows "calcularDistanciaTrecho api (t\<lparr>trecho.destinoCidade := dC, trecho.destinoEstado := dE\<rparr>) v i =
         calcularDistanciaTrecho api t v i"
proof -
  have "distancia_por_modo api (t\<lparr>trecho.destinoCidade := dC, trecho.destinoEstado := dE\<rparr>) v =
        distancia_por_modo api t v"
    using assms unfolding modos_rodoviarios_def distancia_por_modo_def Let_def by auto
  then show ?thesis by (simp only: calcularDistanciaTrecho_def) simp
qed

theorem calcularDistanciaTrecho_road_ignores_leg_destination_witness:
  "calcularDistanciaTrecho (\<lambda>_. Emits (endereco_exemplo ''29100-000'' ''Vila Velha'' ''ES''))
     ((trecho_vazio ''carro'')\<lparr>cepOrigem := Some ''29100-000'',
        trecho.destinoCidade := Some ''Guarapari'', trecho.destinoEstado := Some ''ES''\<rparr>)
     (viagem_exemplo [] False) 0
   = calcularDistanciaTrecho (\<lambda>_. Emits (endereco_exemplo ''29100-000'' ''Vila Velha'' ''ES''))
     ((trecho_vazio ''carro'')\<lparr>cepOrigem := Some ''29100-000''\<rparr>) (viagem_exemplo [] False) 0"
proof -
  have "meioTransporte ((trecho_vazio ''carro'')\<lparr>cepOrigem := Some ''29100-000''\<rparr>) \<in> set modos_rodoviarios"
    by (simp add: modos_rodoviarios_def)
  from calcularDistanciaTrecho_road_ignores_leg_destination [OF this] show ?thesis by simp
qed

text \<open>C19: a plane or train leg without an explicit distance and without both an origin city and an origin state resolves to 0 (section 4.2, step 3a).\<close>

theorem calcularDistanciaTrecho_no_origin:
  assumes "meioTransporte t = ''aviao'' \<or> meioTransporte t = ''trem''"
    and "\<not> pos_num (distanciaKm t)"
    and "\<not> truthy (origemCidade t) \<or> \<not> truthy (origemEstado t)"
  shows "calcularDistanciaTrecho api t v i = Emits 0"
  using assms
  by (auto simp: calcularDistanciaTrecho_no_explicit distancia_por_modo_def truthy_def obs_of_def Let_def
      split: option.split)

theorem calcularDistanciaTrecho_no_origin_witness:
  "calcularDistanciaTrecho (\<lambda>_. Fails HttpError) ((trecho_vazio ''aviao'')\<lparr>origemCidade := Some sao_paulo\<rparr>)
     (viagem_exemplo [] False) 0 = Emits 0"
  by (rule calcularDistanciaTrecho_no_origin) (simp_all add: pos_num_def truthy_def)

text \<open>C20: the origin country of a plane or train leg is never asked: it is fixed to \<open>'Brasil'\<close>, so a leg with an origin towards an event whose country is spelt in any other way (\<open>'Brazil'\<close>, \<open>'brasil'\<close>) is the 5000 km international estimate, whatever its cities.\<close>

theorem calcularDistanciaTrecho_international:
  assumes "meioTransporte t = ''aviao'' \<or> meioTransporte t = ''trem''"
    and "\<not> pos_num (distanciaKm t)" and "truthy (origemCidade t)" and "truthy (origemEstado t)"
    and "destinoPais v \<noteq> ''Brasil''"
  shows "calcularDistanciaTrecho api t v i = Emits 5000"
  using assms
  by (auto simp: calcularDistanciaTrecho_no_explicit distancia_por_modo_def truthy_def obs_of_def Let_def
      calcularDistancia_def split: option.split)

theorem calcularDistanciaTrecho_international_witness:
  "calcularDistanciaTrecho (\<lambda>_. Fails HttpError)
     ((trecho_vazio ''aviao'')\<lparr>origemCidade := Some sao_paulo, origemEstado := Some ''SP''\<rparr>)
     ((viagem_exemplo [] False)\<lparr>destinoPais := ''brasil''\<rparr>) 0 = Emits 5000"
  by (rule calcularDistanciaTrecho_international) (simp_all add: pos_num_def truthy_def)

end
