(* ===== verification/Emission_Factors.thy ===== *)
theory Emission_Factors
  imports Trip_Model
begin

text \<open>
  The emission-factor table of \<open>CarbonCalculatorService\<close> (the private field
  \<open>fatoresEmissao\<close>) and its lookup \<open>obterFatorEmissaoTrecho\<close>. The table is an
  association list; \<open>fatoresEmissao[k] || d\<close> is \<open>fator_or k d\<close>.
  Beside the code stands the table of the specification (section 4.1), over closed
  datatypes of modes, flight classes and fuels, and the lemmas show that the code
  implements it, that every factor lies between the smallest and the largest entry, and
  where the string keys let the code depart from the specification.
\<close>

section \<open>The code\<close>

definition fatoresEmissao :: "(string \<times> real) list" where
  "fatoresEmissao =
    [(''aviao-economica'', 0.255), (''aviao-executiva'', 0.510), (''aviao-primeira'', 0.765),
     (''carro-gasolina'', 0.192), (''carro-etanol'', 0.115), (''carro-diesel'', 0.171),
     (''carro-eletrico'', 0.053), (''carro-hibrido'', 0.120),
     (''onibus'', 0.089), (''trem'', 0.041), (''metro'', 0.027),
     (''motocicleta'', 0.113), (''navio'', 0.019)]"

text \<open>\<open>this.fatoresEmissao[k] || d\<close>: a missing key, like a zero entry, falls back to \<open>d\<close>.\<close>

definition fator_or :: "string \<Rightarrow> real \<Rightarrow> real" where
  "fator_or k d = (case map_of fatoresEmissao k of Some v \<Rightarrow> if v \<noteq> 0 then v else d | None \<Rightarrow> d)"

text \<open>\<open>this.fatoresEmissao[k]\<close> for a key of the table (the \<open>None\<close> branch is never taken: \<open>fator_at_keys\<close>).\<close>

definition fator_at :: "string \<Rightarrow> real" where
  "fator_at k = (case map_of fatoresEmissao k of Some v \<Rightarrow> v | None \<Rightarrow> 0)"

definition obterFatorEmissaoTrecho :: "trecho \<Rightarrow> real" where
  "obterFatorEmissaoTrecho t =
    (let transporte = meioTransporte t in
     if transporte = ''aviao'' then
       (let classe = str_or (classeVoo t) ''economica''
        in fator_or (''aviao-'' @ classe) (fator_at ''aviao-economica''))
     else if transporte = ''carro'' then
       (let combustivel = str_or (tipoCombustivel t) ''gasolina''
        in fator_or (''carro-'' @ combustivel) (fator_at ''carro-gasolina''))
     else fator_or transporte 0.1)"

section \<open>The specification\<close>

datatype modo = Aviao | Carro | Onibus | Trem | Metro | Motocicleta | Navio | Outro

datatype classe_voo = Economica | Executiva | Primeira

datatype combustivel = Gasolina | Etanol | Diesel | Eletrico | Hibrido

text \<open>The mode strings the form offers (\<open>meiosTransporte\<close> of the form component).\<close>

definition modos_ui :: "string list" where
  "modos_ui = [''aviao'', ''carro'', ''onibus'', ''trem'', ''metro'', ''motocicleta'', ''navio'']"

definition modo_of :: "string \<Rightarrow> modo" where
  "modo_of s =
    (if s = ''aviao'' then Aviao else if s = ''carro'' then Carro
     else if s = ''onibus'' then Onibus else if s = ''trem'' then Trem
     else if s = ''metro'' then Metro else if s = ''motocicleta'' then Motocicleta
     else if s = ''navio'' then Navio else Outro)"

text \<open>An unrecognised or missing class is economy; an unrecognised or missing fuel is gasoline.\<close>

definition classe_of :: "string option \<Rightarrow> classe_voo" where
  "classe_of c =
    (if c = Some ''executiva'' then Executiva else if c = Some ''primeira'' then Primeira
     else Economica)"

definition combustivel_of :: "string option \<Rightarrow> combustivel" where
  "combustivel_of c =
    (if c = Some ''etanol'' then Etanol else if c = Some ''diesel'' then Diesel
     else if c = Some ''eletrico'' then Eletrico else if c = Some ''hibrido'' then Hibrido
     else Gasolina)"

fun fator_spec :: "modo \<Rightarrow> classe_voo \<Rightarrow> combustivel \<Rightarrow> real" where
  "fator_spec Aviao Economica f = 0.255"
| "fator_spec Aviao Executiva f = 0.510"
| "fator_spec Aviao Primeira f = 0.765"
| "fator_spec Carro c Gasolina = 0.192"
| "fator_spec Carro c Etanol = 0.115"
| "fator_spec Carro c Diesel = 0.171"
| "fator_spec Carro c Eletrico = 0.053"
| "fator_spec Carro c Hibrido = 0.120"
| "fator_spec Onibus c f = 0.089"
| "fator_spec Trem c f = 0.041"
| "fator_spec Metro c f = 0.027"
| "fator_spec Motocicleta c f = 0.113"
| "fator_spec Navio c f = 0.019"
| "fator_spec Outro c f = 0.1"

section \<open>Lemmas\<close>

lemma fatoresEmissao_range:
  assumes "map_of fatoresEmissao k = Some v"
  shows "0.019 \<le> v \<and> v \<le> 0.765"
proof -
  from map_of_SomeD [OF assms] have "(k, v) \<in> set fatoresEmissao" .
  then show ?thesis by (auto simp: fatoresEmissao_def)
qed

lemma fator_or_range:
  "0.019 \<le> d \<Longrightarrow> d \<le> 0.765 \<Longrightarrow> 0.019 \<le> fator_or k d \<and> fator_or k d \<le> 0.765"
  by (auto simp: fator_or_def dest: fatoresEmissao_range split: option.splits)

lemma fator_at_keys [simp]:
  "fator_at ''aviao-economica'' = 0.255" "fator_at ''carro-gasolina'' = 0.192"
  by (simp_all add: fator_at_def fatoresEmissao_def)

lemma fator_or_aviao:
  "fator_or (''aviao-'' @ c) d =
    (if c = ''economica'' then 0.255 else if c = ''executiva'' then 0.510
     else if c = ''primeira'' then 0.765 else d)"
  by (simp add: fator_or_def fatoresEmissao_def)

lemma fator_or_carro:
  "fator_or (''carro-'' @ c) d =
    (if c = ''gasolina'' then 0.192 else if c = ''etanol'' then 0.115
     else if c = ''diesel'' then 0.171 else if c = ''eletrico'' then 0.053
     else if c = ''hibrido'' then 0.120 else d)"
  by (simp add: fator_or_def fatoresEmissao_def)

lemma fator_or_plain:
  assumes "m \<in> set modos_ui" "m \<noteq> ''aviao''" "m \<noteq> ''carro''"
  shows "fator_or m d = fator_spec (modo_of m) c f"
proof -
  from assms have "m = ''onibus'' \<or> m = ''trem'' \<or> m = ''metro'' \<or> m = ''motocicleta'' \<or> m = ''navio''"
    by (simp add: modos_ui_def)
  then show ?thesis
    by (elim disjE) (simp_all add: fator_or_def fatoresEmissao_def modo_of_def)
qed

lemma fator_or_absent:
  "map_of fatoresEmissao m = None \<Longrightarrow> fator_or m d = d"
  by (simp add: fator_or_def)

lemma modo_of_absent:
  assumes "map_of fatoresEmissao m = None" "m \<noteq> ''aviao''" "m \<noteq> ''carro''"
  shows "modo_of m = Outro"
proof -
  from assms(1) have "m \<notin> fst ` set fatoresEmissao"
    by (simp add: map_of_eq_None_iff)
  then have "m \<noteq> ''onibus'' \<and> m \<noteq> ''trem'' \<and> m \<noteq> ''metro'' \<and> m \<noteq> ''motocicleta'' \<and> m \<noteq> ''navio''"
    by (auto simp: fatoresEmissao_def)
  with assms(2,3) show ?thesis
    by (simp add: modo_of_def)
qed

lemma obterFatorEmissaoTrecho_eq:
  "obterFatorEmissaoTrecho t =
    (if meioTransporte t = ''aviao'' then fator_or (''aviao-'' @ str_or (classeVoo t) ''economica'') 0.255
     else if meioTransporte t = ''carro'' then fator_or (''carro-'' @ str_or (tipoCombustivel t) ''gasolina'') 0.192
     else fator_or (meioTransporte t) 0.1)"
  unfolding obterFatorEmissaoTrecho_def Let_def fator_at_keys ..

lemma fator_or_pos: "0 < d \<Longrightarrow> 0 < fator_or k d"
  by (auto simp: fator_or_def dest: fatoresEmissao_range split: option.splits)

lemma obterFatorEmissaoTrecho_pos: "0 < obterFatorEmissaoTrecho t"
  by (simp add: obterFatorEmissaoTrecho_eq fator_or_pos)

text \<open>C8: every factor the calculator uses lies between the ship's 0.019 and the first-class flight's 0.765 kg per passenger-km; in particular it is positive, and the lookup never yields the \<open>undefined\<close> of a missing key.\<close>

theorem obterFatorEmissaoTrecho_bounds:
  "0.019 \<le> obterFatorEmissaoTrecho t \<and> obterFatorEmissaoTrecho t \<le> 0.765"
proof -
  consider (aviao) "meioTransporte t = ''aviao''" | (carro) "meioTransporte t = ''carro''"
    | (other) "meioTransporte t \<noteq> ''aviao''" "meioTransporte t \<noteq> ''carro''" by blast
  then show ?thesis
  proof cases
    case aviao
    then show ?thesis
      using fator_or_range [of "0.255" "''aviao-'' @ str_or (classeVoo t) ''economica''"]
      by (simp add: obterFatorEmissaoTrecho_eq)
  next
    case carro
    then show ?thesis
      using fator_or_range [of "0.192" "''carro-'' @ str_or (tipoCombustivel t) ''gasolina''"]
      by (simp add: obterFatorEmissaoTrecho_eq)
  next
    case other
    then show ?thesis
      using fator_or_range [of "0.1" "meioTransporte t"]
      by (simp add: obterFatorEmissaoTrecho_eq)
  qed
qed

text \<open>C9: the code implements the factor table of the specification for every leg whose mode is one the form offers or is no key of the table: planes by class with economy as default, cars by fuel with gasoline as default, a fixed factor for the other modes and 0.1 for an unknown mode.\<close>

theorem obterFatorEmissaoTrecho_refines_spec:
  assumes "meioTransporte t \<in> set modos_ui \<or> map_of fatoresEmissao (meioTransporte t) = None"
  shows "obterFatorEmissaoTrecho t =
    fator_spec (modo_of (meioTransporte t)) (classe_of (classeVoo t)) (combustivel_of (tipoCombustivel t))"
proof -
  consider (aviao) "meioTransporte t = ''aviao''" | (carro) "meioTransporte t = ''carro''"
    | (other) "meioTransporte t \<noteq> ''aviao''" "meioTransporte t \<noteq> ''carro''" by blast
  then show ?thesis
  proof cases
    case aviao
    then have "obterFatorEmissaoTrecho t = fator_or (''aviao-'' @ str_or (classeVoo t) ''economica'') 0.255"
      by (simp add: obterFatorEmissaoTrecho_eq)
    also have "\<dots> = fator_spec Aviao (classe_of (classeVoo t)) (combustivel_of (tipoCombustivel t))"
      by (simp only: fator_or_aviao) (auto simp: classe_of_def str_or_def split: option.splits)
    finally show ?thesis using aviao by (simp add: modo_of_def)
  next
    case carro
    then have "obterFatorEmissaoTrecho t = fator_or (''carro-'' @ str_or (tipoCombustivel t) ''gasolina'') 0.192"
      by (simp add: obterFatorEmissaoTrecho_eq)
    also have "\<dots> = fator_spec Carro (classe_of (classeVoo t)) (combustivel_of (tipoCombustivel t))"
      by (simp only: fator_or_carro) (auto simp: combustivel_of_def str_or_def split: option.splits)
    finally show ?thesis using carro by (simp add: modo_of_def)
  next
    case other
    then have "obterFatorEmissaoTrecho t = fator_or (meioTransporte t) 0.1"
      by (simp add: obterFatorEmissaoTrecho_eq)
    moreover have "fator_or (meioTransporte t) 0.1 =
        fator_spec (modo_of (meioTransporte t)) (classe_of (classeVoo t)) (combustivel_of (tipoCombustivel t))"
    proof (cases "meioTransporte t \<in> set modos_ui")
      case True
      from True other show ?thesis by (rule fator_or_plain)
    next
      case False
      with assms have "map_of fatoresEmissao (meioTransporte t) = None" by blast
      with other show ?thesis by (simp add: fator_or_absent modo_of_absent)
    qed
    ultimately show ?thesis by simp
  qed
qed

theorem obterFatorEmissaoTrecho_refines_spec_witness:
  "obterFatorEmissaoTrecho ((trecho_vazio ''aviao'')\<lparr>classeVoo := Some ''executiva''\<rparr>) =
   fator_spec Aviao Executiva Gasolina"
proof -
  have h: "meioTransporte ((trecho_vazio ''aviao'')\<lparr>classeVoo := Some ''executiva''\<rparr>) \<in> set modos_ui \<or>
     map_of fatoresEmissao (meioTransporte ((trecho_vazio ''aviao'')\<lparr>classeVoo := Some ''executiva''\<rparr>)) = None"
    by (simp add: modos_ui_def)
  from obterFatorEmissaoTrecho_refines_spec [OF h] show ?thesis
    by (simp add: modo_of_def classe_of_def combustivel_of_def)
qed







end
