(* ===== verification/Emission_Calculator.thy ===== *)
theory Emission_Calculator
  imports Distance_Resolver Emission_Factors
begin

text \<open>
  The calculation pipeline of \<open>CarbonCalculatorService\<close>: the emission of one leg
  (\<open>calcularEmissaoTrecho\<close>, with car-pool division), the aggregation of the legs'
  results (\<open>processarCalculoMultiploTrechos\<close>: sums, round-trip doubling, derived
  metrics, rounding at the output), and \<open>calcularEmissao\<close>, which resolves every leg
  (fan-out), joins them with \<open>forkJoin\<close> (fan-in) and aggregates. The lemmas show that
  the join never loses or reorders a leg and that the whole computation always yields a
  result, state the aggregation on every field, and bound the rounding.
\<close>

section \<open>Definitions\<close>

definition calcularEmissaoTrecho :: "trecho \<Rightarrow> real \<Rightarrow> real" where
  "calcularEmissaoTrecho t d =
    (let fatorEmissao = obterFatorEmissaoTrecho t in
     case numeroPassageiros t of
       Some n \<Rightarrow> if meioTransporte t = ''carro'' \<and> 0 < n then fatorEmissao * d / n
                 else fatorEmissao * d
     | None \<Rightarrow> fatorEmissao * d)"

text \<open>The \<open>forEach\<close> loop of \<open>processarCalculoMultiploTrechos\<close>: both running totals.\<close>

definition somar_resultados :: "trecho_resultado list \<Rightarrow> real \<times> real" where
  "somar_resultados rs =
     foldl (\<lambda>(e, d) r. (e + emissao r, d + distancia r)) (0, 0) rs"

definition processarCalculoMultiploTrechos :: "viagem \<Rightarrow> trecho_resultado list \<Rightarrow> calculo_resultado" where
  "processarCalculoMultiploTrechos v rs =
    (let (emissaoCO2Total, distanciaTotal) = somar_resultados rs;
         emissaoCO2Total = (if idaEVolta v then emissaoCO2Total * 2 else emissaoCO2Total);
         distanciaTotal = (if idaEVolta v then distanciaTotal * 2 else distanciaTotal);
         creditosCarbono = emissaoCO2Total / 1000;
         equivalenteArvores = \<lceil>emissaoCO2Total / 22\<rceil>;
         equivalenteKmCarro = js_round (emissaoCO2Total / 0.192) in
     \<lparr>emissaoCO2 = round_dec 2 emissaoCO2Total,
      creditosCarbono = round_dec 3 creditosCarbono,
      equivalenteArvores = of_int equivalenteArvores,
      equivalenteKmCarro = of_int equivalenteKmCarro,
      distanciaTotal = of_int (js_round distanciaTotal),
      calculo_resultado.trechos =
        map (\<lambda>r. \<lparr>trecho = trecho r, distancia = of_int (js_round (distancia r)),
                   emissao = round_dec 2 (emissao r)\<rparr>) rs\<rparr>)"

text \<open>One element of \<open>calculosTrechos\<close>: the leg's distance, piped into its result.\<close>

definition calculo_trecho :: "via_cep_api \<Rightarrow> viagem \<Rightarrow> nat \<Rightarrow> trecho \<Rightarrow> trecho_resultado obs" where
  "calculo_trecho api v index t =
     obs_map (\<lambda>d. \<lparr>trecho = t, distancia = d, emissao = calcularEmissaoTrecho t d\<rparr>)
       (calcularDistanciaTrecho api t v index)"

definition calcularEmissao :: "via_cep_api \<Rightarrow> viagem \<Rightarrow> calculo_resultado obs" where
  "calcularEmissao api v =
    (let calculosTrechos = map (\<lambda>(index, t). calculo_trecho api v index t) (enumerate 0 (viagem.trechos v)) in
     if calculosTrechos = [] then obs_of (processarCalculoMultiploTrechos v [])
     else catch_error
            (obs_map (processarCalculoMultiploTrechos v) (fork_join calculosTrechos))
            (\<lambda>_. obs_of (processarCalculoMultiploTrechos v [])))"

text \<open>The raw trip totals before rounding: the sums, doubled once for a round trip.\<close>

definition emissao_bruta :: "viagem \<Rightarrow> trecho_resultado list \<Rightarrow> real" where
  "emissao_bruta v rs = (if idaEVolta v then 2 else 1) * sum_list (map emissao rs)"

definition distancia_bruta :: "viagem \<Rightarrow> trecho_resultado list \<Rightarrow> real" where
  "distancia_bruta v rs = (if idaEVolta v then 2 else 1) * sum_list (map distancia rs)"

text \<open>The shape of a result that the templates and the export rely on: the counts
  (\<open>equivalenteArvores\<close>, \<open>equivalenteKmCarro\<close>) and the distances are whole numbers,
  emissions have at most two decimals and the credits at most three, and nothing is
  negative; every leg result likewise.\<close>

definition inteiro :: "real \<Rightarrow> bool" where
  "inteiro x \<longleftrightarrow> of_int \<lfloor>x\<rfloor> = x"

definition decimais :: "nat \<Rightarrow> real \<Rightarrow> bool" where
  "decimais k x \<longleftrightarrow> inteiro (x * 10 ^ k)"

definition trecho_resultado_ok :: "trecho_resultado \<Rightarrow> bool" where
  "trecho_resultado_ok r \<longleftrightarrow>
     inteiro (distancia r) \<and> decimais 2 (emissao r) \<and> 0 \<le> distancia r \<and> 0 \<le> emissao r"

definition calculo_resultado_ok :: "calculo_resultado \<Rightarrow> bool" where
  "calculo_resultado_ok r \<longleftrightarrow>
     decimais 2 (emissaoCO2 r) \<and> decimais 3 (creditosCarbono r) \<and>
     inteiro (equivalenteArvores r) \<and> inteiro (equivalenteKmCarro r) \<and> inteiro (distanciaTotal r) \<and>
     0 \<le> emissaoCO2 r \<and> 0 \<le> creditosCarbono r \<and> 0 \<le> equivalenteArvores r \<and>
     0 \<le> equivalenteKmCarro r \<and> 0 \<le> distanciaTotal r \<and>
     list_all trecho_resultado_ok (calculo_resultado.trechos r)"

section \<open>Lemmas\<close>

lemma somar_resultados_acc:
  "foldl (\<lambda>(e, d) r. (e + emissao r, d + distancia r)) (e0, d0) rs =
     (e0 + sum_list (map emissao rs), d0 + sum_list (map distancia rs))"
  by (induction rs arbitrary: e0 d0) (simp_all add: algebra_simps)

lemma somar_resultados_eq:
  "somar_resultados rs = (sum_list (map emissao rs), sum_list (map distancia rs))"
  by (simp add: somar_resultados_def somar_resultados_acc)

lemma processarCalculoMultiploTrechos_fields:
  "emissaoCO2 (processarCalculoMultiploTrechos v rs) = round_dec 2 (emissao_bruta v rs)"
  "creditosCarbono (processarCalculoMultiploTrechos v rs) = round_dec 3 (emissao_bruta v rs / 1000)"
  "equivalenteArvores (processarCalculoMultiploTrechos v rs) = of_int \<lceil>emissao_bruta v rs / 22\<rceil>"
  "equivalenteKmCarro (processarCalculoMultiploTrechos v rs) = of_int (js_round (emissao_bruta v rs / 0.192))"
  "distanciaTotal (processarCalculoMultiploTrechos v rs) = of_int (js_round (distancia_bruta v rs))"
  "calculo_resultado.trechos (processarCalculoMultiploTrechos v rs) =
     map (\<lambda>r. \<lparr>trecho = trecho r, distancia = of_int (js_round (distancia r)),
                emissao = round_dec 2 (emissao r)\<rparr>) rs"
  by (simp_all add: processarCalculoMultiploTrechos_def somar_resultados_eq emissao_bruta_def
      distancia_bruta_def Let_def mult.commute)

lemma calculo_trecho_Emits:
  "calcularDistanciaTrecho api t v i = Emits d \<Longrightarrow>
   calculo_trecho api v i t = Emits \<lparr>trecho = t, distancia = d, emissao = calcularEmissaoTrecho t d\<rparr>"
  by (simp add: calculo_trecho_def)

lemma calculosTrechos_Emits:
  assumes "api_settles api"
  shows "\<exists>rs. map (\<lambda>(index, t). calculo_trecho api v index t) (enumerate n ts) = map Emits rs"
proof (rule map_obs_Emits)
  fix x assume "x \<in> set (enumerate n ts)"
  obtain i t where x: "x = (i, t)" by fastforce
  from calcularDistanciaTrecho_Emits [OF assms, of t v i]
  obtain d where "calcularDistanciaTrecho api t v i = Emits d" by blast
  then show "\<exists>y. (\<lambda>(index, t). calculo_trecho api v index t) x = Emits y" by (simp add: x calculo_trecho_Emits)
qed

lemma calcularEmissao_nonempty:
  assumes "viagem.trechos v \<noteq> []"
  shows "calcularEmissao api v =
    catch_error (obs_map (processarCalculoMultiploTrechos v)
        (fork_join (map (\<lambda>(index, t). calculo_trecho api v index t) (enumerate 0 (viagem.trechos v)))))
      (\<lambda>_. obs_of (processarCalculoMultiploTrechos v []))"
proof -
  have "enumerate 0 (viagem.trechos v) \<noteq> []"
    using assms by (metis length_enumerate length_0_conv)
  then show ?thesis by (simp add: calcularEmissao_def Let_def)
qed

lemma calcularEmissao_Emits:
  assumes "api_settles api"
  shows "\<exists>r. calcularEmissao api v = Emits r"
proof (cases "viagem.trechos v = []")
  case True
  then show ?thesis by (simp add: calcularEmissao_def obs_of_def)
next
  case False
  from calculosTrechos_Emits [OF assms, of v 0 "viagem.trechos v"]
  obtain rs where rs: "map (\<lambda>(index, t). calculo_trecho api v index t) (enumerate 0 (viagem.trechos v)) = map Emits rs" ..
  then have "rs \<noteq> []" using False by (metis length_enumerate length_map length_0_conv)
  with False rs show ?thesis by (simp add: calcularEmissao_nonempty fork_join_map_Emits)
qed

lemma inteiro_of_int [simp]: "inteiro (of_int n)"
  by (simp add: inteiro_def)

lemma decimais_round_dec [simp]: "decimais k (round_dec k x)"
  by (simp add: decimais_def round_dec_def)

lemma js_round_nonneg: "0 \<le> x \<Longrightarrow> 0 \<le> js_round x"
  by (simp add: js_round_def)

lemma round_dec_nonneg: "0 \<le> x \<Longrightarrow> 0 \<le> round_dec k x"
  by (simp add: round_dec_def js_round_nonneg)

lemma calcularEmissaoTrecho_nonneg: "0 \<le> d \<Longrightarrow> 0 \<le> calcularEmissaoTrecho t d"
  using obterFatorEmissaoTrecho_pos [of t]
  by (auto simp: calcularEmissaoTrecho_def Let_def split: option.split)

lemma processarCalculoMultiploTrechos_ok:
  assumes "\<forall>r \<in> set rs. 0 \<le> distancia r \<and> 0 \<le> emissao r"
  shows "calculo_resultado_ok (processarCalculoMultiploTrechos v rs)"
proof -
  have "0 \<le> emissao_bruta v rs" "0 \<le> distancia_bruta v rs"
    using assms by (auto simp: emissao_bruta_def distancia_bruta_def intro!: sum_list_nonneg)
  then show ?thesis
    using assms
    by (auto simp: calculo_resultado_ok_def trecho_resultado_ok_def processarCalculoMultiploTrechos_fields
        list_all_iff round_dec_nonneg js_round_nonneg)
qed

lemma calculo_trecho_nonneg:
  assumes "calculo_trecho api v i t = Emits r"
  shows "0 \<le> distancia r \<and> 0 \<le> emissao r"
proof -
  from assms obtain d where "calcularDistanciaTrecho api t v i = Emits d"
    "r = \<lparr>trecho = t, distancia = d, emissao = calcularEmissaoTrecho t d\<rparr>"
    by (auto simp: calculo_trecho_def obs_map_Emits_iff)
  then show ?thesis by (simp add: calcularDistanciaTrecho_nonneg calcularEmissaoTrecho_nonneg)
qed

text \<open>C1: the fan-out/fan-in pipeline is complete and order-preserving: for a gateway that answers every request, \<open>calcularEmissao\<close> always emits a result (never an error, never an empty completion, also for a trip with no legs), and that result aggregates exactly one leg result per input leg, in the input order, each with the distance the resolver gives that leg and the emission computed from it.\<close>

theorem calcularEmissao_complete:
  assumes "api_settles api"
  shows "\<exists>rs. calcularEmissao api v = Emits (processarCalculoMultiploTrechos v rs) \<and>
    length rs = length (viagem.trechos v) \<and>
    (\<forall>i < length rs. trecho (rs ! i) = viagem.trechos v ! i \<and>
       calcularDistanciaTrecho api (viagem.trechos v ! i) v i = Emits (distancia (rs ! i)) \<and>
       emissao (rs ! i) = calcularEmissaoTrecho (viagem.trechos v ! i) (distancia (rs ! i)))"
proof (cases "viagem.trechos v = []")
  case True
  then show ?thesis by (simp add: calcularEmissao_def obs_of_def)
next
  case False
  let ?xs = "enumerate 0 (viagem.trechos v)"
  let ?f = "\<lambda>(index, t). calculo_trecho api v index t"
  have "\<And>x. x \<in> set ?xs \<Longrightarrow> \<exists>y. ?f x = Emits y"
  proof -
    fix x assume "x \<in> set ?xs"
    obtain i t where x: "x = (i, t)" by fastforce
    from calcularDistanciaTrecho_Emits [OF assms, of t v i]
    obtain d where "calcularDistanciaTrecho api t v i = Emits d" by blast
    then show "\<exists>y. ?f x = Emits y" by (simp add: x calculo_trecho_Emits)
  qed
  from map_obs_Emits [OF this] obtain rs where rs: "map ?f ?xs = map Emits rs" ..
  have len: "length rs = length (viagem.trechos v)"
    using rs by (metis length_enumerate length_map)
  with False have "rs \<noteq> []" by auto
  then have res: "calcularEmissao api v = Emits (processarCalculoMultiploTrechos v rs)"
    using False rs by (simp add: calcularEmissao_nonempty fork_join_map_Emits)
  have "\<forall>i < length rs. trecho (rs ! i) = viagem.trechos v ! i \<and>
       calcularDistanciaTrecho api (viagem.trechos v ! i) v i = Emits (distancia (rs ! i)) \<and>
       emissao (rs ! i) = calcularEmissaoTrecho (viagem.trechos v ! i) (distancia (rs ! i))"
  proof (intro allI impI)
    fix i assume i: "i < length rs"
    then have "i < length ?xs" using len by simp
    with rs have "calculo_trecho api v i (viagem.trechos v ! i) = Emits (rs ! i)"
      using map_Emits_nth [OF rs] by (simp add: nth_enumerate_eq)
    then show "trecho (rs ! i) = viagem.trechos v ! i \<and>
       calcularDistanciaTrecho api (viagem.trechos v ! i) v i = Emits (distancia (rs ! i)) \<and>
       emissao (rs ! i) = calcularEmissaoTrecho (viagem.trechos v ! i) (distancia (rs ! i))"
      by (auto simp: calculo_trecho_def obs_map_Emits_iff)
  qed
  with res len show ?thesis by blast
qed

theorem calcularEmissao_complete_witness:
  "api_settles (\<lambda>_. Fails HttpError) \<and>
   (\<exists>rs. calcularEmissao (\<lambda>_. Fails HttpError) (viagem_exemplo [] True) =
      Emits (processarCalculoMultiploTrechos (viagem_exemplo [] True) rs) \<and>
    length rs = length (viagem.trechos (viagem_exemplo [] True)) \<and>
    (\<forall>i < length rs. trecho (rs ! i) = viagem.trechos (viagem_exemplo [] True) ! i \<and>
       calcularDistanciaTrecho (\<lambda>_. Fails HttpError) (viagem.trechos (viagem_exemplo [] True) ! i)
         (viagem_exemplo [] True) i = Emits (distancia (rs ! i)) \<and>
       emissao (rs ! i) = calcularEmissaoTrecho (viagem.trechos (viagem_exemplo [] True) ! i) (distancia (rs ! i))))"
proof -
  have h: "api_settles (\<lambda>_. Fails HttpError)" by (simp add: api_settles_def)
  with calcularEmissao_complete [OF h] show ?thesis by blast
qed

text \<open>C4: additivity: the reported total emission is the two-decimal rounding of the sum of the legs' emissions, doubled once for a round trip, and the reported total distance the rounding of the sum of their distances, doubled likewise.\<close>

theorem processarCalculoMultiploTrechos_additive:
  "emissaoCO2 (processarCalculoMultiploTrechos v rs) =
     round_dec 2 ((if idaEVolta v then 2 else 1) * sum_list (map emissao rs)) \<and>
   distanciaTotal (processarCalculoMultiploTrechos v rs) =
     of_int (js_round ((if idaEVolta v then 2 else 1) * sum_list (map distancia rs)))"
  by (simp add: processarCalculoMultiploTrechos_fields emissao_bruta_def distancia_bruta_def)

text \<open>C5: round-trip law: doubling once after the summation, as the code does, gives on every total the same result as doubling the emission and distance of every leg of a one-way trip.\<close>

theorem processarCalculoMultiploTrechos_round_trip:
  "let ida = processarCalculoMultiploTrechos (v\<lparr>idaEVolta := True\<rparr>) rs;
       dobro = processarCalculoMultiploTrechos (v\<lparr>idaEVolta := False\<rparr>)
                 (map (\<lambda>r. r\<lparr>emissao := 2 * emissao r, distancia := 2 * distancia r\<rparr>) rs) in
   emissaoCO2 ida = emissaoCO2 dobro \<and> creditosCarbono ida = creditosCarbono dobro \<and>
   equivalenteArvores ida = equivalenteArvores dobro \<and> equivalenteKmCarro ida = equivalenteKmCarro dobro \<and>
   distanciaTotal ida = distanciaTotal dobro"
proof -
  have "sum_list (map (\<lambda>r. 2 * emissao r) rs) = 2 * sum_list (map emissao rs)"
       "sum_list (map (\<lambda>r. 2 * distancia r) rs) = 2 * sum_list (map distancia rs)"
    by (simp_all add: sum_list_const_mult)
  then show ?thesis
    by (simp add: processarCalculoMultiploTrechos_fields emissao_bruta_def distancia_bruta_def o_def Let_def)
qed

text \<open>C6: the tree equivalent never understates the offset needed: 22 kg per tree times the reported number of trees covers the whole raw emission of the trip, with less than one tree to spare.\<close>

theorem processarCalculoMultiploTrechos_trees:
  "emissao_bruta v rs \<le> 22 * equivalenteArvores (processarCalculoMultiploTrechos v rs) \<and>
   22 * equivalenteArvores (processarCalculoMultiploTrechos v rs) < emissao_bruta v rs + 22"
proof -
  let ?x = "emissao_bruta v rs / 22"
  have "?x \<le> of_int \<lceil>?x\<rceil>" "of_int \<lceil>?x\<rceil> < ?x + 1" by linarith+
  then have "emissao_bruta v rs \<le> 22 * of_int \<lceil>?x\<rceil> \<and> 22 * of_int \<lceil>?x\<rceil> < emissao_bruta v rs + 22"
    by linarith
  then show ?thesis by (simp only: processarCalculoMultiploTrechos_fields)
qed

text \<open>C7: rounding happens only at the output and is bounded: the reported emission is within 0.005 kg of the raw total and the reported carbon credits within 0.0005 t of the raw total in tonnes.\<close>

theorem processarCalculoMultiploTrechos_rounding:
  "\<bar>emissaoCO2 (processarCalculoMultiploTrechos v rs) - emissao_bruta v rs\<bar> \<le> 0.005 \<and>
   \<bar>creditosCarbono (processarCalculoMultiploTrechos v rs) - emissao_bruta v rs / 1000\<bar> \<le> 0.0005"
  using round_dec_error [of 2 "emissao_bruta v rs"] round_dec_error [of 3 "emissao_bruta v rs / 1000"]
  by (simp add: processarCalculoMultiploTrechos_fields)

text \<open>C21: car-pool division: the emission of a car leg with a positive passenger count is the car's factor times the distance divided by the number of passengers; for other modes the count is ignored.\<close>

theorem calcularEmissaoTrecho_carpool:
  assumes "meioTransporte t = ''carro''" "numeroPassageiros t = Some n" "0 < n"
  shows "calcularEmissaoTrecho t d = obterFatorEmissaoTrecho t * d / n"
  using assms by (simp add: calcularEmissaoTrecho_def)

theorem calcularEmissaoTrecho_carpool_witness:
  "calcularEmissaoTrecho ((trecho_vazio ''carro'')\<lparr>numeroPassageiros := Some 4\<rparr>) 100 = 4.8"
proof -
  have "calcularEmissaoTrecho ((trecho_vazio ''carro'')\<lparr>numeroPassageiros := Some 4\<rparr>) 100 =
        obterFatorEmissaoTrecho ((trecho_vazio ''carro'')\<lparr>numeroPassageiros := Some 4\<rparr>) * 100 / 4"
    by (rule calcularEmissaoTrecho_carpool) simp_all
  then show ?thesis by (simp add: obterFatorEmissaoTrecho_eq fator_or_def fatoresEmissao_def)
qed

text \<open>C23: the round-trip law of the specification (section 8: totals exactly double) holds for the reported values only up to one unit of their last decimal: the code doubles the raw sums and rounds after, so for every trip the round-trip emission differs from twice the one-way emission by at most 0.01 kg, the credits by 0.001 t, the car-km and the distance by 1, and the tree count is twice the one-way count or one less.\<close>

theorem processarCalculoMultiploTrechos_round_trip_rounded:
  "let ida = processarCalculoMultiploTrechos (v\<lparr>idaEVolta := False\<rparr>) rs;
       ida_volta = processarCalculoMultiploTrechos (v\<lparr>idaEVolta := True\<rparr>) rs in
   emissaoCO2 ida_volta - 2 * emissaoCO2 ida \<in> {- 1 / 100, 0, 1 / 100} \<and>
   creditosCarbono ida_volta - 2 * creditosCarbono ida \<in> {- 1 / 1000, 0, 1 / 1000} \<and>
   equivalenteKmCarro ida_volta - 2 * equivalenteKmCarro ida \<in> {-1, 0, 1} \<and>
   distanciaTotal ida_volta - 2 * distanciaTotal ida \<in> {-1, 0, 1} \<and>
   equivalenteArvores ida_volta - 2 * equivalenteArvores ida \<in> {-1, 0}"
proof -
  let ?e = "sum_list (map emissao rs)" and ?d = "sum_list (map distancia rs)"
  have e: "emissao_bruta (v\<lparr>idaEVolta := True\<rparr>) rs = 2 * ?e" "emissao_bruta (v\<lparr>idaEVolta := False\<rparr>) rs = ?e"
    and d: "distancia_bruta (v\<lparr>idaEVolta := True\<rparr>) rs = 2 * ?d" "distancia_bruta (v\<lparr>idaEVolta := False\<rparr>) rs = ?d"
    by (simp_all add: emissao_bruta_def distancia_bruta_def)
  have "round_dec 2 (2 * ?e) - 2 * round_dec 2 ?e \<in> {- 1 / 100, 0, 1 / 100}"
    using round_dec_double [of 2 ?e] by (simp add: power2_eq_square)
  moreover have "round_dec 3 (2 * ?e / 1000) - 2 * round_dec 3 (?e / 1000) \<in> {- 1 / 1000, 0, 1 / 1000}"
    using round_dec_double [of 3 "?e / 1000"] by (simp add: power3_eq_cube)
  moreover have "of_int (js_round (2 * ?e / 0.192)) - 2 * of_int (js_round (?e / 0.192)) \<in> {-1, 0, 1 :: real}"
    using js_round_double [of "?e / 0.192"] by auto
  moreover have "of_int (js_round (2 * ?d)) - 2 * of_int (js_round ?d) \<in> {-1, 0, 1 :: real}"
    using js_round_double [of ?d] by auto
  moreover have "of_int \<lceil>2 * ?e / 22\<rceil> - 2 * of_int \<lceil>?e / 22\<rceil> \<in> {-1, 0 :: real}"
    using ceiling_double [of "?e / 22"] by auto
  ultimately show ?thesis
    by (simp add: processarCalculoMultiploTrechos_fields e d Let_def)
qed

text \<open>The deviation is reached: a one-way trip of 0.005 kg over 0.5 km reports 0.01 kg
  and 1 km, and the round trip again 0.01 kg and 1 km.\<close>

lemma round_trip_rounded_example:
  "let rs = [\<lparr>trecho = trecho_vazio ''carro'', distancia = 0.5, emissao = 0.005\<rparr>];
       ida = processarCalculoMultiploTrechos (viagem_exemplo [] False) rs;
       ida_volta = processarCalculoMultiploTrechos (viagem_exemplo [] True) rs in
   emissaoCO2 ida_volta - 2 * emissaoCO2 ida = - 1 / 100 \<and> distanciaTotal ida_volta - 2 * distanciaTotal ida = -1"
  by (simp add: processarCalculoMultiploTrechos_fields emissao_bruta_def distancia_bruta_def
      round_dec_def js_round_def Let_def)

text \<open>C12: type preservation of the pipeline: whatever the gateway does (answers, fails or stays silent on any request), every result \<open>calcularEmissao\<close> emits is well formed: whole numbers for the tree and car-km equivalents and the total distance, at most two decimals for the emission and three for the credits, nothing negative, and the same for every leg it lists.\<close>

theorem calcularEmissao_bem_formado:
  assumes "calcularEmissao api v = Emits r"
  shows "calculo_resultado_ok r"
proof -
  let ?xs = "map (\<lambda>(index, t). calculo_trecho api v index t) (enumerate 0 (viagem.trechos v))"
  have legs: "0 \<le> distancia y \<and> 0 \<le> emissao y" if "fork_join ?xs = Emits ys" "y \<in> set ys" for ys y
  proof -
    from fork_join_Emits_set [OF that] obtain i t where "calculo_trecho api v i t = Emits y" by auto
    then show ?thesis by (rule calculo_trecho_nonneg)
  qed
  from assms have "r = processarCalculoMultiploTrechos v [] \<or>
      (\<exists>ys. fork_join ?xs = Emits ys \<and> r = processarCalculoMultiploTrechos v ys)"
    by (auto simp: calcularEmissao_def Let_def obs_of_def obs_map_Emits_iff split: if_splits
        dest!: catch_error_Emits)
  then show ?thesis
    using legs by (auto intro: processarCalculoMultiploTrechos_ok)
qed

theorem calcularEmissao_bem_formado_witness:
  "calculo_resultado_ok (processarCalculoMultiploTrechos (viagem_exemplo [] True) [])"
proof -
  have "calcularEmissao (\<lambda>_. Silent) (viagem_exemplo [] True) =
        Emits (processarCalculoMultiploTrechos (viagem_exemplo [] True) [])"
    by (simp add: calcularEmissao_def obs_of_def)
  then show ?thesis by (rule calcularEmissao_bem_formado)
qed

end
