(* ===== verification/Cities.thy ===== *)
theory Cities
  imports Geocoding "HOL-Library.Sublist"
begin

text \<open>
  The city lists of \<open>GeocodingService\<close> (\<open>buscarCidadesPorEstado\<close>,
  \<open>buscarTodasCidades\<close>, from the IBGE web service) and the form's autocomplete filter
  \<open>filtrarCidadesTrecho\<close> (\<open>components/formulario/formulario.component.ts\<close>).
  The IBGE endpoint is a parameter \<open>ibge\<close> from the requested URL to the answer, like
  the ViaCEP gateway of \<open>Geocoding\<close>. \<open>String.prototype.includes\<close> is
  \<open>js_includes\<close>, shown equal to the library's \<^const>\<open>sublist\<close>; \<open>Number.prototype.toString\<close>
  on a municipality id is \<open>nat_str\<close>.
\<close>

section \<open>Definitions\<close>

text \<open>\<open>Cidade\<close>.\<close>

record cidade =
  nome :: string
  estado :: string
  codigo :: "string option"

text \<open>The fields of an IBGE municipality the code reads: \<open>nome\<close>, \<open>id\<close> and
  \<open>microrregiao.mesorregiao.UF.sigla\<close>.\<close>

record ibge_municipio =
  ibge_nome :: string
  ibge_id :: nat
  ibge_uf_sigla :: string

type_synonym ibge_api = "string \<Rightarrow> ibge_municipio list obs"

definition ibgeApiUrl :: string where
  "ibgeApiUrl = ''https://servicodados.ibge.gov.br/api/v1/localidades''"

definition digitos :: string where
  "digitos = ''0123456789''"

fun nat_str :: "nat \<Rightarrow> string" where
  "nat_str n = (if n < 10 then [digitos ! n] else nat_str (n div 10) @ [digitos ! (n mod 10)])"

declare nat_str.simps [simp del]

definition buscarCidadesPorEstado :: "ibge_api \<Rightarrow> string \<Rightarrow> cidade list obs" where
  "buscarCidadesPorEstado ibge e =
    (if e = [] then obs_of []
     else case obterCodigoEstado e of
       None \<Rightarrow> obs_of []
     | Some estadoCodigo \<Rightarrow>
         catch_error
           (obs_map (map (\<lambda>m. \<lparr>nome = ibge_nome m, estado = e, codigo = Some (nat_str (ibge_id m))\<rparr>))
              (ibge (ibgeApiUrl @ ''/estados/'' @ estadoCodigo @ ''/municipios'')))
           (\<lambda>_. obs_of []))"

definition buscarTodasCidades :: "ibge_api \<Rightarrow> cidade list obs" where
  "buscarTodasCidades ibge =
     catch_error
       (obs_map (map (\<lambda>m. \<lparr>nome = ibge_nome m, estado = ibge_uf_sigla m, codigo = Some (nat_str (ibge_id m))\<rparr>))
          (ibge (ibgeApiUrl @ ''/municipios'')))
       (\<lambda>_. obs_of [])"

text \<open>\<open>s.includes(t)\<close>.\<close>

fun js_includes :: "string \<Rightarrow> string \<Rightarrow> bool" where
  "js_includes [] t = (t = [])"
| "js_includes (c # s) t = (take (length t) (c # s) = t \<or> js_includes s t)"

text \<open>\<open>filtrarCidadesTrecho\<close>: the cities loaded for the leg (\<open>cidadesPorTrecho[index] || []\<close>),
  those whose lower-cased name contains the lower-cased query, the first ten.\<close>

definition filtrarCidadesTrecho :: "(nat \<rightharpoonup> cidade list) \<Rightarrow> nat \<Rightarrow> string \<Rightarrow> cidade list" where
  "filtrarCidadesTrecho cidadesPorTrecho index valor =
    (let cidades = (case cidadesPorTrecho index of Some cs \<Rightarrow> cs | None \<Rightarrow> []);
         valorLower = to_lower valor
     in take 10 (filter (\<lambda>c. js_includes (to_lower (nome c)) valorLower) cidades))"

definition ibge_settles :: "ibge_api \<Rightarrow> bool" where
  "ibge_settles ibge \<longleftrightarrow> (\<forall>u. ibge u \<noteq> Silent)"

section \<open>Lemmas\<close>

lemma take_length_eq_prefix: "take (length t) s = t \<longleftrightarrow> prefix t s"
  by (metis append_take_drop_id prefix_def append_eq_conv_conj)

lemma js_includes_sublist: "js_includes s t \<longleftrightarrow> sublist t s"
proof (induction s)
  case Nil
  then show ?case by simp
next
  case (Cons c s)
  then show ?case by (simp add: take_length_eq_prefix sublist_Cons_right del: js_includes.simps(1))
qed

lemma nat_str_digits: "set (nat_str n) \<subseteq> set digitos"
proof (induction n rule: nat_str.induct)
  case (1 n)
  have "n mod 10 < length digitos" "n < 10 \<Longrightarrow> n < length digitos" by (simp_all add: digitos_def)
  then show ?case
    using 1 by (subst nat_str.simps) (auto intro: nth_mem)
qed


lemma nat_str_not_Nil [simp]: "nat_str n \<noteq> []"
  by (subst nat_str.simps) simp

text \<open>Cities of Espirito Santo, loaded for leg 0, for the witnesses.\<close>

abbreviation cidades_es :: "nat \<rightharpoonup> cidade list" where
  "cidades_es \<equiv> [0 \<mapsto> [\<lparr>nome = vitoria, estado = ''ES'', codigo = Some ''3205309''\<rparr>,
                        \<lparr>nome = ''Vila Velha'', estado = ''ES'', codigo = Some ''3205200''\<rparr>,
                        \<lparr>nome = ''Serra'', estado = ''ES'', codigo = Some ''3205002''\<rparr>]]"

text \<open>C32: the autocomplete filter shows at most ten cities, in the order they were loaded, each of whose lower-cased name contains the lower-cased query; a matching city is left out only when ten are already shown.\<close>

theorem filtrarCidadesTrecho_spec:
  "length (filtrarCidadesTrecho m i valor) \<le> 10 \<and>
   subseq (filtrarCidadesTrecho m i valor) (case m i of Some cs \<Rightarrow> cs | None \<Rightarrow> []) \<and>
   (\<forall>c \<in> set (filtrarCidadesTrecho m i valor). sublist (to_lower valor) (to_lower (nome c))) \<and>
   (\<forall>c \<in> set (case m i of Some cs \<Rightarrow> cs | None \<Rightarrow> []).
      sublist (to_lower valor) (to_lower (nome c)) \<and> c \<notin> set (filtrarCidadesTrecho m i valor) \<longrightarrow>
      length (filtrarCidadesTrecho m i valor) = 10)"
proof -
  let ?cs = "case m i of Some cs \<Rightarrow> cs | None \<Rightarrow> []"
  let ?P = "\<lambda>c. js_includes (to_lower (nome c)) (to_lower valor)"
  have r: "filtrarCidadesTrecho m i valor = take 10 (filter ?P ?cs)"
    by (simp add: filtrarCidadesTrecho_def)
  have sub: "subseq (take 10 (filter ?P ?cs)) ?cs"
    by (meson subseq_order.dual_order.trans subseq_filter_left take_is_prefix prefix_imp_subseq)
  have full: "length (take 10 (filter ?P ?cs)) = 10"
    if "c \<in> set ?cs" "?P c" "c \<notin> set (take 10 (filter ?P ?cs))" for c
  proof (rule ccontr)
    assume "length (take 10 (filter ?P ?cs)) \<noteq> 10"
    then have "take 10 (filter ?P ?cs) = filter ?P ?cs" by simp
    with that show False by simp
  qed
  show ?thesis
    unfolding r using sub full by (auto simp: js_includes_sublist dest: in_set_takeD)
qed

theorem filtrarCidadesTrecho_spec_witness:
  "length (filtrarCidadesTrecho cidades_es 0 ''V'') \<le> 10 \<and>
   filtrarCidadesTrecho cidades_es 0 ''V'' =
     [\<lparr>nome = vitoria, estado = ''ES'', codigo = Some ''3205309''\<rparr>,
      \<lparr>nome = ''Vila Velha'', estado = ''ES'', codigo = Some ''3205200''\<rparr>]"
proof -
  have "length (filtrarCidadesTrecho cidades_es 0 ''V'') \<le> 10"
    using filtrarCidadesTrecho_spec [of cidades_es 0 "''V''"] by blast
  moreover have "filtrarCidadesTrecho cidades_es 0 ''V'' =
     [\<lparr>nome = vitoria, estado = ''ES'', codigo = Some ''3205309''\<rparr>,
      \<lparr>nome = ''Vila Velha'', estado = ''ES'', codigo = Some ''3205200''\<rparr>]"
    by code_simp
  ultimately show ?thesis by blast
qed

text \<open>C33: for an IBGE service that answers, the city list of a state is always emitted: it is empty for an empty state, for an unknown state code and for a failed request; otherwise it holds the service's municipalities, by name and in the order they came; every city in it carries the requested state, and its code is the decimal string of the municipality's id.\<close>

theorem buscarCidadesPorEstado_settles:
  assumes "ibge_settles ibge"
  shows "\<exists>cs. buscarCidadesPorEstado ibge e = Emits cs \<and>
    (e = [] \<or> obterCodigoEstado e = None \<longrightarrow> cs = []) \<and>
    (\<forall>cod err. obterCodigoEstado e = Some cod \<longrightarrow>
       ibge (ibgeApiUrl @ ''/estados/'' @ cod @ ''/municipios'') = Fails err \<longrightarrow> cs = []) \<and>
    (\<forall>cod ms. e \<noteq> [] \<longrightarrow> obterCodigoEstado e = Some cod \<longrightarrow>
       ibge (ibgeApiUrl @ ''/estados/'' @ cod @ ''/municipios'') = Emits ms \<longrightarrow> map nome cs = map ibge_nome ms) \<and>
    (\<forall>c \<in> set cs. estado c = e \<and> (\<exists>k. codigo c = Some k \<and> k \<noteq> [] \<and> set k \<subseteq> set digitos))"
proof (cases "e = [] \<or> obterCodigoEstado e = None")
  case True
  then show ?thesis by (auto simp: buscarCidadesPorEstado_def obs_of_def)
next
  case False
  then obtain cod where cod: "e \<noteq> []" "obterCodigoEstado e = Some cod" by auto
  have settles: "catch_error (obs_map f (ibge u)) (\<lambda>_. obs_of d) =
      (case ibge u of Emits v \<Rightarrow> Emits (f v) | _ \<Rightarrow> Emits d)" for f d u
    using assms by (intro catch_error_map_settles) (simp add: ibge_settles_def)
  show ?thesis
    using cod nat_str_digits by (auto simp: buscarCidadesPorEstado_def settles o_def split: obs.split)
qed

theorem buscarCidadesPorEstado_settles_witness:
  "ibge_settles (\<lambda>_. Emits [\<lparr>ibge_nome = ''Serra'', ibge_id = 3205002, ibge_uf_sigla = ''ES''\<rparr>]) \<and>
   (\<exists>cs. buscarCidadesPorEstado (\<lambda>_. Emits [\<lparr>ibge_nome = ''Serra'', ibge_id = 3205002, ibge_uf_sigla = ''ES''\<rparr>]) ''ES''
      = Emits cs) \<and>
   buscarCidadesPorEstado (\<lambda>_. Emits [\<lparr>ibge_nome = ''Serra'', ibge_id = 3205002, ibge_uf_sigla = ''ES''\<rparr>]) ''ES''
      = Emits [\<lparr>nome = ''Serra'', estado = ''ES'', codigo = Some ''3205002''\<rparr>] \<and>
   buscarCidadesPorEstado (\<lambda>_. Fails HttpError) ''ES'' = Emits []"
proof -
  have h: "ibge_settles (\<lambda>_. Emits [\<lparr>ibge_nome = ''Serra'', ibge_id = 3205002, ibge_uf_sigla = ''ES''\<rparr>])"
    by (simp add: ibge_settles_def)
  moreover have "\<exists>cs. buscarCidadesPorEstado (\<lambda>_. Emits [\<lparr>ibge_nome = ''Serra'', ibge_id = 3205002, ibge_uf_sigla = ''ES''\<rparr>]) ''ES''
      = Emits cs"
    using buscarCidadesPorEstado_settles [OF h, of "''ES''"] by (elim exE conjE) (rule exI, assumption)
  moreover have "buscarCidadesPorEstado (\<lambda>_. Emits [\<lparr>ibge_nome = ''Serra'', ibge_id = 3205002, ibge_uf_sigla = ''ES''\<rparr>]) ''ES''
      = Emits [\<lparr>nome = ''Serra'', estado = ''ES'', codigo = Some ''3205002''\<rparr>]"
    by (simp add: buscarCidadesPorEstado_def obterCodigoEstado_def estados_codigos_def nat_str.simps digitos_def)
  moreover have "buscarCidadesPorEstado (\<lambda>_. Fails HttpError) ''ES'' = Emits []"
  proof -
    have hf: "ibge_settles (\<lambda>_. Fails HttpError)" by (simp add: ibge_settles_def)
    have c: "obterCodigoEstado ''ES'' = Some ''32''" by (simp add: obterCodigoEstado_def estados_codigos_def)
    from buscarCidadesPorEstado_settles [OF hf, of "''ES''"] obtain cs where
      "buscarCidadesPorEstado (\<lambda>_. Fails HttpError) ''ES'' = Emits cs"
      "\<forall>cod err. obterCodigoEstado ''ES'' = Some cod \<longrightarrow>
         (\<lambda>_. Fails HttpError) (ibgeApiUrl @ ''/estados/'' @ cod @ ''/municipios'') = (Fails err :: ibge_municipio list obs) \<longrightarrow> cs = []"
      by (elim exE conjE) blast
    with c show ?thesis by simp
  qed
  ultimately show ?thesis by blast
qed

end
