(* ===== verification/Form.thy ===== *)
theory Form
  imports Emission_Calculator Persistence Cities
begin

text \<open>
  \<open>FormularioComponent\<close> (\<open>components/formulario/formulario.component.ts\<close>): the
  traveller's form, the list of legs the traveller edits, the validation of
  \<open>calcular\<close> before it calls \<open>CarbonCalculatorService.calcularEmissao\<close>, and
  \<open>enviar\<close>, which stores the trip. The component's fields are the record
  \<open>formulario_state\<close>; the reactive form's value is \<open>form_valores\<close>. Each handler is a
  function on the state (and on the store, for the handlers that call the service's
  persistence); the handlers the template can call, in any order, are the step
  relation \<open>form_step\<close>. The HTTP gateways are the parameters \<open>api\<close> (ViaCEP) and
  \<open>ibge\<close>; Angular's \<open>Validators.email\<close> is the parameter \<open>email_ok\<close>.
  A value written into a leg by the template is a \<open>valor_campo\<close>: a text, a number, or
  \<open>Nulo\<close> for \<open>null\<close> and \<open>undefined\<close> (the handler turns \<open>''\<close> and \<open>null\<close>
  into \<open>undefined\<close>, an absent field).
\<close>

section \<open>Definitions\<close>

text \<open>The value of the reactive form \<open>formulario\<close> (lines 155-173); \<open>diasNoEvento\<close> is a
  number input, \<open>None\<close> while empty.\<close>

record form_valores =
  nome :: string
  email :: string
  cpf :: string
  telefone :: string
  destinoCidade :: string
  destinoEstado :: string
  destinoPais :: string
  diasNoEvento :: "real option"
  idaEVolta :: bool
  observacoes :: string

record formulario_state =
  formulario :: form_valores
  resultado :: "calculo_resultado option"
  calculado :: bool
  enviado :: bool
  carregando :: bool
  evento :: "evento_config option"
  cidadesPorTrecho :: "nat \<rightharpoonup> cidade list"
  mostrarAutocompletePorTrecho :: "nat \<rightharpoonup> bool"
  trechos :: "trecho list"
  enderecosCEP :: "nat \<rightharpoonup> endereco_cep"

datatype campo_trecho = CampoMeioTransporte | CampoDistanciaKm | CampoOrigemCidade
  | CampoOrigemEstado | CampoDestinoCidade | CampoDestinoEstado | CampoCepOrigem
  | CampoTipoCombustivel | CampoNumeroPassageiros | CampoClasseVoo | CampoConsumoMedio

datatype valor_campo = Texto string | Numero real | Nulo

definition form_inicial :: form_valores where
  "form_inicial = \<lparr>nome = [], email = [], cpf = [], telefone = [], destinoCidade = [],
     destinoEstado = [], destinoPais = ''Brasil'', diasNoEvento = None, idaEVolta = False,
     observacoes = []\<rparr>"

definition criarTrechoVazio :: trecho where
  "criarTrechoVazio = \<lparr>meioTransporte = [], distanciaKm = Some 0, origemCidade = None,
     origemEstado = None, trecho.destinoCidade = None, trecho.destinoEstado = None,
     cepOrigem = None, tipoCombustivel = Some [], numeroPassageiros = Some 1,
     classeVoo = Some [], consumoMedio = None\<rparr>"

definition inicializarFormulario :: "formulario_state \<Rightarrow> formulario_state" where
  "inicializarFormulario s = s\<lparr>formulario := form_inicial, trechos := [criarTrechoVazio]\<rparr>"

text \<open>The component as constructed: every field at its initialiser, then \<open>ngOnInit\<close>'s
  \<open>inicializarFormulario\<close>.\<close>

definition formulario_novo :: formulario_state where
  "formulario_novo = inicializarFormulario \<lparr>formulario = form_inicial, resultado = None,
     calculado = False, enviado = False, carregando = False, evento = None,
     cidadesPorTrecho = Map.empty, mostrarAutocompletePorTrecho = Map.empty, trechos = [],
     enderecosCEP = Map.empty\<rparr>"

text \<open>\<open>carregarEvento\<close>: the event from the store, and the \<open>setTimeout\<close> callback that
  copies its place into the hidden destination fields, run at once.\<close>

definition carregarEvento :: "local_storage \<Rightarrow> formulario_state \<Rightarrow> formulario_state" where
  "carregarEvento ls s =
    (case obterEvento ls of
       None \<Rightarrow> s\<lparr>evento := None\<rparr>
     | Some ev \<Rightarrow> s\<lparr>evento := Some ev,
          formulario := (formulario s)\<lparr>destinoCidade := cidade ev,
             destinoEstado := evento_config.estado ev, destinoPais := pais ev\<rparr>\<rparr>)"

definition adicionarTrecho :: "formulario_state \<Rightarrow> formulario_state" where
  "adicionarTrecho s = s\<lparr>trechos := trechos s @ [criarTrechoVazio]\<rparr>"

definition removerTrecho :: "int \<Rightarrow> formulario_state \<Rightarrow> formulario_state" where
  "removerTrecho index s =
    (if 1 < length (trechos s) then s\<lparr>trechos := js_splice1 index (trechos s)\<rparr> else s)"

definition texto_de :: "valor_campo \<Rightarrow> string option" where
  "texto_de v = (case v of Texto x \<Rightarrow> Some x | _ \<Rightarrow> None)"

definition numero_de :: "valor_campo \<Rightarrow> real option" where
  "numero_de v = (case v of Numero x \<Rightarrow> Some x | _ \<Rightarrow> None)"

text \<open>\<open>{...t, [campo]: valor}\<close>. \<open>meioTransporte\<close> is a plain string: an absent mode is the
  empty string, falsy like \<open>undefined\<close>. The template writes texts into text fields and
  numbers into number fields; a value of the other kind is stored as absent.\<close>

fun set_campo :: "campo_trecho \<Rightarrow> valor_campo \<Rightarrow> trecho \<Rightarrow> trecho" where
  "set_campo CampoMeioTransporte v t = t\<lparr>meioTransporte := (case texto_de v of Some x \<Rightarrow> x | None \<Rightarrow> [])\<rparr>"
| "set_campo CampoDistanciaKm v t = t\<lparr>distanciaKm := numero_de v\<rparr>"
| "set_campo CampoOrigemCidade v t = t\<lparr>origemCidade := texto_de v\<rparr>"
| "set_campo CampoOrigemEstado v t = t\<lparr>origemEstado := texto_de v\<rparr>"
| "set_campo CampoDestinoCidade v t = t\<lparr>trecho.destinoCidade := texto_de v\<rparr>"
| "set_campo CampoDestinoEstado v t = t\<lparr>trecho.destinoEstado := texto_de v\<rparr>"
| "set_campo CampoCepOrigem v t = t\<lparr>cepOrigem := texto_de v\<rparr>"
| "set_campo CampoTipoCombustivel v t = t\<lparr>tipoCombustivel := texto_de v\<rparr>"
| "set_campo CampoNumeroPassageiros v t = t\<lparr>numeroPassageiros := numero_de v\<rparr>"
| "set_campo CampoClasseVoo v t = t\<lparr>classeVoo := texto_de v\<rparr>"
| "set_campo CampoConsumoMedio v t = t\<lparr>consumoMedio := numero_de v\<rparr>"

text \<open>The clearing done when the mode changes (lines 367-391).\<close>

definition limpar_por_meio :: "valor_campo \<Rightarrow> trecho \<Rightarrow> trecho" where
  "limpar_por_meio valor t =
    (let t1 = t\<lparr>origemCidade := None, origemEstado := None, trecho.destinoCidade := None,
                trecho.destinoEstado := None, cepOrigem := None\<rparr> in
     if valor = Texto ''carro'' \<or> valor = Texto ''motocicleta'' \<or> valor = Texto ''onibus'' then
       t1\<lparr>classeVoo := None\<rparr>
     else if valor = Texto ''aviao'' \<or> valor = Texto ''trem'' then
       t1\<lparr>tipoCombustivel := None, numeroPassageiros := None, consumoMedio := None, cepOrigem := None\<rparr>
     else t1\<lparr>tipoCombustivel := None, numeroPassageiros := None, consumoMedio := None, classeVoo := None\<rparr>)"

text \<open>\<open>atualizarTrecho\<close>. Past the end of the list \<open>this.trechos[index]\<close> is
  \<open>undefined\<close>, its spread is the empty object, and the array rebuilt from the two
  slices gets the new leg appended.\<close>

definition atualizarTrecho :: "nat \<Rightarrow> campo_trecho \<Rightarrow> valor_campo \<Rightarrow> formulario_state \<Rightarrow> formulario_state" where
  "atualizarTrecho index campo valor s =
    (let valor = (if valor = Texto [] \<or> valor = Nulo then Nulo else valor);
         base = (if index < length (trechos s) then trechos s ! index else trecho_vazio []);
         trechoAtualizado = set_campo campo valor base;
         trechoAtualizado = (if campo = CampoMeioTransporte then limpar_por_meio valor trechoAtualizado
                             else trechoAtualizado)
     in s\<lparr>trechos := take index (trechos s) @ [trechoAtualizado] @ drop (Suc index) (trechos s)\<rparr>)"

text \<open>\<open>aplicarMascaraCEP\<close>: on the digits, \<open>/(\d{5})(\d)/\<close> matches at the start exactly
  when there are at least six, and inserts a hyphen after the fifth.\<close>

definition aplicarMascaraCEP :: "string \<Rightarrow> string" where
  "aplicarMascaraCEP c =
    (let cepLimpo = only_digits c in
     if 6 \<le> length cepLimpo then take 5 cepLimpo @ ''-'' @ drop 5 cepLimpo else cepLimpo)"

definition buscarEnderecoPorCEPTrecho :: "via_cep_api \<Rightarrow> nat \<Rightarrow> string \<Rightarrow> formulario_state \<Rightarrow> formulario_state" where
  "buscarEnderecoPorCEPTrecho api index c s =
    (let cepLimpo = only_digits c in
     if length cepLimpo = 8 then
       (case buscarCEP api cepLimpo of
          Emits (Some endereco) \<Rightarrow> s\<lparr>enderecosCEP := (enderecosCEP s)(index \<mapsto> endereco)\<rparr>
        | _ \<Rightarrow> s)
     else s)"

definition atualizarCepTrecho :: "via_cep_api \<Rightarrow> nat \<Rightarrow> string \<Rightarrow> formulario_state \<Rightarrow> formulario_state" where
  "atualizarCepTrecho api index c s =
    (let cepFormatado = aplicarMascaraCEP c in
     buscarEnderecoPorCEPTrecho api index cepFormatado
       (atualizarTrecho index CampoCepOrigem (Texto cepFormatado) s))"


text \<open>\<open>selecionarCidadeTrecho\<close>: the selected city and its state become the leg's origin.
  The template calls it only for a displayed leg, so \<open>index\<close> is in range; for an index
  past the end JavaScript would extend the array with holes, which a list of
  \<^typ>\<open>trecho\<close> cannot hold, and the model leaves the legs unchanged there.\<close>

definition selecionarCidadeTrecho :: "nat \<Rightarrow> cidade \<Rightarrow> formulario_state \<Rightarrow> formulario_state" where
  "selecionarCidadeTrecho index c s =
    (let s1 = (if index < length (trechos s) then
                 s\<lparr>trechos := (trechos s)[index := (trechos s ! index)\<lparr>origemCidade := Some (cidade.nome c),
                                                      origemEstado := Some (cidade.estado c)\<rparr>]\<rparr>
               else s)
     in s1\<lparr>mostrarAutocompletePorTrecho := (mostrarAutocompletePorTrecho s1)(index \<mapsto> False)\<rparr>)"

definition configurarAutocompleteTrecho :: "ibge_api \<Rightarrow> nat \<Rightarrow> string \<Rightarrow> formulario_state \<Rightarrow> formulario_state" where
  "configurarAutocompleteTrecho ibge index e s =
    (if e = [] then s
     else case buscarCidadesPorEstado ibge e of
       Emits cidades \<Rightarrow> s\<lparr>cidadesPorTrecho := (cidadesPorTrecho s)(index \<mapsto> cidades)\<rparr>
     | _ \<Rightarrow> s)"

text \<open>\<open>esconderAutocompleteTrecho\<close>: its \<open>setTimeout\<close> callback.\<close>

definition esconderAutocompleteTrecho :: "nat \<Rightarrow> formulario_state \<Rightarrow> formulario_state" where
  "esconderAutocompleteTrecho index s =
     s\<lparr>mostrarAutocompletePorTrecho := (mostrarAutocompletePorTrecho s)(index \<mapsto> False)\<rparr>"

definition toggleIdaEVolta :: "formulario_state \<Rightarrow> formulario_state" where
  "toggleIdaEVolta s = s\<lparr>formulario := (formulario s)\<lparr>idaEVolta := \<not> idaEVolta (formulario s)\<rparr>\<rparr>"

text \<open>The validators of the form's controls (lines 157-172). \<open>minLength\<close> counts the
  string's code units, here its bytes.\<close>

definition campo_valido :: "(string \<Rightarrow> bool) \<Rightarrow> form_valores \<Rightarrow> string \<Rightarrow> bool" where
  "campo_valido email_ok f campo =
    (if campo = ''nome'' then nome f \<noteq> [] \<and> 3 \<le> length (nome f)
     else if campo = ''email'' then email f \<noteq> [] \<and> email_ok (email f)
     else if campo = ''cpf'' then cpf f \<noteq> []
     else if campo = ''telefone'' then telefone f \<noteq> []
     else if campo = ''diasNoEvento'' then (case diasNoEvento f of Some d \<Rightarrow> 1 \<le> d | None \<Rightarrow> False)
     else True)"

definition camposObrigatorios :: "string list" where
  "camposObrigatorios = [''nome'', ''email'', ''cpf'', ''telefone'', ''diasNoEvento'']"

definition campos_invalidos :: "(string \<Rightarrow> bool) \<Rightarrow> form_valores \<Rightarrow> string list" where
  "campos_invalidos email_ok f = filter (\<lambda>c. \<not> campo_valido email_ok f c) camposObrigatorios"

text \<open>\<open>formulario.valid\<close>: every control valid; the controls not listed have no validators.\<close>

definition formulario_valido :: "(string \<Rightarrow> bool) \<Rightarrow> form_valores \<Rightarrow> bool" where
  "formulario_valido email_ok f =
     list_all (campo_valido email_ok f) [''nome'', ''email'', ''cpf'', ''telefone'', ''destinoCidade'',
       ''destinoEstado'', ''destinoPais'', ''diasNoEvento'', ''idaEVolta'', ''observacoes'']"

text \<open>\<open>ViagemData\<close> built from the form's value: \<open>diasNoEvento\<close> has no field there, and
  \<open>dataViagem\<close> is not in the form (absent, here empty).\<close>

definition viagem_de_form :: "form_valores \<Rightarrow> trecho list \<Rightarrow> viagem" where
  "viagem_de_form f ts = \<lparr>viagem.nome = nome f, viagem.email = email f, viagem.cpf = cpf f,
     viagem.telefone = telefone f, viagem.destinoCidade = destinoCidade f,
     viagem.destinoEstado = destinoEstado f, viagem.destinoPais = destinoPais f,
     viagem.trechos = ts, dataViagem = [], dataRetorno = None,
     viagem.idaEVolta = idaEVolta f, viagem.observacoes = Some (observacoes f)\<rparr>"

datatype erro_calculo = SemEvento | SemTrechos | CamposInvalidos
  | TrechoSemOrigem nat | TrechoSemCep nat | ErroServico

text \<open>The loop of \<open>calcular\<close> over \<open>trechosValidos\<close> (lines 256-276), run over
  \<open>this.trechos\<close>, whose objects \<open>trechosValidos\<close> shares: legs without a mode are
  skipped; \<open>i\<close> numbers the legs with a mode; the destination a plane or train leg
  receives is written into the component's own leg, and stays written when a later leg
  stops the loop.\<close>

fun validar_trechos :: "evento_config \<Rightarrow> nat \<Rightarrow> trecho list \<Rightarrow> trecho list \<times> erro_calculo option" where
  "validar_trechos ev i [] = ([], None)"
| "validar_trechos ev i (t # ts) =
    (let transporte = meioTransporte t in
     if transporte = [] then apfst (Cons t) (validar_trechos ev i ts)
     else if transporte = ''aviao'' \<or> transporte = ''trem'' then
       (if \<not> truthy (origemCidade t) \<or> \<not> truthy (origemEstado t) then (t # ts, Some (TrechoSemOrigem (Suc i)))
        else let t' = (if \<not> truthy (trecho.destinoCidade t)
                       then t\<lparr>trecho.destinoCidade := Some (cidade ev),
                              trecho.destinoEstado := Some (evento_config.estado ev)\<rparr>
                       else t)
             in apfst (Cons t') (validar_trechos ev (Suc i) ts))
     else if transporte = ''carro'' \<or> transporte = ''motocicleta'' \<or> transporte = ''onibus'' then
       (if \<not> truthy (cepOrigem t) then (t # ts, Some (TrechoSemCep (Suc i)))
        else apfst (Cons t) (validar_trechos ev (Suc i) ts))
     else apfst (Cons t) (validar_trechos ev (Suc i) ts))"

definition com_meio :: "trecho list \<Rightarrow> trecho list" where
  "com_meio ts = filter (\<lambda>t. meioTransporte t \<noteq> []) ts"

text \<open>\<open>calcular\<close> up to the call of the service: the state it leaves and either the
  error it alerts or the trip \<open>dadosViagem\<close> it sends. \<open>marcarCamposInvalidos\<close> only
  marks controls as touched, which the model does not record.\<close>

definition calcular_validar :: "(string \<Rightarrow> bool) \<Rightarrow> formulario_state \<Rightarrow> formulario_state \<times> (erro_calculo + viagem)" where
  "calcular_validar email_ok s =
    (case evento s of
       None \<Rightarrow> (s, Inl SemEvento)
     | Some ev \<Rightarrow>
       (if com_meio (trechos s) = [] then (s, Inl SemTrechos)
        else if campos_invalidos email_ok (formulario s) \<noteq> [] then (s, Inl CamposInvalidos)
        else
          (let (ts, erro) = validar_trechos ev 0 (trechos s);
               s1 = s\<lparr>trechos := ts\<rparr>
           in case erro of
                Some e \<Rightarrow> (s1, Inl e)
              | None \<Rightarrow>
                  (let f = formulario s1;
                       f = (if destinoCidade f = [] then f\<lparr>destinoCidade := cidade ev,
                              destinoEstado := evento_config.estado ev, destinoPais := pais ev\<rparr> else f);
                       s2 = s1\<lparr>formulario := f, carregando := True, calculado := False\<rparr>
                   in (s2, Inr (viagem_de_form f (com_meio ts)))))))"

text \<open>\<open>calcular\<close>: the validation, then the subscription's \<open>next\<close> and \<open>error\<close>
  handlers; a service call that never answers leaves \<open>carregando\<close> set.\<close>

definition calcular :: "via_cep_api \<Rightarrow> (string \<Rightarrow> bool) \<Rightarrow> formulario_state \<Rightarrow> formulario_state \<times> erro_calculo option" where
  "calcular api email_ok s =
    (case calcular_validar email_ok s of
       (s1, Inl e) \<Rightarrow> (s1, Some e)
     | (s1, Inr dadosViagem) \<Rightarrow>
         (case calcularEmissao api dadosViagem of
            Emits r \<Rightarrow> (s1\<lparr>resultado := Some r, calculado := True, carregando := False\<rparr>, None)
          | Fails _ \<Rightarrow> (s1\<lparr>carregando := False\<rparr>, Some ErroServico)
          | Silent \<Rightarrow> (s1, None)))"

text \<open>\<open>enviar\<close>: stores \<open>formulario.value\<close>, which has no legs, with the last result.
  \<open>agora\<close> is the timestamp \<open>salvarViagem\<close> takes.\<close>

definition enviar :: "(string \<Rightarrow> bool) \<Rightarrow> string \<Rightarrow> formulario_state \<times> local_storage \<Rightarrow> formulario_state \<times> local_storage" where
  "enviar email_ok agora sl =
    (let (s, ls) = sl in
     case resultado s of
       Some r \<Rightarrow> if formulario_valido email_ok (formulario s)
                 then (s\<lparr>enviado := True\<rparr>, salvarViagem (viagem_de_form (formulario s) []) r agora ls)
                 else (s, ls)
     | None \<Rightarrow> (s, ls))"

text \<open>\<open>resetarFormulario\<close>, which \<open>enviar\<close> schedules three seconds later.\<close>

definition resetarFormulario :: "formulario_state \<Rightarrow> formulario_state" where
  "resetarFormulario s = inicializarFormulario (s\<lparr>resultado := None, calculado := False,
     enviado := False, trechos := [criarTrechoVazio], enderecosCEP := Map.empty,
     cidadesPorTrecho := Map.empty, mostrarAutocompletePorTrecho := Map.empty\<rparr>)"


text \<open>The handlers the template can call, in any order, on the component and the store.
  \<open>passo_editar\<close> is the user typing into the form's controls; \<open>passo_loja\<close> is
  another page (the admin page) changing the store in between.\<close>

inductive form_step :: "via_cep_api \<Rightarrow> ibge_api \<Rightarrow> (string \<Rightarrow> bool) \<Rightarrow>
    formulario_state \<times> local_storage \<Rightarrow> formulario_state \<times> local_storage \<Rightarrow> bool"
  for api ibge email_ok where
  passo_adicionar: "form_step api ibge email_ok (s, ls) (adicionarTrecho s, ls)"
| passo_remover: "form_step api ibge email_ok (s, ls) (removerTrecho i s, ls)"
| passo_atualizar: "form_step api ibge email_ok (s, ls) (atualizarTrecho i c v s, ls)"
| passo_cep: "form_step api ibge email_ok (s, ls) (atualizarCepTrecho api i c s, ls)"
| passo_selecionar: "form_step api ibge email_ok (s, ls) (selecionarCidadeTrecho i cid s, ls)"
| passo_autocomplete: "form_step api ibge email_ok (s, ls) (configurarAutocompleteTrecho ibge i e s, ls)"
| passo_esconder: "form_step api ibge email_ok (s, ls) (esconderAutocompleteTrecho i s, ls)"
| passo_toggle: "form_step api ibge email_ok (s, ls) (toggleIdaEVolta s, ls)"
| passo_editar: "form_step api ibge email_ok (s, ls) (s\<lparr>formulario := f\<rparr>, ls)"
| passo_carregar: "form_step api ibge email_ok (s, ls) (carregarEvento ls s, ls)"
| passo_calcular: "form_step api ibge email_ok (s, ls) (fst (calcular api email_ok s), ls)"
| passo_enviar: "form_step api ibge email_ok (s, ls) (enviar email_ok agora (s, ls))"
| passo_resetar: "form_step api ibge email_ok (s, ls) (resetarFormulario s, ls)"
| passo_loja: "form_step api ibge email_ok (s, ls) (s, ls')"

inductive form_reach :: "via_cep_api \<Rightarrow> ibge_api \<Rightarrow> (string \<Rightarrow> bool) \<Rightarrow> local_storage \<Rightarrow>
    formulario_state \<times> local_storage \<Rightarrow> bool"
  for api ibge email_ok ls0 where
  form_reach_init: "form_reach api ibge email_ok ls0 (carregarEvento ls0 formulario_novo, ls0)"
| form_reach_step: "form_reach api ibge email_ok ls0 sl \<Longrightarrow> form_step api ibge email_ok sl sl' \<Longrightarrow>
    form_reach api ibge email_ok ls0 sl'"

inductive_cases form_stepE: "form_step api ibge email_ok sl sl'"

text \<open>What \<open>calcular\<close>'s checks promise of a leg it sends: it has a mode; a plane or
  train leg has an origin city and state and a destination city; a road leg has a postal
  code.\<close>

definition trecho_pronto :: "trecho \<Rightarrow> bool" where
  "trecho_pronto t \<longleftrightarrow> meioTransporte t \<noteq> [] \<and>
     (meioTransporte t = ''aviao'' \<or> meioTransporte t = ''trem'' \<longrightarrow>
        truthy (origemCidade t) \<and> truthy (origemEstado t) \<and> truthy (trecho.destinoCidade t)) \<and>
     (meioTransporte t \<in> set modos_rodoviarios \<longrightarrow> truthy (cepOrigem t))"

text \<open>A configured event, a filled-in form and the component holding them, for the witnesses.\<close>

abbreviation evento_exemplo :: evento_config where
  "evento_exemplo \<equiv> \<lparr>cidade = vitoria, evento_config.estado = ''ES'', pais = ''Brasil'',
     evento_config.cep = Some ''29000-000'', nomeEvento = None, dataInicio = None, dataFim = None\<rparr>"

abbreviation form_exemplo :: form_valores where
  "form_exemplo \<equiv> \<lparr>nome = ''Ana'', email = ''ana@example.org'', cpf = ''00000000000'',
     telefone = ''27999999999'', destinoCidade = vitoria, destinoEstado = ''ES'',
     destinoPais = ''Brasil'', diasNoEvento = Some 2, idaEVolta = True, observacoes = []\<rparr>"

abbreviation estado_exemplo :: "trecho list \<Rightarrow> formulario_state" where
  "estado_exemplo ts \<equiv> formulario_novo\<lparr>formulario := form_exemplo, evento := Some evento_exemplo,
     trechos := ts\<rparr>"

section \<open>Lemmas\<close>

text \<open>What each handler does to the list of legs.\<close>

lemma trechos_simps [simp]:
  "trechos (adicionarTrecho s) = trechos s @ [criarTrechoVazio]"
  "trechos (carregarEvento ls s) = trechos s"
  "trechos (esconderAutocompleteTrecho i s) = trechos s"
  "trechos (toggleIdaEVolta s) = trechos s"
  "trechos (configurarAutocompleteTrecho ibge i e s) = trechos s"
  "trechos (buscarEnderecoPorCEPTrecho api i c s) = trechos s"
  "trechos (resetarFormulario s) = [criarTrechoVazio]"
  "trechos (inicializarFormulario s) = [criarTrechoVazio]"
  by (simp_all add: adicionarTrecho_def carregarEvento_def esconderAutocompleteTrecho_def
      toggleIdaEVolta_def configurarAutocompleteTrecho_def buscarEnderecoPorCEPTrecho_def
      resetarFormulario_def inicializarFormulario_def Let_def split: option.split obs.split)

lemma length_js_splice1: "length (js_splice1 i xs) \<ge> length xs - 1"
  by (simp add: js_splice1_def Let_def)

lemma length_atualizarTrecho:
  "length (trechos (atualizarTrecho i c v s)) = (if i < length (trechos s) then length (trechos s) else Suc (length (trechos s)))"
  by (auto simp: atualizarTrecho_def Let_def)

lemma length_validar_trechos: "length (fst (validar_trechos ev i ts)) = length ts"
  by (induction ev i ts rule: validar_trechos.induct) (simp_all add: Let_def)

lemma trechos_calcular_validar:
  "length (trechos (fst (calcular_validar email_ok s))) = length (trechos s)"
  by (auto simp: calcular_validar_def Let_def length_validar_trechos split: option.split prod.split sum.split
      dest: arg_cong [where f = "\<lambda>p. length (fst p)"])

lemma trechos_calcular:
  "length (trechos (fst (calcular api email_ok s))) = length (trechos s)"
  using trechos_calcular_validar [of email_ok s]
  by (auto simp: calcular_def split: prod.split sum.split obs.split)

lemma trechos_enviar: "trechos (fst (enviar email_ok agora (s, ls))) = trechos s"
  by (simp add: enviar_def split: option.split)

lemma trechos_nonempty_ops [simp]:
  "trechos s \<noteq> [] \<Longrightarrow> trechos (removerTrecho k s) \<noteq> []"
  "trechos (atualizarTrecho i c v s) \<noteq> []"
  "trechos (atualizarCepTrecho api i x s) \<noteq> []"
  "trechos s \<noteq> [] \<Longrightarrow> trechos (selecionarCidadeTrecho i cid s) \<noteq> []"
  "trechos s \<noteq> [] \<Longrightarrow> trechos (fst (calcular api email_ok s)) \<noteq> []"
  "trechos s \<noteq> [] \<Longrightarrow> trechos (fst (enviar email_ok agora (s, ls))) \<noteq> []"
  "trechos (s\<lparr>formulario := f\<rparr>) = trechos s"
  using length_js_splice1 [where i = k and xs = "trechos s"] length_atualizarTrecho [of i c v s]
    length_atualizarTrecho [of i CampoCepOrigem "Texto (aplicarMascaraCEP x)" s]
    trechos_calcular [of api email_ok s] trechos_enviar [of email_ok agora s ls]
  by (auto simp: removerTrecho_def atualizarCepTrecho_def selecionarCidadeTrecho_def Let_def
      simp del: length_greater_0_conv) (simp_all split: if_splits)

lemma form_step_trechos_nonempty:
  "form_step api ibge email_ok sl sl' \<Longrightarrow> trechos (fst sl) \<noteq> [] \<Longrightarrow> trechos (fst sl') \<noteq> []"
  by (induction rule: form_step.induct) simp_all


lemma atualizarTrecho_in_range:
  assumes "i < length (trechos s)"
  shows "trechos (atualizarTrecho i c v s) = (trechos s)[i :=
    (let v' = (if v = Texto [] \<or> v = Nulo then Nulo else v);
         t = set_campo c v' (trechos s ! i)
     in if c = CampoMeioTransporte then limpar_por_meio v' t else t)]"
  using assms by (simp add: atualizarTrecho_def Let_def upd_conv_take_nth_drop)

lemma atualizarTrecho_frame [simp]:
  "formulario (atualizarTrecho i c v s) = formulario s"
  "resultado (atualizarTrecho i c v s) = resultado s"
  "evento (atualizarTrecho i c v s) = evento s"
  by (simp_all add: atualizarTrecho_def Let_def)

text \<open>The component after \<open>ngOnInit\<close> over an empty store, for the witnesses.\<close>

abbreviation api_falha :: via_cep_api where "api_falha \<equiv> \<lambda>_. Fails HttpError"
abbreviation ibge_falha :: ibge_api where "ibge_falha \<equiv> \<lambda>_. Fails HttpError"

text \<open>C34: in every state the component reaches, whatever handlers the template calls in whatever order and whatever the other pages do to the store, the list of legs is never empty: \<open>removerTrecho\<close>'s guard keeps the last leg, \<open>atualizarTrecho\<close> past the end appends, and \<open>calcular\<close> keeps the list's length.\<close>

theorem form_trechos_nonempty:
  assumes "form_reach api ibge email_ok ls0 sl"
  shows "trechos (fst sl) \<noteq> []"
  using assms
proof (induction rule: form_reach.induct)
  case form_reach_init
  then show ?case by (simp add: formulario_novo_def)
next
  case (form_reach_step sl sl')
  from form_reach_step.hyps(2) form_reach_step.IH show ?case by (rule form_step_trechos_nonempty)
qed

theorem form_trechos_nonempty_witness:
  "trechos (fst (removerTrecho 0 (carregarEvento storage_vazio formulario_novo), storage_vazio)) \<noteq> []"
proof -
  have "form_reach api_falha ibge_falha (\<lambda>_. True) storage_vazio
          (removerTrecho 0 (carregarEvento storage_vazio formulario_novo), storage_vazio)"
    by (rule form_reach_step [OF form_reach_init passo_remover])
  then show ?thesis by (rule form_trechos_nonempty)
qed

text \<open>C35: changing a leg's mode rewrites only that leg: the mode is set, the origin, destination and postal code are cleared, the explicit distance is kept, and the mode-specific fields are cleared by the new mode's branch (the plane class for road modes; fuel, passengers and consumption for plane and train; all of them otherwise).\<close>

theorem atualizarTrecho_meio_limpa:
  assumes "i < length (trechos s)"
  shows "length (trechos (atualizarTrecho i CampoMeioTransporte (Texto m) s)) = length (trechos s) \<and>
    (\<forall>j < length (trechos s). j \<noteq> i \<longrightarrow> trechos (atualizarTrecho i CampoMeioTransporte (Texto m) s) ! j = trechos s ! j) \<and>
    (let t = trechos s ! i; t' = trechos (atualizarTrecho i CampoMeioTransporte (Texto m) s) ! i in
     meioTransporte t' = m \<and> origemCidade t' = None \<and> origemEstado t' = None \<and>
     trecho.destinoCidade t' = None \<and> trecho.destinoEstado t' = None \<and> cepOrigem t' = None \<and>
     distanciaKm t' = distanciaKm t \<and>
     (m \<in> set modos_rodoviarios \<longrightarrow> classeVoo t' = None \<and> tipoCombustivel t' = tipoCombustivel t \<and>
        numeroPassageiros t' = numeroPassageiros t \<and> consumoMedio t' = consumoMedio t) \<and>
     (m = ''aviao'' \<or> m = ''trem'' \<longrightarrow> tipoCombustivel t' = None \<and> numeroPassageiros t' = None \<and>
        consumoMedio t' = None \<and> classeVoo t' = classeVoo t) \<and>
     (m \<notin> set modos_rodoviarios \<and> m \<noteq> ''aviao'' \<and> m \<noteq> ''trem'' \<longrightarrow> tipoCombustivel t' = None \<and>
        numeroPassageiros t' = None \<and> consumoMedio t' = None \<and> classeVoo t' = None))"
  using assms
  by (simp add: atualizarTrecho_in_range Let_def limpar_por_meio_def texto_de_def modos_rodoviarios_def)

theorem atualizarTrecho_meio_limpa_witness:
  "classeVoo (trechos (atualizarTrecho 0 CampoMeioTransporte (Texto ''carro'') formulario_novo) ! 0) = None \<and>
   tipoCombustivel (trechos (atualizarTrecho 0 CampoMeioTransporte (Texto ''carro'') formulario_novo) ! 0) = Some []"
  using atualizarTrecho_meio_limpa [of 0 formulario_novo "''carro''"]
  by (simp add: formulario_novo_def criarTrechoVazio_def modos_rodoviarios_def Let_def)


lemma validar_trechos_meios:
  "map meioTransporte (fst (validar_trechos ev i ts)) = map meioTransporte ts"
  by (induction ev i ts rule: validar_trechos.induct) (simp_all add: Let_def)

lemma validar_trechos_prontos:
  "cidade ev \<noteq> [] \<Longrightarrow> snd (validar_trechos ev i ts) = None \<Longrightarrow>
   \<forall>t \<in> set (com_meio (fst (validar_trechos ev i ts))). trecho_pronto t"
proof (induction ts arbitrary: i)
  case Nil
  then show ?case by (simp add: com_meio_def)
next
  case (Cons t ts)
  consider (vazio) "meioTransporte t = []"
    | (aereo) "meioTransporte t \<noteq> []" "meioTransporte t = ''aviao'' \<or> meioTransporte t = ''trem''"
    | (rodo) "meioTransporte t \<in> set modos_rodoviarios"
    | (outro) "meioTransporte t \<noteq> []" "\<not> (meioTransporte t = ''aviao'' \<or> meioTransporte t = ''trem'')"
        "meioTransporte t \<notin> set modos_rodoviarios"
    by (auto simp: modos_rodoviarios_def)
  then show ?case
  proof cases
    case vazio
    then have eq: "validar_trechos ev i (t # ts) = apfst (Cons t) (validar_trechos ev i ts)" by simp
    with Cons.prems have "snd (validar_trechos ev i ts) = None" by simp
    with Cons.IH Cons.prems(1) eq vazio show ?thesis by (simp add: com_meio_def)
  next
    case aereo
    have o: "truthy (origemCidade t)" "truthy (origemEstado t)"
      using Cons.prems(2) aereo by (auto simp: Let_def split: if_splits)
    define t' where "t' = (if \<not> truthy (trecho.destinoCidade t)
                       then t\<lparr>trecho.destinoCidade := Some (cidade ev),
                              trecho.destinoEstado := Some (evento_config.estado ev)\<rparr>
                       else t)"
    have eq: "validar_trechos ev i (t # ts) = apfst (Cons t') (validar_trechos ev (Suc i) ts)"
      using aereo o by (simp add: Let_def t'_def)
    with Cons.prems(2) have "snd (validar_trechos ev (Suc i) ts) = None" by simp
    moreover have "trecho_pronto t'"
      using aereo o Cons.prems(1) by (auto simp: t'_def trecho_pronto_def truthy_def modos_rodoviarios_def)
    moreover have "meioTransporte t' \<noteq> []" using aereo by (simp add: t'_def)
    ultimately show ?thesis using Cons.IH Cons.prems(1) eq by (simp add: com_meio_def)
  next
    case rodo
    then have r: "meioTransporte t = ''carro'' \<or> meioTransporte t = ''motocicleta'' \<or> meioTransporte t = ''onibus''"
      "meioTransporte t \<noteq> ''aviao''" "meioTransporte t \<noteq> ''trem''" "meioTransporte t \<noteq> []"
      by (auto simp: modos_rodoviarios_def)
    have c: "truthy (cepOrigem t)"
      using Cons.prems(2) r by (auto simp: Let_def split: if_splits)
    have eq: "validar_trechos ev i (t # ts) = apfst (Cons t) (validar_trechos ev (Suc i) ts)"
      using r c by (simp add: Let_def)
    with Cons.prems(2) have "snd (validar_trechos ev (Suc i) ts) = None" by simp
    moreover have "trecho_pronto t" using r c rodo by (auto simp: trecho_pronto_def)
    ultimately show ?thesis using Cons.IH Cons.prems(1) eq r by (simp add: com_meio_def)
  next
    case outro
    then have r: "\<not> (meioTransporte t = ''carro'' \<or> meioTransporte t = ''motocicleta'' \<or> meioTransporte t = ''onibus'')"
      by (auto simp: modos_rodoviarios_def)
    have eq: "validar_trechos ev i (t # ts) = apfst (Cons t) (validar_trechos ev (Suc i) ts)"
      using outro r by (simp add: Let_def)
    with Cons.prems(2) have "snd (validar_trechos ev (Suc i) ts) = None" by simp
    moreover have "trecho_pronto t" using outro by (simp add: trecho_pronto_def)
    ultimately show ?thesis using Cons.IH Cons.prems(1) eq outro by (simp add: com_meio_def)
  qed
qed

lemma com_meio_Nil_iff: "com_meio ts = [] \<longleftrightarrow> (\<forall>m \<in> set (map meioTransporte ts). m = [])"
  by (auto simp: com_meio_def filter_empty_conv)

lemma calcular_validar_prontos:
  assumes "calcular_validar email_ok s = (s', Inr v)"
    and "case evento s of Some ev \<Rightarrow> cidade ev \<noteq> [] | None \<Rightarrow> True"
  shows "\<forall>t \<in> set (viagem.trechos v). trecho_pronto t"
proof -
  obtain ev where ev: "evento s = Some ev"
    using assms(1) by (cases "evento s") (simp_all add: calcular_validar_def)
  with assms(2) have cid: "cidade ev \<noteq> []" by simp
  obtain ts e where vt: "validar_trechos ev 0 (trechos s) = (ts, e)" by fastforce
  have "e = None" "viagem.trechos v = com_meio ts"
    using assms(1) by (auto simp: calcular_validar_def ev vt Let_def viagem_de_form_def split: if_splits option.splits)
  then show ?thesis
    using validar_trechos_prontos [OF cid, of 0 "trechos s"] vt by simp
qed

text \<open>C36: when \<open>calcular\<close> gets past its checks, it sends the service a trip with at least one leg, and the legs are exactly the component's legs with a mode, each ready in the sense of \<open>trecho_pronto\<close>; the event was configured, the required fields were valid, no leg's mode changed, and the component shows it is loading.\<close>

theorem calcular_validar_envia_prontos:
  assumes "calcular_validar email_ok s = (s', Inr v)"
    and "case evento s of Some ev \<Rightarrow> cidade ev \<noteq> [] | None \<Rightarrow> True"
  shows "evento s \<noteq> None \<and> campos_invalidos email_ok (formulario s) = [] \<and>
    viagem.trechos v = com_meio (trechos s') \<and> viagem.trechos v \<noteq> [] \<and>
    map meioTransporte (trechos s') = map meioTransporte (trechos s) \<and>
    (\<forall>t \<in> set (viagem.trechos v). trecho_pronto t) \<and> carregando s' \<and> \<not> calculado s'"
proof -
  obtain ev where ev: "evento s = Some ev"
    using assms(1) by (cases "evento s") (simp_all add: calcular_validar_def)
  obtain ts e where vt: "validar_trechos ev 0 (trechos s) = (ts, e)" by fastforce
  have ok: "com_meio (trechos s) \<noteq> []" "campos_invalidos email_ok (formulario s) = []" "e = None"
    using assms(1) by (auto simp: calcular_validar_def ev vt Let_def split: if_splits option.splits)
  have s': "trechos s' = ts" "carregando s'" "\<not> calculado s'" "viagem.trechos v = com_meio ts"
    using assms(1) by (auto simp: calcular_validar_def ev vt ok Let_def viagem_de_form_def)
  have meios: "map meioTransporte ts = map meioTransporte (trechos s)"
    using validar_trechos_meios [of ev 0 "trechos s"] vt by simp
  have "com_meio ts \<noteq> []"
    using ok(1) meios by (simp add: com_meio_Nil_iff)
  then show ?thesis
    using ev ok(2) s' meios calcular_validar_prontos [OF assms] by simp
qed

theorem calcular_validar_envia_prontos_witness:
  "carregando (fst (calcular_validar (\<lambda>_. True) (estado_exemplo
     [(trecho_vazio ''aviao'')\<lparr>origemCidade := Some sao_paulo, origemEstado := Some ''SP''\<rparr>])))"
proof -
  let ?s = "estado_exemplo [(trecho_vazio ''aviao'')\<lparr>origemCidade := Some sao_paulo, origemEstado := Some ''SP''\<rparr>]"
  have "calcular_validar (\<lambda>_. True) ?s =
        (fst (calcular_validar (\<lambda>_. True) ?s), Inr (projr (snd (calcular_validar (\<lambda>_. True) ?s))))"
    by (simp add: calcular_validar_def com_meio_def campos_invalidos_def camposObrigatorios_def
        campo_valido_def truthy_def Let_def)
  from calcular_validar_envia_prontos [OF this] show ?thesis by simp
qed


text \<open>C37: \<open>enviar\<close> stores the form's value without any leg (the legs live in the component, not in the reactive form), together with the last result computed, even when the legs have been edited since: the stored trip's \<open>trechos\<close> is empty and its result may describe other legs. The admin export therefore always lists its legs as \<open>N/A\<close>.\<close>

theorem enviar_sem_trechos:
  assumes "resultado s = Some r" "formulario_valido email_ok (formulario s)"
  shows "obterViagens (snd (enviar email_ok agora (atualizarTrecho i c v s, ls))) =
           obterViagens ls @ [salvar_dados (viagem_de_form (formulario s) []) r agora] \<and>
         viagem.trechos (last (obterViagens (snd (enviar email_ok agora (atualizarTrecho i c v s, ls))))) = []"
  using assms by (simp add: enviar_def viagem_de_form_def)

theorem enviar_sem_trechos_witness:
  "viagem.trechos (last (obterViagens (snd (enviar (\<lambda>_. True) ''2025-05-01T10:00:00.000Z''
     (atualizarTrecho 0 CampoMeioTransporte (Texto ''aviao'')
        ((estado_exemplo [trecho_vazio ''carro''])\<lparr>resultado := Some resultado_zero\<rparr>), storage_vazio))))) = []"
proof -
  have "resultado ((estado_exemplo [trecho_vazio ''carro''])\<lparr>resultado := Some resultado_zero\<rparr>) = Some resultado_zero"
    "formulario_valido (\<lambda>_. True) (formulario ((estado_exemplo [trecho_vazio ''carro''])\<lparr>resultado := Some resultado_zero\<rparr>))"
    by (simp_all add: formulario_valido_def campo_valido_def)
  from enviar_sem_trechos [OF this] show ?thesis by blast
qed

lemma only_digits_append [simp]: "only_digits (a @ b) = only_digits a @ only_digits b"
  by (simp add: only_digits_def)

lemma only_digits_hifen [simp]: "only_digits (CHR ''-'' # s) = only_digits s"
  by (simp add: only_digits_def is_digit_def)

lemma only_digits_id: "set s \<subseteq> Collect is_digit \<Longrightarrow> only_digits s = s"
  by (simp add: only_digits_def subset_eq)

text \<open>C38: the postal-code mask keeps exactly the digits it was given (so \<open>buscarCEP\<close>, which strips everything else, sees the same code), is idempotent (masking a masked code changes nothing), and turns an eight-digit code into the nine-character form \<open>ddddd-ddd\<close>.\<close>

theorem aplicarMascaraCEP_roundtrip:
  "only_digits (aplicarMascaraCEP c) = only_digits c \<and>
   aplicarMascaraCEP (aplicarMascaraCEP c) = aplicarMascaraCEP c \<and>
   (length (only_digits c) = 8 \<longrightarrow> length (aplicarMascaraCEP c) = 9 \<and> aplicarMascaraCEP c ! 5 = CHR ''-'')"
proof -
  let ?d = "only_digits c"
  have sd: "set ?d \<subseteq> Collect is_digit" by (auto simp: only_digits_def)
  have ta: "only_digits (take 5 ?d) = take 5 ?d" "only_digits (drop 5 ?d) = drop 5 ?d"
    using only_digits_id [OF subset_trans [OF set_take_subset sd]]
      only_digits_id [OF subset_trans [OF set_drop_subset sd]] by simp_all
  have digits: "only_digits (aplicarMascaraCEP c) = ?d"
    using ta by (simp add: aplicarMascaraCEP_def Let_def)
  moreover have "aplicarMascaraCEP (aplicarMascaraCEP c) = aplicarMascaraCEP c"
    using digits by (simp add: aplicarMascaraCEP_def [of "aplicarMascaraCEP c"] Let_def)
      (simp add: aplicarMascaraCEP_def Let_def)
  moreover have "length ?d = 8 \<Longrightarrow> length (aplicarMascaraCEP c) = 9 \<and> aplicarMascaraCEP c ! 5 = CHR ''-''"
    by (simp add: aplicarMascaraCEP_def Let_def nth_append)
  ultimately show ?thesis by blast
qed


theorem aplicarMascaraCEP_roundtrip_witness:
  "aplicarMascaraCEP (aplicarMascaraCEP ''29010000'') = aplicarMascaraCEP ''29010000'' \<and>
   length (aplicarMascaraCEP ''29010000'') = 9 \<and> aplicarMascaraCEP ''29010000'' ! 5 = CHR ''-''"
proof -
  have "length (only_digits ''29010000'') = 8" by (simp add: only_digits_def is_digit_def)
  with aplicarMascaraCEP_roundtrip [of "''29010000''"] show ?thesis by simp
qed

lemma validar_trechos_erro: "snd (validar_trechos ev i ts) \<noteq> Some ErroServico"
  by (induction ev i ts rule: validar_trechos.induct) (auto simp: Let_def)

lemma calcular_validar_Inl:
  assumes "calcular_validar email_ok s = (s1, Inl e)"
  shows "carregando s1 = carregando s \<and> e \<noteq> ErroServico"
proof (cases "evento s")
  case None
  with assms show ?thesis by (simp add: calcular_validar_def)
next
  case (Some ev)
  obtain ts erro where v: "validar_trechos ev 0 (trechos s) = (ts, erro)" by fastforce
  with validar_trechos_erro [of ev 0 "trechos s"] have "erro \<noteq> Some ErroServico" by simp
  with assms Some v show ?thesis
    by (auto simp: calcular_validar_def Let_def split: option.splits if_splits)
qed

text \<open>C22: the loading state always ends for a gateway that answers: \<open>calcular\<close> either stops at a validation error, leaving the loading flag as it was, or shows a result with the flag cleared; the service-error branch of the subscription is never taken, because the service catches every failure itself.\<close>

theorem calcular_conclui:
  assumes "api_settles api"
  shows "snd (calcular api email_ok s) \<noteq> Some ErroServico \<and>
    (snd (calcular api email_ok s) = None \<longrightarrow>
       \<not> carregando (fst (calcular api email_ok s)) \<and> calculado (fst (calcular api email_ok s)) \<and>
       resultado (fst (calcular api email_ok s)) \<noteq> None) \<and>
    (snd (calcular api email_ok s) \<noteq> None \<longrightarrow> carregando (fst (calcular api email_ok s)) = carregando s)"
proof (cases "calcular_validar email_ok s")
  case (Pair s1 x)
  show ?thesis
  proof (cases x)
    case (Inl e)
    with Pair calcular_validar_Inl [of email_ok s s1 e] show ?thesis by (simp add: calcular_def)
  next
    case (Inr v)
    from calcularEmissao_Emits [OF assms, of v] obtain r where "calcularEmissao api v = Emits r" ..
    with Pair Inr show ?thesis by (simp add: calcular_def)
  qed
qed

theorem calcular_conclui_witness:
  "api_settles api_falha \<and>
   snd (calcular api_falha (\<lambda>_. True) (estado_exemplo [trecho_vazio ''carro''])) \<noteq> Some ErroServico"
proof -
  have h: "api_settles api_falha" by (simp add: api_settles_def)
  with calcular_conclui [OF h, of "\<lambda>_. True" "estado_exemplo [trecho_vazio ''carro'']"] show ?thesis by blast
qed

end
