(* ===== verification/Form_View.thy ===== *)
theory Form_View
  imports Form
begin

text \<open>
  The parts of \<open>FormularioComponent\<close> (\<open>components/formulario/formulario.component.ts\<close>)
  that the template reads: the option catalogs of the selects (\<open>meiosTransporte\<close>,
  \<open>tiposCombustivel\<close>, \<open>classesVoo\<close>, \<open>estadosBrasil\<close>), the display helpers
  (\<open>mostrarCamposCarro\<close>, \<open>mostrarCamposAviao\<close>, \<open>formatarMeioTransporte\<close>,
  \<open>trackByTrechoIndex\<close>), and \<open>ngOnInit\<close>, which composes the initialisers of theory
  \<open>Form\<close>, and the touched flags of the controls (\<open>marcarCamposInvalidos\<close>,
  \<open>campoInvalido\<close>). \<open>atualizarValidadoresTransporte\<close> addresses controls by name; the names it
  asks for are kept here beside the names of the form group, and a lemma shows they are
  disjoint, so every \<open>?.\<close> call of the method is on \<open>null\<close>.
\<close>

section \<open>Definitions\<close>

text \<open>The options of the selects, as \<open>(value, label)\<close> pairs.\<close>

definition meiosTransporte :: "(string \<times> string) list" where
  "meiosTransporte = [(''aviao'', ''Avi'' @ a_til @ ''o''), (''carro'', ''Carro''),
     (''onibus'', o_maiusc_cir @ ''nibus''), (''trem'', ''Trem''), (''metro'', ''Metr'' @ o_cir),
     (''motocicleta'', ''Motocicleta''), (''navio'', ''Navio/Barco'')]"

definition tiposCombustivel :: "(string \<times> string) list" where
  "tiposCombustivel = [(''gasolina'', ''Gasolina''), (''etanol'', ''Etanol''), (''diesel'', ''Diesel''),
     (''eletrico'', ''El'' @ e_agu @ ''trico''), (''hibrido'', ''H'' @ i_agu @ ''brido'')]"

definition classesVoo :: "(string \<times> string) list" where
  "classesVoo = [(''economica'', ''Econ'' @ o_cir @ ''mica''), (''executiva'', ''Executiva''),
     (''primeira'', ''Primeira Classe'')]"

definition estadosBrasil :: "string list" where
  "estadosBrasil = [''AC'', ''AL'', ''AP'', ''AM'', ''BA'', ''CE'', ''DF'', ''ES'', ''GO'', ''MA'',
     ''MT'', ''MS'', ''MG'', ''PA'', ''PB'', ''PR'', ''PE'', ''PI'', ''RJ'', ''RN'',
     ''RS'', ''RO'', ''RR'', ''SC'', ''SP'', ''SE'', ''TO'']"

text \<open>\<open>ngOnInit\<close>: \<open>inicializarFormulario\<close>, the empty \<open>configurarAutocomplete\<close>, then
  \<open>carregarEvento\<close> over the store.\<close>

definition configurarAutocomplete :: "formulario_state \<Rightarrow> formulario_state" where
  "configurarAutocomplete s = s"

definition form_ngOnInit :: "local_storage \<Rightarrow> formulario_state \<Rightarrow> formulario_state" where
  "form_ngOnInit ls s = carregarEvento ls (configurarAutocomplete (inicializarFormulario s))"

text \<open>The names of the controls of \<open>this.formulario\<close> (\<open>inicializarFormulario\<close>), and
  those \<open>atualizarValidadoresTransporte\<close> looks up with \<open>this.formulario.get\<close>.\<close>

definition controles_formulario :: "string list" where
  "controles_formulario = [''nome'', ''email'', ''cpf'', ''telefone'', ''destinoCidade'', ''destinoEstado'',
     ''destinoPais'', ''diasNoEvento'', ''idaEVolta'', ''observacoes'']"

definition controles_validadores :: "string list" where
  "controles_validadores = [''distanciaKm'', ''tipoCombustivel'', ''numeroPassageiros'', ''classeVoo'']"

definition mostrarCamposCarro :: "trecho \<Rightarrow> bool" where
  "mostrarCamposCarro t = (meioTransporte t = ''carro'')"

definition mostrarCamposAviao :: "trecho \<Rightarrow> bool" where
  "mostrarCamposAviao t = (meioTransporte t = ''aviao'')"

definition meios_formulario :: "(string \<times> string) list" where
  "meios_formulario = [(''aviao'', ''Avi'' @ a_til @ ''o''), (''carro'', ''Carro''),
     (''onibus'', o_maiusc_cir @ ''nibus''), (''trem'', ''Trem''), (''metro'', ''Metr'' @ o_cir),
     (''motocicleta'', ''Motocicleta''), (''navio'', ''Navio/Barco'')]"

text \<open>\<open>meios[meio] || meio\<close>: every label is a non-empty string.\<close>

definition formatarMeioTransporte_form :: "string \<Rightarrow> string" where
  "formatarMeioTransporte_form meio = (case map_of meios_formulario meio of Some r \<Rightarrow> r | None \<Rightarrow> meio)"

definition trackByTrechoIndex :: "nat \<Rightarrow> trecho \<Rightarrow> nat" where
  "trackByTrechoIndex index t = index"

text \<open>The touched flags of the controls, as the set of the names of touched controls:
  \<open>marcarCamposInvalidos\<close> runs over \<open>Object.keys(this.formulario.controls)\<close> and marks
  each invalid control touched; the getter \<open>campoInvalido\<close> reports a control that
  exists, is invalid and is touched.\<close>

definition marcarCamposInvalidos :: "(string \<Rightarrow> bool) \<Rightarrow> form_valores \<Rightarrow> string set \<Rightarrow> string set" where
  "marcarCamposInvalidos email_ok f tocados =
     foldl (\<lambda>t key. if \<not> campo_valido email_ok f key then insert key t else t) tocados controles_formulario"

definition campoInvalido :: "(string \<Rightarrow> bool) \<Rightarrow> form_valores \<Rightarrow> string set \<Rightarrow> string \<Rightarrow> bool" where
  "campoInvalido email_ok f tocados campo =
     (campo \<in> set controles_formulario \<and> \<not> campo_valido email_ok f campo \<and> campo \<in> tocados)"

text \<open>The key under which \<open>obterFatorEmissaoTrecho\<close> looks a leg up.\<close>

definition chave_fator :: "string \<Rightarrow> string \<Rightarrow> string \<Rightarrow> string" where
  "chave_fator m combustivel classe =
    (if m = ''aviao'' then ''aviao-'' @ classe else if m = ''carro'' then ''carro-'' @ combustivel else m)"

section \<open>Lemmas\<close>

lemma controles_validadores_ausentes: "set controles_validadores \<inter> set controles_formulario = {}"
  by (simp add: controles_validadores_def controles_formulario_def)

lemma form_ngOnInit_trechos [simp]: "trechos (form_ngOnInit ls s) = [criarTrechoVazio]"
  by (simp add: form_ngOnInit_def configurarAutocomplete_def inicializarFormulario_def carregarEvento_def
      split: option.split)

lemma meiosTransporte_modos_ui: "map fst meiosTransporte = modos_ui"
  by (simp add: meiosTransporte_def modos_ui_def)

text \<open>After \<open>calcular\<close> marks the invalid controls, the template flags, among the
  controls not touched before, exactly the fields \<open>calcular\<close> rejected.\<close>

lemma campoInvalido_marcar:
  "campoInvalido email_ok f (marcarCamposInvalidos email_ok f {}) c \<longleftrightarrow> c \<in> set (campos_invalidos email_ok f)"
  by (auto simp: campoInvalido_def marcarCamposInvalidos_def foldl_insert_filter campos_invalidos_def
      camposObrigatorios_def controles_formulario_def campo_valido_def)

lemma chave_fator_opcoes:
  assumes "m \<in> set (map fst meiosTransporte)" "c \<in> set (map fst tiposCombustivel)" "k \<in> set (map fst classesVoo)"
  shows "map_of fatoresEmissao (chave_fator m c k) \<noteq> None"
proof -
  from assms(1) have "m \<in> set modos_ui" by (simp only: meiosTransporte_modos_ui)
  then have m: "m = ''aviao'' \<or> m = ''carro'' \<or> m = ''onibus'' \<or> m = ''trem'' \<or> m = ''metro'' \<or>
      m = ''motocicleta'' \<or> m = ''navio''"
    by (simp add: modos_ui_def)
  from assms(3) have k: "k = ''economica'' \<or> k = ''executiva'' \<or> k = ''primeira''"
    by (simp add: classesVoo_def)
  from assms(2) have c: "c = ''gasolina'' \<or> c = ''etanol'' \<or> c = ''diesel'' \<or> c = ''eletrico'' \<or> c = ''hibrido''"
    by (simp add: tiposCombustivel_def)
  from m show ?thesis
  proof (elim disjE)
    assume "m = ''aviao''"
    with k show ?thesis by (elim disjE) (simp_all add: chave_fator_def fatoresEmissao_def)
  next
    assume "m = ''carro''"
    with c show ?thesis by (elim disjE) (simp_all add: chave_fator_def fatoresEmissao_def)
  qed (simp_all add: chave_fator_def fatoresEmissao_def)
qed

lemma obterFatorEmissaoTrecho_chave:
  "c \<noteq> [] \<Longrightarrow> k \<noteq> [] \<Longrightarrow>
   obterFatorEmissaoTrecho ((trecho_vazio m)\<lparr>tipoCombustivel := Some c, classeVoo := Some k\<rparr>) =
     fator_or (chave_fator m c k) (if m = ''aviao'' then 0.255 else if m = ''carro'' then 0.192 else 0.1)"
  by (simp add: obterFatorEmissaoTrecho_eq chave_fator_def)

lemma fator_opcoes:
  assumes "m \<in> set (map fst meiosTransporte)" "c \<in> set (map fst tiposCombustivel)" "k \<in> set (map fst classesVoo)"
  shows "\<exists>f. map_of fatoresEmissao (chave_fator m c k) = Some f \<and>
     obterFatorEmissaoTrecho ((trecho_vazio m)\<lparr>tipoCombustivel := Some c, classeVoo := Some k\<rparr>) = f"
proof -
  from chave_fator_opcoes [OF assms] obtain f where f: "map_of fatoresEmissao (chave_fator m c k) = Some f"
    by blast
  have "c \<noteq> []" "k \<noteq> []"
    using assms(2,3) by (auto simp: tiposCombustivel_def classesVoo_def)
  moreover have "f \<noteq> 0" using fatoresEmissao_range [OF f] by simp
  ultimately show ?thesis using f by (simp add: obterFatorEmissaoTrecho_chave fator_or_def)
qed

text \<open>C17: the form's option catalogs agree with the tables the other components use: every combination of mode, fuel and flight class the selects offer is priced by its own entry of the factor table, never by a default; every state the form offers is a state the IBGE lookup knows, and it offers them all; and the labels of the mode select are those \<open>formatarMeioTransporte\<close> prints.\<close>

theorem opcoes_formulario_cobertas:
  "(\<forall>m \<in> set (map fst meiosTransporte). \<forall>c \<in> set (map fst tiposCombustivel). \<forall>k \<in> set (map fst classesVoo).
      \<exists>f. map_of fatoresEmissao (chave_fator m c k) = Some f \<and>
        obterFatorEmissaoTrecho ((trecho_vazio m)\<lparr>tipoCombustivel := Some c, classeVoo := Some k\<rparr>) = f) \<and>
   (\<forall>e \<in> set estadosBrasil. obterCodigoEstado e \<noteq> None) \<and>
   set estadosBrasil = fst ` set estados_codigos \<and>
   map (formatarMeioTransporte_form \<circ> fst) meiosTransporte = map snd meiosTransporte"
proof (intro conjI ballI)
  fix m c k
  assume "m \<in> set (map fst meiosTransporte)" "c \<in> set (map fst tiposCombustivel)" "k \<in> set (map fst classesVoo)"
  then show "\<exists>f. map_of fatoresEmissao (chave_fator m c k) = Some f \<and>
      obterFatorEmissaoTrecho ((trecho_vazio m)\<lparr>tipoCombustivel := Some c, classeVoo := Some k\<rparr>) = f"
    by (rule fator_opcoes)
next
  fix e assume "e \<in> set estadosBrasil"
  then show "obterCodigoEstado e \<noteq> None"
    by (simp add: estadosBrasil_def obterCodigoEstado_def estados_codigos_def) (elim disjE; simp)
next
  show "set estadosBrasil = fst ` set estados_codigos"
    by (simp add: estadosBrasil_def estados_codigos_def insert_commute)
next
  show "map (formatarMeioTransporte_form \<circ> fst) meiosTransporte = map snd meiosTransporte"
    by (simp add: meiosTransporte_def formatarMeioTransporte_form_def meios_formulario_def)
qed

theorem opcoes_formulario_cobertas_witness:
  "map_of fatoresEmissao (chave_fator ''carro'' ''eletrico'' ''economica'') = Some 0.053 \<and>
   obterFatorEmissaoTrecho ((trecho_vazio ''carro'')\<lparr>tipoCombustivel := Some ''eletrico'', classeVoo := Some ''economica''\<rparr>) = 0.053"
proof -
  have "''carro'' \<in> set (map fst meiosTransporte)" "''eletrico'' \<in> set (map fst tiposCombustivel)"
    "''economica'' \<in> set (map fst classesVoo)"
    by (simp_all add: meiosTransporte_def tiposCombustivel_def classesVoo_def)
  then obtain f where "map_of fatoresEmissao (chave_fator ''carro'' ''eletrico'' ''economica'') = Some f"
    "obterFatorEmissaoTrecho ((trecho_vazio ''carro'')\<lparr>tipoCombustivel := Some ''eletrico'', classeVoo := Some ''economica''\<rparr>) = f"
    using opcoes_formulario_cobertas by blast
  moreover have "map_of fatoresEmissao (chave_fator ''carro'' ''eletrico'' ''economica'') = Some 0.053"
    by (simp add: chave_fator_def fatoresEmissao_def)
  ultimately show ?thesis by simp
qed

end
