(* ===== verification/Admin.thy ===== *)
theory Admin
  imports Auth Form_View
begin

text \<open>
  \<open>AdminComponent\<close> (\<open>components/admin/admin.component.ts\<close>): the list of stored trips
  with its totals, the event configuration form, deletion of trips, and the CSV export.
  The component's fields are \<open>admin_state\<close>; the handlers that write the store take
  and return it with the component. \<open>confirm(...)\<close> is the user's answer, a
  parameter \<open>ok\<close>. The number formatting of JavaScript (\<open>String(n)\<close>,
  \<open>toFixed\<close>) and \<open>toLocaleDateString('pt-BR')\<close> are parameters of the export, as
  library functions the component only calls. A form control reset to \<open>null\<close> is the
  empty string.
\<close>

section \<open>Definitions\<close>

text \<open>\<open>eventoForm\<close>'s value (lines 55-65).\<close>

record evento_form =
  nomeEvento :: string
  cidade :: string
  estado :: string
  pais :: string
  cep :: string
  dataInicio :: string
  dataFim :: string

record admin_state =
  viagens :: "viagem_salva list"
  totalEmissao :: real
  totalCreditos :: real
  totalArvores :: real
  eventoForm :: evento_form
  eventoAtual :: "evento_config option"

definition evento_form_inicial :: evento_form where
  "evento_form_inicial = \<lparr>nomeEvento = [], cidade = [], estado = [], pais = ''Brasil'', cep = [],
     dataInicio = [], dataFim = []\<rparr>"

definition calcularTotais :: "admin_state \<Rightarrow> admin_state" where
  "calcularTotais a = a\<lparr>
     totalEmissao := foldl (\<lambda>sum v. sum + emissaoCO2 (viagem_salva.resultado v)) 0 (viagens a),
     totalCreditos := foldl (\<lambda>sum v. sum + creditosCarbono (viagem_salva.resultado v)) 0 (viagens a),
     totalArvores := foldl (\<lambda>sum v. sum + equivalenteArvores (viagem_salva.resultado v)) 0 (viagens a)\<rparr>"

definition carregarViagens :: "local_storage \<Rightarrow> admin_state \<Rightarrow> admin_state" where
  "carregarViagens ls a = calcularTotais (a\<lparr>viagens := obterViagens ls\<rparr>)"

text \<open>\<open>carregarEvento\<close>: \<open>patchValue\<close> writes the keys the stored object has; an
  absent optional field leaves its control as it was.\<close>

definition patch_evento :: "evento_config \<Rightarrow> evento_form \<Rightarrow> evento_form" where
  "patch_evento e f = f\<lparr>cidade := evento_config.cidade e, estado := evento_config.estado e,
     pais := evento_config.pais e,
     cep := (case evento_config.cep e of Some x \<Rightarrow> x | None \<Rightarrow> cep f),
     nomeEvento := (case evento_config.nomeEvento e of Some x \<Rightarrow> x | None \<Rightarrow> nomeEvento f),
     dataInicio := (case evento_config.dataInicio e of Some x \<Rightarrow> x | None \<Rightarrow> dataInicio f),
     dataFim := (case evento_config.dataFim e of Some x \<Rightarrow> x | None \<Rightarrow> dataFim f)\<rparr>"

definition carregarEvento_admin :: "local_storage \<Rightarrow> admin_state \<Rightarrow> admin_state" where
  "carregarEvento_admin ls a =
    (case obterEvento ls of
       None \<Rightarrow> a\<lparr>eventoAtual := None\<rparr>
     | Some e \<Rightarrow> a\<lparr>eventoAtual := Some e, eventoForm := patch_evento e (eventoForm a)\<rparr>)"

text \<open>\<open>ngOnInit\<close>.\<close>

definition admin_init :: "local_storage \<Rightarrow> admin_state" where
  "admin_init ls = carregarViagens ls (carregarEvento_admin ls
     \<lparr>viagens = [], totalEmissao = 0, totalCreditos = 0, totalArvores = 0,
      eventoForm = evento_form_inicial, eventoAtual = None\<rparr>)"

text \<open>The \<open>valueChanges\<close> subscription of \<open>configurarMascaraCEP\<close>: the same mask as the
  form's \<open>aplicarMascaraCEP\<close>, applied to a non-empty value.\<close>

definition mascaraCEP_evento :: "evento_form \<Rightarrow> evento_form" where
  "mascaraCEP_evento f =
    (if cep f \<noteq> [] \<and> aplicarMascaraCEP (cep f) \<noteq> cep f then f\<lparr>cep := aplicarMascaraCEP (cep f)\<rparr> else f)"

definition evento_valido :: "evento_form \<Rightarrow> bool" where
  "evento_valido f \<longleftrightarrow> cidade f \<noteq> [] \<and> estado f \<noteq> [] \<and> pais f \<noteq> [] \<and> cep f \<noteq> []"

definition evento_de_form :: "evento_form \<Rightarrow> evento_config" where
  "evento_de_form f = \<lparr>evento_config.cidade = cidade f, evento_config.estado = estado f,
     evento_config.pais = pais f, evento_config.cep = Some (cep f),
     evento_config.nomeEvento = Some (nomeEvento f), evento_config.dataInicio = Some (dataInicio f),
     evento_config.dataFim = Some (dataFim f)\<rparr>"

definition salvarEvento_admin :: "admin_state \<times> local_storage \<Rightarrow> admin_state \<times> local_storage" where
  "salvarEvento_admin al =
    (let (a, ls) = al in
     if evento_valido (eventoForm a) then
       (let evento = evento_de_form (eventoForm a) in (a\<lparr>eventoAtual := Some evento\<rparr>, salvarEvento evento ls))
     else (a, ls))"

definition removerEvento_admin :: "bool \<Rightarrow> admin_state \<times> local_storage \<Rightarrow> admin_state \<times> local_storage" where
  "removerEvento_admin ok al =
    (let (a, ls) = al in
     if ok then (a\<lparr>eventoAtual := None,
                   eventoForm := \<lparr>nomeEvento = [], cidade = [], estado = [], pais = ''Brasil'', cep = [],
                                  dataInicio = [], dataFim = []\<rparr>\<rparr>, removerEvento ls)
     else (a, ls))"

definition excluirViagem_admin :: "bool \<Rightarrow> int \<Rightarrow> admin_state \<times> local_storage \<Rightarrow> admin_state \<times> local_storage" where
  "excluirViagem_admin ok index al =
    (let (a, ls) = al in
     if ok then (let ls' = excluirViagem index ls in (carregarViagens ls' a, ls')) else (a, ls))"

definition limparTodos :: "bool \<Rightarrow> admin_state \<times> local_storage \<Rightarrow> admin_state \<times> local_storage" where
  "limparTodos ok al =
    (let (a, ls) = al in
     if ok then (let ls' = ls\<lparr>ls_viagens_carbono := None\<rparr> in (carregarViagens ls' a, ls')) else (a, ls))"

definition logout_admin :: "bool \<Rightarrow> auth_state \<Rightarrow> auth_state" where
  "logout_admin ok au = (if ok then logout au else au)"


subsection \<open>The CSV export\<close>

abbreviation seta :: string where "seta \<equiv> [CHR 0xE2, CHR 0x86, CHR 0x92]"
abbreviation sub_2 :: string where "sub_2 \<equiv> [CHR 0xE2, CHR 0x82, CHR 0x82]"
abbreviation a_maiusc_agu :: string where "a_maiusc_agu \<equiv> [CHR 0xC3, CHR 0x81]"
abbreviation aspas :: char where "aspas \<equiv> CHR 0x22"
abbreviation nova_linha :: char where "nova_linha \<equiv> CHR 0x0A"

text \<open>\<open>Array.prototype.join(sep)\<close> on strings.\<close>

fun js_join :: "string \<Rightarrow> string list \<Rightarrow> string" where
  "js_join sep [] = []"
| "js_join sep [x] = x"
| "js_join sep (x # y # xs) = x @ sep @ js_join sep (y # xs)"

definition headers :: "string list" where
  "headers = [''Nome'', ''Email'', ''CPF'', ''Telefone'', ''Trechos (Origem '' @ seta @ '' Destino)'',
     ''Destino (Cidade)'', ''Destino (Estado)'', ''Destino (Pa'' @ i_agu @ ''s)'', ''Data Viagem'',
     ''Data Retorno'', ''Ida e Volta'', ''Dist'' @ a_cir @ ''ncia Total (km)'',
     ''Emiss'' @ a_til @ ''o CO'' @ sub_2 @ '' (kg)'', ''Cr'' @ e_agu @ ''ditos de Carbono (tCO'' @ sub_2 @ '')'',
     a_maiusc_agu @ ''rvores Equivalentes'', ''Observa'' @ c_ced @ o_til @ ''es'']"

definition meios_rotulos :: "(string \<times> string) list" where
  "meios_rotulos = [(''aviao'', ''Avi'' @ a_til @ ''o''), (''carro'', ''Carro''),
     (''onibus'', o_maiusc_cir @ ''nibus''), (''trem'', ''Trem''), (''metro'', ''Metr'' @ o_cir),
     (''motocicleta'', ''Motocicleta''), (''navio'', ''Navio/Barco'')]"

definition formatarMeioTransporte :: "string \<Rightarrow> string" where
  "formatarMeioTransporte meio = (case map_of meios_rotulos meio of Some r \<Rightarrow> r | None \<Rightarrow> meio)"

text \<open>A template literal \<open>${x}\<close> of an optional string: \<open>undefined\<close> prints as such.\<close>

definition js_str :: "string option \<Rightarrow> string" where
  "js_str x = (case x of Some s \<Rightarrow> s | None \<Rightarrow> ''undefined'')"

definition info_trecho :: "viagem_salva \<Rightarrow> nat \<times> trecho \<Rightarrow> string" where
  "info_trecho v it =
    (let (i, t) = it;
         origem = (if truthy (origemCidade t) then js_str (origemCidade t) @ '', '' @ js_str (origemEstado t)
                   else if truthy (cepOrigem t) then ''CEP: '' @ js_str (cepOrigem t) else []);
         destino = (if truthy (trecho.destinoCidade t)
                    then js_str (trecho.destinoCidade t) @ '', '' @ js_str (trecho.destinoEstado t)
                    else viagem.destinoCidade v @ '', '' @ viagem.destinoEstado v)
     in ''Trecho '' @ nat_str (Suc i) @ '': '' @ formatarMeioTransporte (meioTransporte t) @
        '' ('' @ origem @ '' '' @ seta @ '' '' @ destino @ '')'')"

definition trechosInfo :: "viagem_salva \<Rightarrow> string" where
  "trechosInfo v =
    (let s = js_join ''; '' (map (info_trecho v) (enumerate 0 (viagem.trechos v))) in
     if s = [] then ''N/A'' else s)"

text \<open>A cell before \<open>String(campo || '')\<close>: a text or a number; \<open>num\<close> is \<open>String\<close> on
  numbers, \<open>fixo k\<close> is \<open>toFixed(k)\<close>, \<open>data\<close> is \<open>new Date(d).toLocaleDateString('pt-BR')\<close>.\<close>

datatype celula = CTexto string | CNum real

definition campo_csv :: "(real \<Rightarrow> string) \<Rightarrow> celula \<Rightarrow> string" where
  "campo_csv num c = (case c of CTexto s \<Rightarrow> s | CNum n \<Rightarrow> if n = 0 then [] else num n)"

definition linha_viagem :: "(string \<Rightarrow> string) \<Rightarrow> viagem_salva \<Rightarrow> celula list" where
  "linha_viagem data v =
    [CTexto (viagem.nome v), CTexto (viagem.email v), CTexto (viagem.cpf v), CTexto (viagem.telefone v),
     CTexto (trechosInfo v), CTexto (viagem.destinoCidade v), CTexto (viagem.destinoEstado v),
     CTexto (viagem.destinoPais v), CTexto (if dataViagem v \<noteq> [] then data (dataViagem v) else []),
     CTexto (if truthy (dataRetorno v) then data (js_str (dataRetorno v)) else []),
     CTexto (if viagem.idaEVolta v then ''Sim'' else ''N'' @ a_til @ ''o''),
     CNum (distanciaTotal (viagem_salva.resultado v)), CNum (emissaoCO2 (viagem_salva.resultado v)),
     CNum (creditosCarbono (viagem_salva.resultado v)), CNum (equivalenteArvores (viagem_salva.resultado v)),
     CTexto (case viagem.observacoes v of Some s \<Rightarrow> s | None \<Rightarrow> [])]"

definition linha_totais :: "(real \<Rightarrow> string) \<Rightarrow> (nat \<Rightarrow> real \<Rightarrow> string) \<Rightarrow> admin_state \<Rightarrow> celula list" where
  "linha_totais num fixo a = replicate 11 (CTexto []) @
     [CTexto ''TOTAIS'', CTexto (fixo 2 (totalEmissao a)), CTexto (fixo 3 (totalCreditos a)),
      CTexto (num (totalArvores a)), CTexto []]"

definition escapar_csv :: "string \<Rightarrow> string" where
  "escapar_csv campoStr =
    (if CHR '','' \<in> set campoStr \<or> aspas \<in> set campoStr \<or> nova_linha \<in> set campoStr
     then aspas # concat (map (\<lambda>c. if c = aspas then [aspas, aspas] else [c]) campoStr) @ [aspas]
     else campoStr)"

definition linhas_csv :: "(real \<Rightarrow> string) \<Rightarrow> (nat \<Rightarrow> real \<Rightarrow> string) \<Rightarrow> (string \<Rightarrow> string) \<Rightarrow>
    admin_state \<Rightarrow> string list list" where
  "linhas_csv num fixo data a =
     map (map (campo_csv num)) (map (linha_viagem data) (viagens a) @ [linha_totais num fixo a])"

definition exportarParaExcel :: "(real \<Rightarrow> string) \<Rightarrow> (nat \<Rightarrow> real \<Rightarrow> string) \<Rightarrow> (string \<Rightarrow> string) \<Rightarrow>
    admin_state \<Rightarrow> string" where
  "exportarParaExcel num fixo data a =
    (let csvContent = js_join [nova_linha]
           (js_join '','' headers # map (\<lambda>linha. js_join '','' (map escapar_csv linha)) (linhas_csv num fixo data a));
         BOM = [CHR 0xEF, CHR 0xBB, CHR 0xBF]
     in BOM @ csvContent)"

text \<open>How a spreadsheet reads the file back (RFC 4180): fields separated by commas,
  records by line feeds, a field that starts with a quote runs to the closing quote, a
  doubled quote inside it is one quote. The arguments are the quoting mode, the current
  field, the fields of the current record and the records read, each in reverse.\<close>

fun csv_ler :: "bool \<Rightarrow> string \<Rightarrow> string list \<Rightarrow> string list list \<Rightarrow> string \<Rightarrow> string list list" where
  "csv_ler q cur fs rows [] = rev (rev (rev cur # fs) # rows)"
| "csv_ler False cur fs rows (c # s) =
    (if c = CHR '','' then csv_ler False [] (rev cur # fs) rows s
     else if c = nova_linha then csv_ler False [] [] (rev (rev cur # fs) # rows) s
     else if c = aspas \<and> cur = [] then csv_ler True [] fs rows s
     else csv_ler False (c # cur) fs rows s)"
| "csv_ler True cur fs rows (c # s) =
    (if c \<noteq> aspas then csv_ler True (c # cur) fs rows s
     else case s of
       d # s' \<Rightarrow> if d = aspas then csv_ler True (aspas # cur) fs rows s' else csv_ler False cur fs rows s
     | [] \<Rightarrow> csv_ler False cur fs rows [])"


text \<open>The admin page's own list of states for the event form.\<close>

definition estadosBrasil_admin :: "string list" where
  "estadosBrasil_admin = [''AC'', ''AL'', ''AP'', ''AM'', ''BA'', ''CE'', ''DF'', ''ES'', ''GO'', ''MA'',
     ''MT'', ''MS'', ''MG'', ''PA'', ''PB'', ''PR'', ''PE'', ''PI'', ''RJ'', ''RN'',
     ''RS'', ''RO'', ''RR'', ''SC'', ''SP'', ''SE'', ''TO'']"

text \<open>\<open>exportarDados\<close>: the object it serialises and the name of the downloaded file,
  from \<open>agora\<close>, the value of \<open>new Date().toISOString()\<close> (read twice by the code, once
  here). The \<open>Blob\<close>, the object URL and the click are browser effects.\<close>

record dados_exportacao =
  exp_viagens :: "viagem_salva list"
  exp_totalEmissao :: real
  exp_totalCreditos :: real
  exp_totalArvores :: real
  dataExportacao :: string

definition nome_arquivo :: "string \<Rightarrow> string \<Rightarrow> string" where
  "nome_arquivo ext agora = ''dados_carbono_'' @ hd (split_on (CHR ''T'') agora) @ ext"

definition exportarDados :: "string \<Rightarrow> admin_state \<Rightarrow> dados_exportacao \<times> string" where
  "exportarDados agora a =
    (\<lparr>exp_viagens = viagens a, exp_totalEmissao = totalEmissao a, exp_totalCreditos = totalCreditos a,
      exp_totalArvores = totalArvores a, dataExportacao = agora\<rparr>,
     nome_arquivo ''.json'' agora)"

text \<open>\<open>formatarData\<close>: \<open>data\<close> is \<open>new Date(d).toLocaleDateString('pt-BR')\<close>.\<close>

definition formatarData :: "(string \<Rightarrow> string) \<Rightarrow> string \<Rightarrow> string" where
  "formatarData data d = (if d = [] then ''-'' else data d)"

subsection \<open>The page's handlers as a step relation\<close>

text \<open>The page starts from \<open>ngOnInit\<close> over the store; then the user edits the event
  form (each change runs the postal-code mask of \<open>configurarMascaraCEP\<close>), saves or
  removes the event, deletes a trip, clears all trips or logs out, each confirmation
  answered \<open>ok\<close>. The store is the second component of the state.\<close>

inductive admin_step :: "admin_state \<times> local_storage \<Rightarrow> admin_state \<times> local_storage \<Rightarrow> bool" where
  admin_editar: "admin_step (a, ls) (a\<lparr>eventoForm := mascaraCEP_evento f\<rparr>, ls)"
| admin_salvar: "admin_step al (salvarEvento_admin al)"
| admin_remover: "admin_step al (removerEvento_admin ok al)"
| admin_excluir: "admin_step al (excluirViagem_admin ok i al)"
| admin_limpar: "admin_step al (limparTodos ok al)"
| admin_sair: "admin_step (a, ls) (a, storage (logout_admin ok \<lparr>storage = ls, isAuthenticatedSubject = b\<rparr>))"

inductive admin_reach :: "local_storage \<Rightarrow> admin_state \<times> local_storage \<Rightarrow> bool" for ls0 where
  admin_reach_init: "admin_reach ls0 (admin_init ls0, ls0)"
| admin_reach_step: "admin_reach ls0 al \<Longrightarrow> admin_step al al' \<Longrightarrow> admin_reach ls0 al'"

text \<open>What the page shows agrees with the store: the trips, their totals and the event.\<close>

definition admin_consistente :: "admin_state \<times> local_storage \<Rightarrow> bool" where
  "admin_consistente al \<longleftrightarrow>
    (let (a, ls) = al in
     viagens a = obterViagens ls \<and>
     totalEmissao a = sum_list (map (\<lambda>v. emissaoCO2 (viagem_salva.resultado v)) (viagens a)) \<and>
     totalCreditos a = sum_list (map (\<lambda>v. creditosCarbono (viagem_salva.resultado v)) (viagens a)) \<and>
     totalArvores a = sum_list (map (\<lambda>v. equivalenteArvores (viagem_salva.resultado v)) (viagens a)) \<and>
     eventoAtual a = obterEvento ls)"

inductive_cases admin_stepE: "admin_step al al'"

section \<open>Lemmas\<close>

lemma calcularTotais_sums:
  "totalEmissao (calcularTotais a) = sum_list (map (\<lambda>v. emissaoCO2 (viagem_salva.resultado v)) (viagens a))"
  "totalCreditos (calcularTotais a) = sum_list (map (\<lambda>v. creditosCarbono (viagem_salva.resultado v)) (viagens a))"
  "totalArvores (calcularTotais a) = sum_list (map (\<lambda>v. equivalenteArvores (viagem_salva.resultado v)) (viagens a))"
  by (simp_all add: calcularTotais_def foldl_plus_sum_list)

lemma estadosBrasil_admin_eq: "estadosBrasil_admin = estadosBrasil"
  by (simp add: estadosBrasil_admin_def estadosBrasil_def)

text \<open>The two copies of \<open>formatarMeioTransporte\<close>, in the form and in the admin page,
  compute the same function.\<close>

lemma formatarMeioTransporte_form_eq: "formatarMeioTransporte_form = formatarMeioTransporte"
  by (simp add: fun_eq_iff formatarMeioTransporte_form_def formatarMeioTransporte_def
      meios_formulario_def meios_rotulos_def)

lemma nome_arquivo_iso:
  "CHR ''T'' \<notin> set d \<Longrightarrow> nome_arquivo ext (d @ CHR ''T'' # t) = ''dados_carbono_'' @ d @ ext"
  by (simp add: nome_arquivo_def split_on_append_sep)

lemma exportarDados_carregarViagens:
  "exp_viagens (fst (exportarDados agora (carregarViagens ls a))) = obterViagens ls \<and>
   exp_totalEmissao (fst (exportarDados agora (carregarViagens ls a))) =
     sum_list (map (\<lambda>v. emissaoCO2 (viagem_salva.resultado v)) (obterViagens ls)) \<and>
   exp_totalCreditos (fst (exportarDados agora (carregarViagens ls a))) =
     sum_list (map (\<lambda>v. creditosCarbono (viagem_salva.resultado v)) (obterViagens ls)) \<and>
   exp_totalArvores (fst (exportarDados agora (carregarViagens ls a))) =
     sum_list (map (\<lambda>v. equivalenteArvores (viagem_salva.resultado v)) (obterViagens ls))"
  by (simp add: exportarDados_def carregarViagens_def calcularTotais_def foldl_plus_sum_list)

lemma csv_plain:
  "\<forall>c \<in> set x. c \<noteq> CHR '','' \<and> c \<noteq> aspas \<and> c \<noteq> nova_linha \<Longrightarrow>
   csv_ler False cur fs rows (x @ r) = csv_ler False (rev x @ cur) fs rows r"
  by (induction x arbitrary: cur) simp_all

lemma csv_quoted:
  "r = [] \<or> hd r \<noteq> aspas \<Longrightarrow>
   csv_ler True cur fs rows (concat (map (\<lambda>c. if c = aspas then [aspas, aspas] else [c]) x) @ aspas # r) =
   csv_ler False (rev x @ cur) fs rows r"
proof (induction x arbitrary: cur)
  case Nil
  then show ?case by (cases r) auto
next
  case (Cons c x)
  then show ?case by (cases "c = aspas") simp_all
qed

lemma csv_cell:
  "r = [] \<or> hd r = CHR '','' \<or> hd r = nova_linha \<Longrightarrow>
   csv_ler False [] fs rows (escapar_csv x @ r) = csv_ler False (rev x) fs rows r"
proof (cases "CHR '','' \<in> set x \<or> aspas \<in> set x \<or> nova_linha \<in> set x")
  case True
  moreover assume "r = [] \<or> hd r = CHR '','' \<or> hd r = nova_linha"
  then have "r = [] \<or> hd r \<noteq> aspas" by auto
  ultimately show ?thesis by (simp add: escapar_csv_def csv_quoted)
next
  case False
  then have "\<forall>c \<in> set x. c \<noteq> CHR '','' \<and> c \<noteq> aspas \<and> c \<noteq> nova_linha" by auto
  with False show ?thesis by (simp add: escapar_csv_def csv_plain)
qed

lemma csv_row:
  "cs \<noteq> [] \<Longrightarrow> r = [] \<or> hd r = nova_linha \<Longrightarrow>
   csv_ler False [] fs rows (js_join '','' (map escapar_csv cs) @ r) =
   csv_ler False (rev (last cs)) (rev (butlast cs) @ fs) rows r"
proof (induction cs arbitrary: fs rule: list_nonempty_induct)
  case (single x)
  then show ?case by (auto intro: csv_cell)
next
  case (cons x cs)
  have "csv_ler False [] fs rows (js_join '','' (map escapar_csv (x # cs)) @ r) =
        csv_ler False [] fs rows (escapar_csv x @ CHR '','' # js_join '','' (map escapar_csv cs) @ r)"
    using cons.hyps by (cases cs) simp_all
  also have "\<dots> = csv_ler False [] (x # fs) rows (js_join '','' (map escapar_csv cs) @ r)"
    by (simp add: csv_cell)
  also have "\<dots> = csv_ler False (rev (last cs)) (rev (butlast cs) @ x # fs) rows r"
    using cons.IH cons.prems by simp
  finally show ?case using cons.hyps by simp
qed

lemma csv_doc:
  "rss \<noteq> [] \<Longrightarrow> \<forall>cs \<in> set rss. cs \<noteq> [] \<Longrightarrow>
   csv_ler False [] [] rows (js_join [nova_linha] (map (\<lambda>cs. js_join '','' (map escapar_csv cs)) rss)) =
   rev rows @ rss"
proof (induction rss arbitrary: rows rule: list_nonempty_induct)
  case (single cs)
  then show ?case using csv_row [of cs "[]" "[]" rows] by simp
next
  case (cons cs rss)
  have "csv_ler False [] [] rows (js_join [nova_linha] (map (\<lambda>cs. js_join '','' (map escapar_csv cs)) (cs # rss))) =
        csv_ler False [] [] rows (js_join '','' (map escapar_csv cs) @ nova_linha #
          js_join [nova_linha] (map (\<lambda>cs. js_join '','' (map escapar_csv cs)) rss))"
    using cons.hyps by (cases rss) simp_all
  also have "\<dots> = csv_ler False [] [] (cs # rows)
      (js_join [nova_linha] (map (\<lambda>cs. js_join '','' (map escapar_csv cs)) rss))"
    using cons.prems csv_row [of cs _ "[]" rows] by simp
  also have "\<dots> = rev (cs # rows) @ rss"
    using cons.IH cons.prems by simp
  finally show ?case by simp
qed

lemma headers_sem_escape: "map escapar_csv headers = headers"
  by (simp add: headers_def escapar_csv_def)


lemma length_linhas_csv:
  "map length (linhas_csv num fixo data a) = replicate (Suc (length (viagens a))) (length headers)"
proof -
  have "length (linha_viagem data v) = length headers" for v
    by (simp add: linha_viagem_def headers_def)
  moreover have "length (linha_totais num fixo a) = length headers"
    by (simp add: linha_totais_def headers_def)
  ultimately show ?thesis
    by (simp add: linhas_csv_def comp_def map_replicate_const replicate_append_same)
qed

text \<open>C40: the CSV file the admin page exports reads back, after its byte-order mark, as exactly the header row followed by one row per stored trip and the totals row, each cell the text \<open>String(campo || '')\<close> gave it, whatever commas, quotes or line breaks the traveller typed: the escaping round-trips, and every row has as many cells as the header.\<close>

theorem exportarParaExcel_roundtrip:
  "csv_ler False [] [] [] (drop 3 (exportarParaExcel num fixo data a)) = headers # linhas_csv num fixo data a \<and>
   map length (linhas_csv num fixo data a) = replicate (Suc (length (viagens a))) (length headers)"
proof -
  let ?rss = "headers # linhas_csv num fixo data a"
  have "\<forall>l \<in> set (linhas_csv num fixo data a). length l = length headers"
    using arg_cong [OF length_linhas_csv [of num fixo data a], of set] by auto
  moreover have "headers \<noteq> []" by (simp add: headers_def)
  ultimately have ne: "\<forall>cs \<in> set ?rss. cs \<noteq> []" by auto
  have "drop 3 (exportarParaExcel num fixo data a) =
        js_join [nova_linha] (map (\<lambda>cs. js_join '','' (map escapar_csv cs)) ?rss)"
    by (simp add: exportarParaExcel_def headers_sem_escape)
  with csv_doc [OF _ ne, of "[]"] show ?thesis
    using length_linhas_csv by simp
qed

lemma carregarViagens_consistente:
  "eventoAtual a = obterEvento ls \<Longrightarrow> admin_consistente (carregarViagens ls a, ls)"
  by (simp add: admin_consistente_def carregarViagens_def calcularTotais_def foldl_plus_sum_list)

lemma eventoAtual_carregarEvento_admin: "eventoAtual (carregarEvento_admin ls a) = obterEvento ls"
  by (simp add: carregarEvento_admin_def split: option.split)

lemma excluirViagem_admin_consistente:
  assumes "admin_consistente (a, ls)"
  shows "admin_consistente (excluirViagem_admin ok i (a, ls))"
proof (cases ok)
  case True
  from assms have "eventoAtual a = obterEvento (excluirViagem i ls)"
    by (simp add: admin_consistente_def obterEvento_def)
  with True show ?thesis by (simp add: excluirViagem_admin_def carregarViagens_consistente Let_def)
qed (use assms in \<open>simp add: excluirViagem_admin_def\<close>)

lemma limparTodos_consistente:
  assumes "admin_consistente (a, ls)"
  shows "admin_consistente (limparTodos ok (a, ls))"
proof (cases ok)
  case True
  from assms have "eventoAtual a = obterEvento (ls\<lparr>ls_viagens_carbono := None\<rparr>)"
    by (simp add: admin_consistente_def obterEvento_def)
  with True show ?thesis by (simp add: limparTodos_def carregarViagens_consistente Let_def)
qed (use assms in \<open>simp add: limparTodos_def\<close>)

lemma salvarEvento_admin_consistente:
  "admin_consistente (a, ls) \<Longrightarrow> admin_consistente (salvarEvento_admin (a, ls))"
  by (simp add: salvarEvento_admin_def admin_consistente_def salvarEvento_def obterEvento_def obterViagens_def Let_def)

lemma removerEvento_admin_consistente:
  "admin_consistente (a, ls) \<Longrightarrow> admin_consistente (removerEvento_admin ok (a, ls))"
  by (simp add: removerEvento_admin_def admin_consistente_def removerEvento_def obterEvento_def obterViagens_def)

lemma admin_step_consistente:
  assumes "admin_step al al'" "admin_consistente al"
  shows "admin_consistente al'"
  using assms
proof (induction rule: admin_step.induct)
  case (admin_excluir al ok i)
  then show ?case by (cases al) (simp add: excluirViagem_admin_consistente)
next
  case (admin_limpar al ok)
  then show ?case by (cases al) (simp add: limparTodos_consistente)
next
  case (admin_salvar al)
  then show ?case by (cases al) (simp add: salvarEvento_admin_consistente)
next
  case (admin_remover al ok)
  then show ?case by (cases al) (simp add: removerEvento_admin_consistente)
qed (simp_all add: admin_consistente_def logout_admin_def logout_def obterEvento_def obterViagens_def)

text \<open>C25: in every state the admin page reaches from \<open>ngOnInit\<close> by any sequence of its handlers (editing, saving and removing the event, deleting a trip, clearing all trips, logging out, each confirmation answered either way), the trips it lists are the trips in the store, its totals are the sums of their emissions, credits and trees, and the event it shows is the stored event.\<close>

theorem admin_store_consistente:
  assumes "admin_reach ls0 (a, ls)"
  shows "viagens a = obterViagens ls \<and>
    totalEmissao a = sum_list (map (\<lambda>v. emissaoCO2 (viagem_salva.resultado v)) (viagens a)) \<and>
    totalCreditos a = sum_list (map (\<lambda>v. creditosCarbono (viagem_salva.resultado v)) (viagens a)) \<and>
    totalArvores a = sum_list (map (\<lambda>v. equivalenteArvores (viagem_salva.resultado v)) (viagens a)) \<and>
    eventoAtual a = obterEvento ls"
proof -
  have "admin_consistente (a, ls)"
    using assms
  proof (induction "(a, ls)" arbitrary: a ls rule: admin_reach.induct)
    case admin_reach_init
    then show ?case
      by (simp add: admin_init_def carregarViagens_consistente eventoAtual_carregarEvento_admin)
  next
    case (admin_reach_step al)
    then show ?case by (cases al) (blast intro: admin_step_consistente)
  qed
  then show ?thesis by (simp add: admin_consistente_def)
qed

theorem admin_store_consistente_witness:
  "viagens (fst (limparTodos True (admin_init storage_vazio, storage_vazio))) =
     obterViagens (snd (limparTodos True (admin_init storage_vazio, storage_vazio)))"
proof -
  have "admin_reach storage_vazio (limparTodos True (admin_init storage_vazio, storage_vazio))"
    by (meson admin_reach.intros admin_step.intros)
  then show ?thesis
    using admin_store_consistente [of storage_vazio "fst (limparTodos True (admin_init storage_vazio, storage_vazio))"
        "snd (limparTodos True (admin_init storage_vazio, storage_vazio))"] by simp
qed

end
