(* ===== verification/Fork_Join.thy ===== *)
theory Fork_Join
  imports Emission_Calculator
begin

text \<open>
  How rxjs \<open>forkJoin\<close> collects the values of its sources, which
  \<open>calcularEmissao\<close> relies on to keep the legs in order while their postal-code
  requests complete in any order. The library keeps an array of slots, one per source,
  and a count of sources that have not yet emitted; a value of source \<open>i\<close> is stored
  in slot \<open>i\<close>, and when every source has emitted and completed the array is emitted.
  Completion order is an explicit list of events; the theorem shows that every order
  yields the sources' values in index order, which is what \<open>fork_join\<close> of the
  prelude (and so the model of \<open>calcularEmissao\<close>) assumes.
\<close>

record 'a fj_state =
  fj_values :: "'a option list"
  fj_remaining :: nat

definition fj_init :: "nat \<Rightarrow> 'a fj_state" where
  "fj_init n = \<lparr>fj_values = replicate n None, fj_remaining = n\<rparr>"

text \<open>Source \<open>i\<close> emits \<open>x\<close>: the first value of a source decrements the count.\<close>

fun fj_emit :: "'a fj_state \<Rightarrow> nat \<times> 'a \<Rightarrow> 'a fj_state" where
  "fj_emit s (i, x) =
     \<lparr>fj_values = (fj_values s)[i := Some x],
      fj_remaining = (if fj_values s ! i = None then fj_remaining s - 1 else fj_remaining s)\<rparr>"

definition fj_run :: "'a fj_state \<Rightarrow> (nat \<times> 'a) list \<Rightarrow> 'a fj_state" where
  "fj_run s evs = foldl fj_emit s evs"

fun fj_all :: "'a option list \<Rightarrow> 'a list option" where
  "fj_all [] = Some []"
| "fj_all (None # _) = None"
| "fj_all (Some x # xs) = map_option (Cons x) (fj_all xs)"

text \<open>After every source completed: the array if every source emitted.\<close>

definition fj_result :: "'a fj_state \<Rightarrow> 'a list option" where
  "fj_result s = (if fj_remaining s = 0 then fj_all (fj_values s) else None)"

text \<open>The events of sources completing in the order \<open>ord\<close>, source \<open>i\<close> emitting \<open>vs ! i\<close>.\<close>

definition fj_eventos :: "nat list \<Rightarrow> 'a list \<Rightarrow> (nat \<times> 'a) list" where
  "fj_eventos ord vs = map (\<lambda>i. (i, vs ! i)) ord"

section \<open>Lemmas\<close>

lemma fj_all_map_Some [simp]: "fj_all (map Some xs) = Some xs"
  by (induction xs) simp_all

lemma fj_run_prefix:
  assumes "distinct p" "set p \<subseteq> {..<length vs}"
  shows "fj_run (fj_init (length vs)) (fj_eventos p vs) =
    \<lparr>fj_values = map (\<lambda>j. if j \<in> set p then Some (vs ! j) else None) [0..<length vs],
     fj_remaining = length vs - length p\<rparr>"
  using assms
proof (induction p rule: rev_induct)
  case Nil
  then show ?case by (simp add: fj_run_def fj_eventos_def fj_init_def map_replicate_const)
next
  case (snoc i p)
  then have i: "i < length vs" "i \<notin> set p" and p: "distinct p" "set p \<subseteq> {..<length vs}" by auto
  have "fj_run (fj_init (length vs)) (fj_eventos (p @ [i]) vs) =
        fj_emit (fj_run (fj_init (length vs)) (fj_eventos p vs)) (i, vs ! i)"
    by (simp add: fj_run_def fj_eventos_def)
  also have "\<dots> = \<lparr>fj_values = map (\<lambda>j. if j \<in> set (p @ [i]) then Some (vs ! j) else None) [0..<length vs],
     fj_remaining = length vs - length (p @ [i])\<rparr>"
  proof -
    have "(map (\<lambda>j. if j \<in> set p then Some (vs ! j) else None) [0..<length vs])[i := Some (vs ! i)] =
          map (\<lambda>j. if j \<in> set (p @ [i]) then Some (vs ! j) else None) [0..<length vs]"
      using i by (intro nth_equalityI) (auto simp: nth_list_update)
    moreover have "map (\<lambda>j. if j \<in> set p then Some (vs ! j) else None) [0..<length vs] ! i = None"
      using i by simp
    ultimately show ?thesis
      using snoc.IH [OF p] by simp
  qed
  finally show ?case .
qed

lemma fj_collects:
  assumes "distinct ord" "set ord = {..<length vs}"
  shows "fj_result (fj_run (fj_init (length vs)) (fj_eventos ord vs)) = Some vs"
proof -
  have len: "length ord = length vs"
    using assms by (metis card_lessThan distinct_card)
  have "map (\<lambda>j. if j \<in> set ord then Some (vs ! j) else None) [0..<length vs] = map Some vs"
    using assms(2) by (intro nth_equalityI) auto
  moreover have "fj_run (fj_init (length vs)) (fj_eventos ord vs) =
    \<lparr>fj_values = map (\<lambda>j. if j \<in> set ord then Some (vs ! j) else None) [0..<length vs],
     fj_remaining = length vs - length ord\<rparr>"
    using assms by (intro fj_run_prefix) auto
  ultimately show ?thesis
    using len by (simp add: fj_result_def)
qed

text \<open>The legs of \<open>calcularEmissao\<close> may complete in any order (any permutation of their indices): forkJoin's slot array still collects their results in leg order, and the trip result \<open>calcularEmissao\<close> emits aggregates exactly that list.\<close>

lemma fj_any_order:
  assumes "api_settles api" "viagem.trechos v \<noteq> []"
    and "distinct ord" "set ord = {..<length (viagem.trechos v)}"
  shows "\<exists>rs. map (\<lambda>(index, t). calculo_trecho api v index t) (enumerate 0 (viagem.trechos v)) = map Emits rs \<and>
    fj_result (fj_run (fj_init (length rs)) (fj_eventos ord rs)) = Some rs \<and>
    calcularEmissao api v = Emits (processarCalculoMultiploTrechos v rs)"
proof -
  from calculosTrechos_Emits [OF assms(1)] obtain rs
    where rs: "map (\<lambda>(index, t). calculo_trecho api v index t) (enumerate 0 (viagem.trechos v)) = map Emits rs" ..
  then have len: "length rs = length (viagem.trechos v)"
    by (metis length_enumerate length_map)
  with assms(2) have "rs \<noteq> []" by auto
  then have "calcularEmissao api v = Emits (processarCalculoMultiploTrechos v rs)"
    using assms(2) rs by (simp add: calcularEmissao_nonempty fork_join_map_Emits)
  moreover have "fj_result (fj_run (fj_init (length rs)) (fj_eventos ord rs)) = Some rs"
    using assms(3,4) len by (intro fj_collects) simp_all
  ultimately show ?thesis using rs by blast
qed

end
