(* ===== verification/Spec2Isabelle.thy ===== *)
theory Spec2Isabelle
  imports Admin Fork_Join
begin

text \<open>
  \<^bold>\<open>A verification library for Credita-Carb\<close>, the Angular application that computes
  the carbon footprint of a multi-leg trip to an event.

  \<^bold>\<open>The program.\<close> The form component (\<open>components/formulario\<close>) collects the
  legs of a trip and calls \<open>CarbonCalculatorService.calcularEmissao\<close>
  (\<open>services/carbon-calculator.service.ts\<close>). That service resolves the distance of
  every leg (\<open>calcularDistanciaTrecho\<close>), in parallel, through
  \<open>GeocodingService\<close> (\<open>services/geocoding.service.ts\<close>): postal codes go to the
  ViaCEP web service and a table of metropolitan distances, city pairs to a table of
  hub distances and string-based estimates. It joins the legs with rxjs
  \<open>forkJoin\<close>, computes each leg's emission from a factor table, and aggregates the
  trip (sums, round-trip doubling, credits, trees, car-km, rounding). The form then
  stores the trip with its result in \<open>localStorage\<close> (\<open>salvarViagem\<close>); the same
  store holds the event the admin configures and the login flag of
  \<open>AuthService\<close> (\<open>services/auth.service.ts\<close>), which the login page
  (\<open>components/login\<close>) sets. The admin page (\<open>components/admin\<close>) lists, totals,
  deletes and exports the stored trips as CSV. City suggestions come from the IBGE web
  service (\<open>buscarCidadesPorEstado\<close>).

  \<^bold>\<open>The theories.\<close>
  \<^item> \<open>Prelude\<close>: the JavaScript semantics the code relies on: numbers as
    \<^typ>\<open>real\<close>, \<open>Math.round\<close> (\<open>js_round\<close>, \<open>round_dec\<close>), truthiness of
    optional fields (\<open>truthy\<close>, \<open>str_or\<close>, \<open>pos_num\<close>), UTF-8 strings with
    \<open>toLowerCase\<close>, \<open>trim\<close>, \<open>split\<close> and the digit filter, and single-value
    rxjs observables (\<open>'a obs\<close>: \<open>Emits\<close>, \<open>Fails\<close>, \<open>Silent\<close>) with
    \<open>of\<close>, \<open>map\<close>, \<open>catchError\<close>, \<open>forkJoin\<close>.
  \<^item> \<open>Trip_Model\<close>: the interfaces \<open>TrechoViagem\<close>, \<open>ViagemData\<close>,
    \<open>CalculoResultado\<close>, \<open>EventoConfig\<close> as records, field for field.
  \<^item> \<open>Emission_Factors\<close>: the table \<open>fatoresEmissao\<close> and
    \<open>obterFatorEmissaoTrecho\<close>, beside the specification's table over closed datatypes
    (\<open>fator_spec\<close>); the refinement lemma relates them.
  \<^item> \<open>Geocoding\<close>: \<open>buscarCEP\<close>, \<open>calcularDistanciaCEP\<close> with
    \<open>obterDistanciasRegiaoMetropolitana\<close>, and \<open>calcularDistancia\<close> with
    \<open>estimarDistanciaPorCoordenadas\<close> and \<open>estimarDistanciaSimples\<close>. The HTTP call
    is a parameter \<open>api\<close> of type \<open>via_cep_api\<close>; its contract (Angular's
    \<open>HttpClient\<close> answers or fails, \<open>api_settles\<close>) is the only hypothesis the
    pipeline's totality needs.
  \<^item> \<open>Distance_Resolver\<close>: \<open>calcularDistanciaTrecho\<close>, split as the code is into
    the explicit-distance test and \<open>distancia_por_modo\<close>.
  \<^item> \<open>Emission_Calculator\<close>: \<open>calcularEmissaoTrecho\<close>,
    \<open>processarCalculoMultiploTrechos\<close> (with its \<open>forEach\<close> as
    \<open>somar_resultados\<close>) and \<open>calcularEmissao\<close>.
  \<^item> \<open>Fork_Join\<close>: rxjs \<open>forkJoin\<close> as the library runs it, a slot array filled
    by completion events in any order, refining the prelude's \<open>fork_join\<close>.
  \<^item> \<open>Persistence\<close>: \<open>localStorage\<close> as a record with one field per key, and the
    service's \<open>salvarViagem\<close>, \<open>obterViagens\<close>, \<open>excluirViagem\<close> (with
    \<open>splice\<close> as \<open>js_splice1\<close>), \<open>salvarEvento\<close>, \<open>obterEvento\<close>,
    \<open>removerEvento\<close>.
  \<^item> \<open>Auth\<close>: \<open>AuthService\<close> (store flag and \<open>BehaviorSubject\<close>),
    \<open>LoginComponent\<close> (\<open>ngOnInit\<close>, \<open>onSubmit\<close>), the header
    \<open>AppComponent\<close> (its copy of the subject, navigation items and logout), and the
    step relation \<open>auth_step\<close> with its reachable states \<open>auth_reach\<close>.
  \<^item> \<open>Cities\<close>: \<open>buscarCidadesPorEstado\<close>, \<open>buscarTodasCidades\<close> over an IBGE
    gateway parameter (contract \<open>ibge_settles\<close>), and the autocomplete filter
    \<open>filtrarCidadesTrecho\<close>.
  \<^item> \<open>Form\<close>: \<open>FormularioComponent\<close>: its state as a record, one definition per
    handler (\<open>adicionarTrecho\<close>, \<open>removerTrecho\<close>, \<open>atualizarTrecho\<close>, the
    postal-code handlers, \<open>calcular\<close> split into \<open>calcular_validar\<close> and the
    subscription, \<open>enviar\<close>, \<open>resetarFormulario\<close>), and the step relation
    \<open>form_step\<close> that runs them in any order, interleaved with changes of the store.
  \<^item> \<open>Form_View\<close>: the rest of \<open>FormularioComponent\<close>: the option catalogs of the
    selects, \<open>ngOnInit\<close>, the display helpers, the touched flags of the controls
    (\<open>marcarCamposInvalidos\<close>, \<open>campoInvalido\<close>), and the control names that
    \<open>atualizarValidadoresTransporte\<close> asks for, which the form group does not have.
  \<^item> \<open>Admin\<close>: \<open>AdminComponent\<close>: loading and totals, the event form, deletion,
    logout, the CSV export \<open>exportarParaExcel\<close>, with an RFC 4180 reader
    \<open>csv_ler\<close> to state its round trip, the JSON export's data and file name
    (\<open>exportarDados\<close>) and \<open>formatarData\<close>.

  \<^bold>\<open>What is proved.\<close> The pipeline always yields a result that aggregates one result
  per leg in input order (C1), whatever order the requests complete in (C25); the
  resolver gives explicit distances precedence (C2) and always settles on a non-negative
  distance (C3); aggregation is additive (C4), the round-trip doubling is linear (C5),
  the tree equivalent never understates (C6) and the rounding error is bounded (C7);
  factors are bounded (C8) and refine the specified table (C9); the postal-code cascade
  is bounded by 100 km (C10) and each of its branches is characterised (C11, C13);
  whatever the gateway does, every emitted result is well formed: whole counts, two or
  three decimals, nothing negative (C12);
  location strings round-trip through the comma-separated form (C14); car-pool division
  holds (C21). The form's loading state always ends (C22). Where the code departs from
  the specification, a theorem states what the code does: the 500 km fallback is dead
  (C15), an origin equal to the destination is 300 km (C16), road legs ignore their own destination (C18), plane and train legs
  need an origin (C19) and assume a Brazilian origin (C20), reported round-trip totals
  are not exact doubles (C23), and composite mode strings pick up table factors (C24).
  Login accepts only the hard-coded credentials (C26), the header's login state and its
  links agree with the store in every reachable state (C27), and the login page's handler is
  characterised (C28). Deleting and saving trips behave as \<open>splice\<close> and append do
  (C29 to C31). The city filter and the IBGE lists are characterised (C32, C33). The
  form never loses its last leg (C34), changing a leg's mode clears that leg alone
  (C35), \<open>calcular\<close> sends only complete legs (C36) that the resolver routes by their
  own fields (C39), \<open>enviar\<close> stores no legs (C37), and the postal-code mask round-trips
  (C38). Every option the form's selects offer is priced by its own factor and every
  offered state is known to the IBGE lookup (C17). The exported CSV reads back to its
  rows (C40).

  \<^bold>\<open>Modelling choices.\<close> Numbers are exact reals: IEEE-754 rounding of intermediate
  results is not modelled, only the code's explicit \<open>Math.round\<close> and
  \<open>Math.ceil\<close>. Strings are UTF-8 byte lists; \<open>toLowerCase\<close> covers ASCII and the
  Latin-1 capitals, \<open>trim\<close> the ASCII white space. Table lookups ignore properties
  of \<open>Object.prototype\<close>. An observable carries at most one value; a request that
  never answers is \<open>Silent\<close>. The environment is passed explicitly: the HTTP
  gateways (\<open>api\<close>, \<open>ibge\<close>), Angular's e-mail validator (\<open>email_ok\<close>), the
  clock (\<open>agora\<close>, \<open>data\<close>), \<open>toLocaleString\<close> and \<open>toFixed\<close> (\<open>num\<close>, \<open>fixo\<close>) and
  \<open>confirm\<close>. \<open>JSON.stringify\<close> and \<open>JSON.parse\<close> are the identity on stored
  values. There are no loops without a bound: every recursion is structural or has a termination proof from \<open>fun\<close>, so
  no fuel is needed.

  \<^bold>\<open>Not modelled.\<close> The route guard \<open>guards/auth.guard.ts\<close> that
  \<open>app.routes.ts\<close> imports is not in the repository. Of the downloads only the data
  and the file name are modelled: the \<open>Blob\<close>, the object URL and the click are
  browser effects. The validators of the form controls are those of
  \<open>inicializarFormulario\<close>; the model does not track \<open>setValidators\<close>, which
  \<open>atualizarValidadoresTransporte\<close> would call only on controls that do not exist.
  Templates and styles are not TypeScript; what the component classes compute for
  them is modelled.
\<close>


section \<open>Properties across components\<close>

text \<open>C39: the form and the resolver agree: a leg that \<open>calcular\<close> sends without an explicit distance never reaches the resolver's zero fallbacks. A plane or train leg is estimated from its own origin city and state to its own destination city; a road leg goes through the postal-code cascade with its digits. (The resolver's missing-origin branch, C19, is reachable only by callers other than the form.)\<close>

theorem form_legs_resolved_by_route:
  assumes "Form.calcular_validar email_ok s = (s', Inr v)"
    and "case Form.evento s of Some ev \<Rightarrow> evento_config.cidade ev \<noteq> [] | None \<Rightarrow> True"
    and "t \<in> set (viagem.trechos v)" and "\<not> pos_num (distanciaKm t)"
  shows "(meioTransporte t = ''aviao'' \<or> meioTransporte t = ''trem'' \<longrightarrow>
           (\<exists>oC oE dC. origemCidade t = Some oC \<and> origemEstado t = Some oE \<and> trecho.destinoCidade t = Some dC \<and>
              calcularDistanciaTrecho api t v i =
              calcularDistancia oC oE ''Brasil'' dC (str_or (trecho.destinoEstado t) (viagem.destinoEstado v))
                (viagem.destinoPais v))) \<and>
         (meioTransporte t \<in> set modos_rodoviarios \<longrightarrow>
           (\<exists>c. cepOrigem t = Some c \<and> c \<noteq> [] \<and>
              calcularDistanciaTrecho api t v i =
              calcularDistanciaCEP api (only_digits c) (viagem.destinoCidade v) (viagem.destinoEstado v)))"
proof -
  have "trecho_pronto t"
    using calcular_validar_prontos [OF assms(1,2)] assms(3) by blast
  then show ?thesis
    using assms(4)
    by (auto simp: trecho_pronto_def truthy_def calcularDistanciaTrecho_no_explicit distancia_por_modo_def
        modos_rodoviarios_def Let_def split: option.splits)
qed

theorem form_legs_resolved_by_route_witness:
  "calcularDistanciaTrecho api_falha
     (hd (viagem.trechos (projr (snd (Form.calcular_validar (\<lambda>_. True) (estado_exemplo
        [(trecho_vazio ''aviao'')\<lparr>origemCidade := Some sao_paulo, origemEstado := Some ''SP''\<rparr>]))))))
     (projr (snd (Form.calcular_validar (\<lambda>_. True) (estado_exemplo
        [(trecho_vazio ''aviao'')\<lparr>origemCidade := Some sao_paulo, origemEstado := Some ''SP''\<rparr>])))) 0
   = calcularDistancia sao_paulo ''SP'' ''Brasil'' vitoria ''ES'' ''Brasil''"
proof -
  let ?s = "estado_exemplo [(trecho_vazio ''aviao'')\<lparr>origemCidade := Some sao_paulo, origemEstado := Some ''SP''\<rparr>]"
  let ?t = "(trecho_vazio ''aviao'')\<lparr>origemCidade := Some sao_paulo, origemEstado := Some ''SP'',
              trecho.destinoCidade := Some vitoria, trecho.destinoEstado := Some ''ES''\<rparr>"
  have cv: "Form.calcular_validar (\<lambda>_. True) ?s =
        (fst (Form.calcular_validar (\<lambda>_. True) ?s), Inr (projr (snd (Form.calcular_validar (\<lambda>_. True) ?s))))"
    by (simp add: calcular_validar_def com_meio_def campos_invalidos_def camposObrigatorios_def
        campo_valido_def truthy_def Let_def)
  have ts: "viagem.trechos (projr (snd (Form.calcular_validar (\<lambda>_. True) ?s))) = [?t]"
    by (simp add: calcular_validar_def com_meio_def campos_invalidos_def camposObrigatorios_def
        campo_valido_def truthy_def Let_def viagem_de_form_def)
  have v: "viagem.destinoEstado (projr (snd (Form.calcular_validar (\<lambda>_. True) ?s))) = ''ES''"
    "viagem.destinoPais (projr (snd (Form.calcular_validar (\<lambda>_. True) ?s))) = ''Brasil''"
    by (simp_all add: calcular_validar_def com_meio_def campos_invalidos_def camposObrigatorios_def
        campo_valido_def truthy_def Let_def viagem_de_form_def)
  have "?t \<in> set (viagem.trechos (projr (snd (Form.calcular_validar (\<lambda>_. True) ?s))))" "\<not> pos_num (distanciaKm ?t)"
    "case Form.evento ?s of Some ev \<Rightarrow> evento_config.cidade ev \<noteq> [] | None \<Rightarrow> True"
    using ts by (simp_all add: pos_num_def)
  from form_legs_resolved_by_route [OF cv this(3,1,2), of api_falha 0] show ?thesis
    using ts v by simp
qed

end
